theory Spec2Isabelle
  imports Main "HOL-Library.Word"
begin

section \<open>The directory tree of src/dir\_tree.c\<close>

text \<open>
  The embedding follows \<^verbatim>\<open>src/src/dir_tree.c\<close> function by function.

  \<^item> A \<^verbatim>\<open>DirEntry *\<close> is represented by the inode number of the entry: the inode
    index \<^verbatim>\<open>h_inodes\<close> is the store of all entry records, and a directory's
    \<^verbatim>\<open>h_dir_tree\<close> maps a basename to the inode number of the child. Every write
    through a pointer is a write to the store at that key, so two pointers to the same
    entry see each other's writes.
  \<^item> \<^verbatim>\<open>guint64\<close>, \<^verbatim>\<open>fuse_ino_t\<close> and \<^verbatim>\<open>size_t\<close> values are 64-bit words,
    \<^verbatim>\<open>mode_t\<close> and \<^verbatim>\<open>guint32\<close> values are 32-bit words; arithmetic on them wraps.
    \<^verbatim>\<open>time_t\<close> values are integers (seconds); every function that calls
    \<^verbatim>\<open>time (NULL)\<close> takes the value read as its first argument. The size of a
    directory blob is a natural number (see \<open>dirbuf_size\<close>).
  \<^item> A GLib hash table with string keys is an association list whose order is the
    iteration order of the table; \<^verbatim>\<open>NULL\<close> tables and strings are \<open>None\<close>. Where a
    new key lands in that order is decided by GLib's hashing; it is a parameter of the
    tree (\<open>slot\<close>), and the theorems hold for every choice of it.
  \<^item> A function that calls back or sends a request returns, next to the new tree, the
    list of these calls in the order the code makes them.
\<close>

subsection \<open>Data\<close>

type_synonym fuse_ino_t = "64 word"
type_synonym guint64 = "64 word"
type_synonym guint32 = "32 word"
type_synonym mode_t = "32 word"
type_synonym time_t = int
type_synonym size_t = "64 word"
type_synonym fuse_req_t = nat

datatype DirEntryType = DET_dir | DET_file

text \<open>
  Modelled from the spec: \<^verbatim>\<open>rfuse_add_dirbuf\<close> and \<^verbatim>\<open>struct dirbuf\<close> belong to the
  kernel adapter, which is not among the sources. The spec calls the result an opaque
  blob holding one formatted record per call, for a name, an inode and a size. The blob
  is kept as the sequence of these records, and its size is counted in records, so that
  a blob has size 0 exactly when nothing was added.
\<close>

type_synonym dirent = "string \<times> fuse_ino_t \<times> guint64"
type_synonym dirbuf = "dirent list"

definition rfuse_add_dirbuf :: "dirbuf \<Rightarrow> string \<Rightarrow> fuse_ino_t \<Rightarrow> guint64 \<Rightarrow> dirbuf" where
  "rfuse_add_dirbuf b name i sz = b @ [(name, i, sz)]"

definition dirbuf_size :: "dirbuf \<Rightarrow> nat" where
  "dirbuf_size b = length b"

text \<open>\<^verbatim>\<open>g_malloc0 (n)\<close> followed by \<^verbatim>\<open>memcpy\<close> of \<open>n\<close> bytes: GLib returns
  \<^verbatim>\<open>NULL\<close> for \<open>n = 0\<close>.\<close>

definition g_malloc0_copy :: "nat \<Rightarrow> dirbuf \<Rightarrow> dirbuf option" where
  "g_malloc0_copy n b = (if n = 0 then None else Some b)"

record DirEntry =
  ino :: fuse_ino_t
  parent_ino :: fuse_ino_t
  basename :: string
  fullpath :: string
  en_type :: DirEntryType
  age :: guint64
  removed :: bool
  is_modified :: bool
  en_size :: guint64
  mode :: mode_t
  ctime :: time_t
  dir_cache :: "dirbuf option"
  dir_cache_size :: nat
  dir_cache_created :: time_t
  dir_cache_updating :: bool
  h_dir_tree :: "(string \<times> fuse_ino_t) list option"
  is_updating :: bool
  updated_time :: time_t
  access_time :: time_t
  etag :: "string option"
  version_id :: "string option"
  content_type :: "string option"
  xattr_time :: time_t

text \<open>The configuration read through \<^verbatim>\<open>application_get_conf (dtree->app)\<close>.\<close>

record Application =
  dir_cache_max_time :: guint32
  file_cache_max_time :: guint32
  check_empty_files :: bool
  force_head_requests_on_lookup :: bool
  bucket_name :: string
  key_prefix :: string
  storage_type :: string
  file_mode :: int
  dir_mode :: int

text \<open>\<^verbatim>\<open>DirOpData\<close>, the per-open-directory handle that \<^verbatim>\<open>fi->fh\<close> points to.\<close>

record DirOpData =
  dop_buf :: "dirbuf option"
  dop_size :: nat

text \<open>
  \<^verbatim>\<open>struct _DirTree\<close>. The root pointer is the store key \<open>FUSE_ROOT_ID\<close>. The field
  \<open>dir_ops\<close> is the part of the C heap that holds the \<^verbatim>\<open>DirOpData\<close> objects
  allocated by \<^verbatim>\<open>dir_tree_opendir\<close>, keyed by the value stored in \<^verbatim>\<open>fi->fh\<close>. The field
  \<open>slot\<close> is not a field of the C structure: it stands for GLib's placement of a new
  name among the names already in a children table.
\<close>

record DirTree =
  h_inodes :: "fuse_ino_t \<rightharpoonup> DirEntry"
  app :: Application
  max_ino :: fuse_ino_t
  fmode :: mode_t
  dmode :: mode_t
  dir_ops :: "nat \<rightharpoonup> DirOpData"
  slot :: "string \<Rightarrow> (string \<times> fuse_ino_t) list \<Rightarrow> nat"

text \<open>Constants of the system headers: \<^verbatim>\<open>FUSE_ROOT_ID\<close> is 1; the file-type bits
  are octal 040000 (directory), 0100000 (regular file) and 0120000 (symbolic link); the
  default permissions are octal 0755 and 0644.\<close>

definition FUSE_ROOT_ID :: fuse_ino_t where
  "FUSE_ROOT_ID = 1"

definition S_IFDIR :: mode_t where
  "S_IFDIR = 16384"

definition S_IFREG :: mode_t where
  "S_IFREG = 32768"

definition S_IFLNK :: mode_t where
  "S_IFLNK = 40960"

definition DIR_DEFAULT_MODE :: mode_t where
  "DIR_DEFAULT_MODE = or S_IFDIR 493"

definition FILE_DEFAULT_MODE :: mode_t where
  "FILE_DEFAULT_MODE = or S_IFREG 420"

subsection \<open>GLib hash tables\<close>

definition g_hash_table_lookup :: "('k \<times> 'v) list option \<Rightarrow> 'k \<Rightarrow> 'v option" where
  "g_hash_table_lookup tbl k = (case tbl of None \<Rightarrow> None | Some kvs \<Rightarrow> map_of kvs k)"

text \<open>
  Inserting under an existing key replaces the value where it stands. A new key goes to
  the bucket that its hash and the state of the table select, so its place in the
  iteration order is not the tree's to choose: the model takes the place, an index into
  the list, as the argument \<open>n\<close> (an index past the end means the end).
\<close>

definition alist_insert :: "nat \<Rightarrow> 'k \<Rightarrow> 'v \<Rightarrow> ('k \<times> 'v) list \<Rightarrow> ('k \<times> 'v) list" where
  "alist_insert n k v kvs =
     (if map_of kvs k = None then take n kvs @ (k, v) # drop n kvs
      else map (\<lambda>p. if fst p = k then (k, v) else p) kvs)"

text \<open>\<open>place\<close> gives the place of a new key in a table; inserting into \<^verbatim>\<open>NULL\<close>
  does nothing.\<close>

definition g_hash_table_insert ::
  "('k \<Rightarrow> ('k \<times> 'v) list \<Rightarrow> nat) \<Rightarrow> ('k \<times> 'v) list option \<Rightarrow> 'k \<Rightarrow> 'v \<Rightarrow> ('k \<times> 'v) list option" where
  "g_hash_table_insert place tbl k v =
     (case tbl of None \<Rightarrow> None | Some kvs \<Rightarrow> Some (alist_insert (place k kvs) k v kvs))"

subsection \<open>Entries\<close>

text \<open>A write \<^verbatim>\<open>en->field = ...\<close> through the pointer with key \<open>i\<close>.\<close>

definition en_update :: "fuse_ino_t \<Rightarrow> (DirEntry \<Rightarrow> DirEntry) \<Rightarrow> DirTree \<Rightarrow> DirTree" where
  "en_update i f dtree =
     (case h_inodes dtree i of
        None \<Rightarrow> dtree
      | Some en \<Rightarrow> dtree\<lparr>h_inodes := (h_inodes dtree)(i \<mapsto> f en)\<rparr>)"

text \<open>The child pointer found in a directory's table under a name: the key of the
  child together with its record.\<close>

definition child_lookup :: "DirTree \<Rightarrow> DirEntry \<Rightarrow> string \<Rightarrow> (fuse_ino_t \<times> DirEntry) option" where
  "child_lookup dtree dir_en name =
     (case g_hash_table_lookup (h_dir_tree dir_en) name of
        None \<Rightarrow> None
      | Some c \<Rightarrow> (case h_inodes dtree c of None \<Rightarrow> None | Some en \<Rightarrow> Some (c, en)))"

definition invalidate_dir_cache :: "DirEntry \<Rightarrow> DirEntry" where
  "invalidate_dir_cache en = en\<lparr>dir_cache := None, dir_cache_size := 0\<rparr>"

text \<open>
  \<^verbatim>\<open>dir_tree_entry_modified\<close>: a directory drops its own listing cache; any other
  entry passes the call to its parent, which is then a directory, so the recursion of the
  source ends after one step.
\<close>

definition dir_tree_entry_modified :: "DirTree \<Rightarrow> fuse_ino_t \<Rightarrow> DirTree" where
  "dir_tree_entry_modified dtree i =
     (case h_inodes dtree i of
        None \<Rightarrow> dtree
      | Some en \<Rightarrow>
          if en_type en = DET_dir then en_update i invalidate_dir_cache dtree
          else (case h_inodes dtree (parent_ino en) of
                  None \<Rightarrow> dtree
                | Some parent_en \<Rightarrow>
                    if en_type parent_en \<noteq> DET_dir then dtree
                    else en_update (parent_ino en) invalidate_dir_cache dtree))"

definition new_entry ::
  "time_t \<Rightarrow> fuse_ino_t \<Rightarrow> string \<Rightarrow> string \<Rightarrow> mode_t \<Rightarrow> DirEntryType \<Rightarrow> fuse_ino_t \<Rightarrow> guint64 \<Rightarrow>
   time_t \<Rightarrow> guint64 \<Rightarrow> DirEntry" where
  "new_entry t i name path m ty parent sz ct current_age =
     \<lparr>ino = i, parent_ino = parent, basename = name, fullpath = path, en_type = ty,
      age = current_age, removed = False, is_modified = False, en_size = sz, mode = m,
      ctime = ct, dir_cache = None, dir_cache_size = 0, dir_cache_created = 0,
      dir_cache_updating = False,
      h_dir_tree = (if ty = DET_dir then Some [] else None),
      is_updating = False, updated_time = 0, access_time = t,
      etag = None, version_id = None, content_type = None, xattr_time = 0\<rparr>"


text \<open>
  \<^verbatim>\<open>dir_tree_add_entry\<close>. The result is the key of the new entry, or \<open>None\<close> for
  the \<^verbatim>\<open>NULL\<close> returns. When the parent already has an entry of the same type under
  the name, the table insert replaces it; the source then frees the old record while the
  inode index still points to it, and the model leaves the old record in the store.
\<close>

definition dir_tree_add_entry ::
  "time_t \<Rightarrow> DirTree \<Rightarrow> string \<Rightarrow> mode_t \<Rightarrow> DirEntryType \<Rightarrow> fuse_ino_t \<Rightarrow> guint64 \<Rightarrow> time_t \<Rightarrow>
   DirTree \<times> fuse_ino_t option" where
  "dir_tree_add_entry t dtree name m ty parent sz ct =
     (let parent_en = (if parent \<noteq> 0 then h_inodes dtree parent else None) in
      if parent \<noteq> 0 \<and> parent_en = None then (dtree, None)
      else if (case parent_en of
                 None \<Rightarrow> False
               | Some p \<Rightarrow> (case child_lookup dtree p name of
                              None \<Rightarrow> False
                            | Some (c, old) \<Rightarrow> en_type old \<noteq> ty))
      then (dtree, None)
      else
        let dtree1 = (if parent \<noteq> 0 then dir_tree_entry_modified dtree parent else dtree);
            parent_en1 = (if parent \<noteq> 0 then h_inodes dtree1 parent else None);
            current_age = (case parent_en1 of None \<Rightarrow> 0 | Some p \<Rightarrow> age p);
            path = (case parent_en1 of
                      None \<Rightarrow> []
                    | Some p \<Rightarrow> if parent = FUSE_ROOT_ID then name
                                else fullpath p @ ''/'' @ name);
            i = max_ino dtree1;
            en = new_entry t i name path m ty parent sz ct current_age;
            dtree2 = dtree1\<lparr>max_ino := max_ino dtree1 + 1,
                            h_inodes := (h_inodes dtree1)(i \<mapsto> en)\<rparr>;
            dtree3 = (if parent \<noteq> 0
                      then en_update parent
                             (\<lambda>p. p\<lparr>h_dir_tree := g_hash_table_insert (slot dtree) (h_dir_tree p) name i\<rparr>) dtree2
                      else dtree2);
            dtree4 = (if parent \<noteq> 0 then dir_tree_entry_modified dtree3 parent else dtree3)
        in (dtree4, Some i))"

definition dir_tree_is_cache_expired :: "time_t \<Rightarrow> DirTree \<Rightarrow> DirEntry \<Rightarrow> bool" where
  "dir_tree_is_cache_expired t dtree en =
     (if dir_cache_size en = 0 \<or> dir_cache_created en = 0 then True
      else if t < dir_cache_created en then False
      else if t - dir_cache_created en > uint (dir_cache_max_time (app dtree)) then True
      else if is_modified en then True
      else False)"

definition dir_tree_start_update :: "DirTree \<Rightarrow> fuse_ino_t \<Rightarrow> DirTree" where
  "dir_tree_start_update dtree i = en_update i (\<lambda>en. en\<lparr>age := age en + 1\<rparr>) dtree"

text \<open>
  \<^verbatim>\<open>dir_tree_stop_update_on_remove_child_cb\<close>, the predicate of the sweep: the result
  says whether \<^verbatim>\<open>g_hash_table_foreach_remove\<close> drops the child from the table (and
  so destroys it). The difference of the two times is cast to \<^verbatim>\<open>guint32\<close>.
\<close>

definition dir_tree_stop_update_on_remove_child_cb ::
  "time_t \<Rightarrow> DirTree \<Rightarrow> string \<Rightarrow> fuse_ino_t \<Rightarrow> DirTree \<times> bool" where
  "dir_tree_stop_update_on_remove_child_cb now dtree name c =
     (case h_inodes dtree c of
        None \<Rightarrow> (dtree, False)
      | Some en \<Rightarrow>
          (case h_inodes dtree (parent_ino en) of
             None \<Rightarrow> (dtree, False)
           | Some parent_en \<Rightarrow>
               if age en < age parent_en \<and> \<not> is_modified en \<and> now > access_time en \<and>
                  (word_of_int (now - access_time en) :: guint32) \<ge> dir_cache_max_time (app dtree) \<and>
                  en_type en \<noteq> DET_dir
               then (dtree\<lparr>h_inodes := (h_inodes dtree)(ino en := None)\<rparr>, True)
               else (dtree, False)))"

fun foreach_remove_children ::
  "time_t \<Rightarrow> DirTree \<Rightarrow> (string \<times> fuse_ino_t) list \<Rightarrow> DirTree \<times> (string \<times> fuse_ino_t) list" where
  "foreach_remove_children now dtree [] = (dtree, [])"
| "foreach_remove_children now dtree (kv # rest) =
     (case dir_tree_stop_update_on_remove_child_cb now dtree (fst kv) (snd kv) of
        (dtree1, rm) \<Rightarrow>
          (case foreach_remove_children now dtree1 rest of
             (dtree2, kept) \<Rightarrow> (dtree2, if rm then kept else kv # kept)))"

definition dir_tree_stop_update :: "time_t \<Rightarrow> DirTree \<Rightarrow> fuse_ino_t \<Rightarrow> DirTree" where
  "dir_tree_stop_update now dtree parent =
     (case h_inodes dtree parent of
        None \<Rightarrow> dtree
      | Some parent_en \<Rightarrow>
          if en_type parent_en \<noteq> DET_dir then dtree
          else (case h_dir_tree parent_en of
                  None \<Rightarrow> dtree
                | Some kvs \<Rightarrow>
                    (case foreach_remove_children now dtree kvs of
                       (dtree1, kept) \<Rightarrow>
                         en_update parent (\<lambda>p. p\<lparr>h_dir_tree := Some kept\<rparr>) dtree1)))"

definition dir_tree_update_entry ::
  "time_t \<Rightarrow> DirTree \<Rightarrow> DirEntryType \<Rightarrow> fuse_ino_t \<Rightarrow> string \<Rightarrow> guint64 \<Rightarrow> time_t \<Rightarrow>
   DirTree \<times> fuse_ino_t option" where
  "dir_tree_update_entry t dtree ty parent entry_name sz last_modified =
     (case h_inodes dtree parent of
        None \<Rightarrow> (dtree, None)
      | Some parent_en \<Rightarrow>
          if en_type parent_en \<noteq> DET_dir then (dtree, None)
          else (case child_lookup dtree parent_en entry_name of
                  Some (c, en) \<Rightarrow>
                    (en_update c
                       (\<lambda>e. e\<lparr>age := age parent_en, en_size := sz, removed := False\<rparr>) dtree,
                     Some c)
                | None \<Rightarrow>
                    dir_tree_add_entry t dtree entry_name
                      (if ty = DET_file then fmode dtree else dmode dtree)
                      ty parent sz last_modified))"

text \<open>\<^verbatim>\<open>dir_tree_create\<close>: the empty tree with its root; \<open>place\<close> is the placement of
  new names in the children tables of this tree.\<close>

definition dir_tree_create ::
  "time_t \<Rightarrow> Application \<Rightarrow> (string \<Rightarrow> (string \<times> fuse_ino_t) list \<Rightarrow> nat) \<Rightarrow> DirTree" where
  "dir_tree_create t a place =
     (let fm = (if file_mode a < 0 then FILE_DEFAULT_MODE else or (word_of_int (file_mode a)) S_IFREG);
          dm = (if dir_mode a < 0 then DIR_DEFAULT_MODE else or (word_of_int (dir_mode a)) S_IFDIR);
          dtree = \<lparr>h_inodes = Map.empty, app = a, max_ino = FUSE_ROOT_ID, fmode = fm, dmode = dm,
                   dir_ops = Map.empty, slot = place\<rparr>
      in fst (dir_tree_add_entry t dtree ''/'' dm DET_dir 0 0 t))"

subsection \<open>Requests in flight and calls made\<close>

text \<open>
  The per-operation context records. The tree pointer and the adapter's callback pointer
  are left out: there is one tree, and each operation has one adapter callback, which is
  taken to be non-\<^verbatim>\<open>NULL\<close>. A name that the source leaves \<^verbatim>\<open>NULL\<close> is empty.
\<close>

record LookupOpData =
  lo_req :: fuse_req_t
  lo_ino :: fuse_ino_t
  lo_not_found :: bool
  lo_name :: string
  lo_parent_ino :: fuse_ino_t

text \<open>The two functions that are passed as \<^verbatim>\<open>readdir_cb\<close>: the adapter's own reply
  function, and \<^verbatim>\<open>dir_tree_on_lookup_read\<close> with its context.\<close>

datatype readdir_cb = Rfuse_readdir_cb | Dir_tree_on_lookup_read LookupOpData

record DirTreeFillDirData =
  fd_ino :: fuse_ino_t
  fd_size :: size_t
  fd_off :: int
  fd_readdir_cb :: readdir_cb
  fd_req :: fuse_req_t
  fd_dop :: "nat option"

record FileRemoveData =
  fr_ino :: fuse_ino_t
  fr_req :: fuse_req_t

record RenameData =
  rn_parent_ino :: fuse_ino_t
  rn_name :: string
  rn_newparent_ino :: fuse_ino_t
  rn_newname :: string
  rn_req :: fuse_req_t

record SymlinkData =
  sl_ino :: fuse_ino_t
  sl_req :: fuse_req_t

text \<open>The callbacks handed to \<^verbatim>\<open>client_pool_get_client\<close> and to
  \<^verbatim>\<open>http_connection_make_request\<close>, each with its context.\<close>

datatype pool_cb =
    Dir_tree_fill_dir_on_http_ready DirTreeFillDirData
  | Dir_tree_on_lookup_con_cb LookupOpData
  | Dir_tree_on_lookup_not_found_con_cb LookupOpData
  | Dir_tree_file_remove_on_con_cb FileRemoveData
  | Dir_tree_on_rename_copy_con_cb RenameData
  | Dir_tree_on_rename_delete_con_cb RenameData

datatype http_cb =
    Dir_tree_on_lookup_cb LookupOpData
  | Dir_tree_on_lookup_not_found_cb LookupOpData
  | Dir_tree_file_remove_on_con_data_cb FileRemoveData
  | Dir_tree_on_rename_copy_cb RenameData
  | Dir_tree_on_rename_delete_cb RenameData

text \<open>
  The calls a function makes to its collaborators, in order. A reply to the adapter
  carries the arguments of the callback. \<open>Client_pool_get_client\<close> and
  \<open>Http_connection_make_request\<close> record that the call was made; whether it was
  accepted is an argument of the calling function.
\<close>

datatype effect =
    Readdir_cb readdir_cb fuse_req_t bool size_t int "dirbuf option" nat
  | Lookup_cb fuse_req_t bool fuse_ino_t mode_t guint64 time_t
  | File_create_cb fuse_req_t bool fuse_ino_t mode_t guint64
  | File_remove_cb fuse_req_t bool
  | Mkdir_cb fuse_req_t bool fuse_ino_t mode_t guint64 time_t
  | Rename_cb fuse_req_t bool
  | Symlink_cb fuse_req_t bool fuse_ino_t mode_t guint64 time_t
  | Client_pool_get_client pool_cb
  | Http_connection_acquire
  | Http_connection_release
  | Http_connection_add_output_header string string
  | Http_connection_make_request string string http_cb
  | Http_connection_get_directory_listing string fuse_ino_t DirTreeFillDirData
  | Cache_mng_remove_file fuse_ino_t
  | Fileio_create string fuse_ino_t bool
  | Fileio_simple_upload string string mode_t SymlinkData

text \<open>A function sends a request to the server when it asks the pool for a client or
  hands a request to a connection.\<close>

fun is_server_request :: "effect \<Rightarrow> bool" where
  "is_server_request (Client_pool_get_client _) = True"
| "is_server_request (Http_connection_make_request _ _ _) = True"
| "is_server_request (Http_connection_get_directory_listing _ _ _) = True"
| "is_server_request _ = False"

subsection \<open>Reading a directory\<close>

definition readdir_failed :: "DirTreeFillDirData \<Rightarrow> effect" where
  "readdir_failed d = Readdir_cb (fd_readdir_cb d) (fd_req d) False (fd_size d) (fd_off d) None 0"

text \<open>One round of the loop over the children in \<^verbatim>\<open>dir_tree_fill_on_dir_buf_cb\<close>.\<close>

definition dirbuf_add_child :: "DirTree \<Rightarrow> DirEntry \<Rightarrow> dirbuf \<Rightarrow> string \<times> fuse_ino_t \<Rightarrow> dirbuf" where
  "dirbuf_add_child dtree parent_en b kv =
     (case h_inodes dtree (snd kv) of
        None \<Rightarrow> b
      | Some tmp_en \<Rightarrow>
          if age tmp_en \<ge> age parent_en \<and> \<not> removed tmp_en
          then rfuse_add_dirbuf b (basename tmp_en) (ino tmp_en) (en_size tmp_en)
          else b)"

text \<open>
  The second half of \<^verbatim>\<open>dir_tree_fill_on_dir_buf_cb\<close>, ``update request buffer'': the
  blob is copied into the handle of the request, if the request has one. A handle that
  was released while the request was in flight is no longer in \<open>dir_ops\<close>; the source
  would write to freed memory, the model leaves the store as it is.
\<close>

definition update_request_buffer :: "nat option \<Rightarrow> nat \<Rightarrow> dirbuf \<Rightarrow> DirTree \<Rightarrow> DirTree" where
  "update_request_buffer dop n b dtree =
     (case dop of
        None \<Rightarrow> dtree
      | Some h \<Rightarrow>
          (case dir_ops dtree h of
             None \<Rightarrow> dtree
           | Some dp \<Rightarrow>
               dtree\<lparr>dir_ops := (dir_ops dtree)
                 (h \<mapsto> dp\<lparr>dop_size := n, dop_buf := g_malloc0_copy n b\<rparr>)\<rparr>))"

definition dir_tree_fill_on_dir_buf_cb ::
  "time_t \<Rightarrow> DirTree \<Rightarrow> DirTreeFillDirData \<Rightarrow> bool \<Rightarrow> DirTree \<times> effect list" where
  "dir_tree_fill_on_dir_buf_cb t dtree d success =
     (case h_inodes dtree (fd_ino d) of
        None \<Rightarrow> (dtree, [readdir_failed d])
      | Some en0 \<Rightarrow>
          let dtree1 = en_update (fd_ino d)
                         (\<lambda>en. en\<lparr>dir_cache_updating := False, is_modified := False\<rparr>) dtree
          in if \<not> success then (dtree1, [readdir_failed d])
             else
               (case h_inodes dtree1 (fd_ino d) of
                  None \<Rightarrow> (dtree1, [readdir_failed d])
                | Some parent_en \<Rightarrow>
                    let b0 = rfuse_add_dirbuf (rfuse_add_dirbuf [] ''.'' (fd_ino d) 0) ''..'' (fd_ino d) 0;
                        b = foldl (dirbuf_add_child dtree1 parent_en) b0
                              (case h_dir_tree parent_en of None \<Rightarrow> [] | Some kvs \<Rightarrow> kvs);
                        n = dirbuf_size b;
                        dtree2 = en_update (fd_ino d)
                                   (\<lambda>en. en\<lparr>dir_cache_size := n, dir_cache := g_malloc0_copy n b\<rparr>) dtree1;
                        dtree3 = update_request_buffer (fd_dop d) n b dtree2;
                        dtree4 = en_update (fd_ino d) (\<lambda>en. en\<lparr>dir_cache_created := t\<rparr>) dtree3
                    in (dtree4,
                        [Readdir_cb (fd_readdir_cb d) (fd_req d) True (fd_size d) (fd_off d)
                           (g_malloc0_copy n b) n])))"

definition dir_tree_fill_dir_on_http_ready :: "DirTree \<Rightarrow> DirTreeFillDirData \<Rightarrow> DirTree \<times> effect list" where
  "dir_tree_fill_dir_on_http_ready dtree d =
     (case h_inodes dtree (fd_ino d) of
        None \<Rightarrow> (dtree, [readdir_failed d])
      | Some en \<Rightarrow>
          (dir_tree_start_update dtree (fd_ino d),
           [Http_connection_get_directory_listing (fullpath en) (fd_ino d) d]))"

text \<open>\<^verbatim>\<open>dir_tree_opendir\<close>; \<open>fh\<close> is the address of the new \<^verbatim>\<open>DirOpData\<close>.\<close>

definition dir_tree_opendir :: "DirTree \<Rightarrow> fuse_ino_t \<Rightarrow> nat \<Rightarrow> DirTree \<times> bool" where
  "dir_tree_opendir dtree i fh =
     (if h_inodes dtree i = None then (dtree, False)
      else (dtree\<lparr>dir_ops := (dir_ops dtree)(fh \<mapsto> \<lparr>dop_buf = None, dop_size = 0\<rparr>)\<rparr>, True))"

definition dir_tree_releasedir :: "DirTree \<Rightarrow> fuse_ino_t \<Rightarrow> nat option \<Rightarrow> DirTree \<times> bool" where
  "dir_tree_releasedir dtree i fi =
     (case fi of
        None \<Rightarrow> (dtree, True)
      | Some fh \<Rightarrow> (dtree\<lparr>dir_ops := (dir_ops dtree)(fh := None)\<rparr>, True))"

text \<open>
  \<^verbatim>\<open>dir_tree_fill_dir_buf\<close>. The argument \<open>fi\<close> is the handle in \<^verbatim>\<open>fi->fh\<close>, or
  \<open>None\<close> when \<^verbatim>\<open>fi\<close> or \<^verbatim>\<open>fi->fh\<close> is null; \<open>pool_ok\<close> is the result of
  \<^verbatim>\<open>client_pool_get_client\<close>.
\<close>

definition dir_tree_fill_dir_buf ::
  "time_t \<Rightarrow> bool \<Rightarrow> DirTree \<Rightarrow> fuse_ino_t \<Rightarrow> size_t \<Rightarrow> int \<Rightarrow> readdir_cb \<Rightarrow> fuse_req_t \<Rightarrow> nat option \<Rightarrow>
   DirTree \<times> effect list" where
  "dir_tree_fill_dir_buf t pool_ok dtree i sz off cb req fi =
     (case h_inodes dtree i of
        None \<Rightarrow> (dtree, [Readdir_cb cb req False sz off None 0])
      | Some en \<Rightarrow>
          if en_type en \<noteq> DET_dir then (dtree, [Readdir_cb cb req False sz off None 0])
          else
            let dop = (case fi of None \<Rightarrow> None | Some h \<Rightarrow> dir_ops dtree h) in
            if (case dop of None \<Rightarrow> False | Some dp \<Rightarrow> dop_buf dp \<noteq> None)
            then (dtree, [Readdir_cb cb req True sz off
                            (case dop of None \<Rightarrow> None | Some dp \<Rightarrow> dop_buf dp)
                            (case dop of None \<Rightarrow> 0 | Some dp \<Rightarrow> dop_size dp)])
            else if \<not> dir_tree_is_cache_expired t dtree en then
              (case (fi, dop) of
                 (Some h, Some dp) \<Rightarrow>
                   let dp1 = dp\<lparr>dop_buf := (case dir_cache en of
                                                None \<Rightarrow> None
                                              | Some b \<Rightarrow> g_malloc0_copy (dir_cache_size en) b),
                                 dop_size := dir_cache_size en\<rparr>
                   in (dtree\<lparr>dir_ops := (dir_ops dtree)(h \<mapsto> dp1)\<rparr>,
                       [Readdir_cb cb req True sz off (dop_buf dp1) (dop_size dp1)])
               | _ \<Rightarrow> (dtree, [Readdir_cb cb req True sz off (dir_cache en) (dir_cache_size en)]))
            else if off > 0 then
              (if (case dop of None \<Rightarrow> True | Some dp \<Rightarrow> dop_buf dp = None)
               then (dtree, [Readdir_cb cb req False sz off None 0])
               else (dtree, [Readdir_cb cb req True sz off
                               (case dop of None \<Rightarrow> None | Some dp \<Rightarrow> dop_buf dp)
                               (case dop of None \<Rightarrow> 0 | Some dp \<Rightarrow> dop_size dp)]))
            else
              let dtree1 = en_update i invalidate_dir_cache dtree;
                  d = \<lparr>fd_ino = i, fd_size = sz, fd_off = off, fd_readdir_cb = cb, fd_req = req,
                       fd_dop = (case dop of None \<Rightarrow> None | Some dp \<Rightarrow> fi)\<rparr>
              in if \<not> dir_cache_updating en \<and>
                    (dir_cache_created en = 0 \<or>
                     t - dir_cache_created en > uint (dir_cache_max_time (app dtree)))
                 then
                   let dtree2 = en_update i (\<lambda>e. e\<lparr>dir_cache_updating := True\<rparr>) dtree1 in
                   if \<not> pool_ok
                   then (en_update i (\<lambda>e. e\<lparr>dir_cache_updating := False\<rparr>) dtree2,
                         [Client_pool_get_client (Dir_tree_fill_dir_on_http_ready d),
                          Readdir_cb cb req False sz off None 0])
                   else (dtree2, [Client_pool_get_client (Dir_tree_fill_dir_on_http_ready d)])
                 else dir_tree_fill_on_dir_buf_cb t dtree1 d True)"

subsection \<open>Lookup\<close>

text \<open>
  The response headers a callback reads, after the C library has parsed them: the value
  of \<^verbatim>\<open>strtoll\<close> on \<^verbatim>\<open>Content-Length\<close>, of \<^verbatim>\<open>strtol\<close> on
  \<^verbatim>\<open>x-amz-meta-mode\<close>, the \<^verbatim>\<open>ETag\<close> without its quotes, and the two dates when
  \<^verbatim>\<open>strptime\<close> accepts them. A field is \<open>None\<close> when the header is absent (for a
  date, also when it does not parse).
\<close>

record Headers =
  hd_content_length :: "int option"
  hd_content_type :: "string option"
  hd_etag :: "string option"
  hd_version_id :: "string option"
  hd_meta_mode :: "int option"
  hd_meta_date :: "time_t option"
  hd_last_modified :: "time_t option"

definition header_or :: "'a option \<Rightarrow> 'a option \<Rightarrow> 'a option" where
  "header_or header old = (case header of None \<Rightarrow> old | Some v \<Rightarrow> Some v)"

definition dir_tree_entry_update_xattrs :: "time_t \<Rightarrow> Headers \<Rightarrow> DirEntry \<Rightarrow> DirEntry" where
  "dir_tree_entry_update_xattrs t headers en =
     en\<lparr>etag := header_or (hd_etag headers) (etag en),
        version_id := header_or (hd_version_id headers) (version_id en),
        content_type := header_or (hd_content_type headers) (content_type en),
        xattr_time := t\<rparr>"

definition is_directory_content_type :: "string option \<Rightarrow> bool" where
  "is_directory_content_type ct =
     (case ct of
        None \<Rightarrow> False
      | Some s \<Rightarrow> take (length ''application/x-directory'') s = ''application/x-directory'')"

text \<open>The writes of \<^verbatim>\<open>dir_tree_on_lookup_cb\<close> to the entry after a successful HEAD. The
  value of \<^verbatim>\<open>strtol\<close> is stored in a \<^verbatim>\<open>gint32\<close> before it is tested and assigned, so
  the test reads it as a signed 32-bit number.\<close>

definition on_lookup_cb_entry :: "time_t \<Rightarrow> mode_t \<Rightarrow> Headers \<Rightarrow> DirEntry \<Rightarrow> DirEntry" where
  "on_lookup_cb_entry t dm headers en =
     (let en1 = (case hd_content_length headers of
                   None \<Rightarrow> en
                 | Some n \<Rightarrow> en\<lparr>en_size := word_of_int (if n < 0 then 0 else n)\<rparr>);
          en2 = dir_tree_entry_update_xattrs t headers en1;
          en3 = (if is_directory_content_type (hd_content_type headers)
                 then en2\<lparr>en_type := DET_dir, mode := dm,
                          h_dir_tree := (case h_dir_tree en2 of None \<Rightarrow> Some [] | Some kvs \<Rightarrow> Some kvs),
                          dir_cache := None, dir_cache_size := 0\<rparr>
                 else en2);
          en4 = (case hd_meta_mode headers of
                   None \<Rightarrow> en3
                 | Some val \<Rightarrow> if sint (word_of_int val :: 32 word) > 0
                              then en3\<lparr>mode := word_of_int val\<rparr> else en3);
          en5 = (case hd_meta_date headers of None \<Rightarrow> en4 | Some tm \<Rightarrow> en4\<lparr>ctime := tm\<rparr>)
      in en5\<lparr>is_updating := False, updated_time := t\<rparr>)"

definition dir_tree_on_lookup_cb ::
  "time_t \<Rightarrow> DirTree \<Rightarrow> LookupOpData \<Rightarrow> bool \<Rightarrow> Headers \<Rightarrow> DirTree \<times> effect list" where
  "dir_tree_on_lookup_cb t dtree op_data success headers =
     (case h_inodes dtree (lo_ino op_data) of
        None \<Rightarrow> (dtree, [Http_connection_release, Lookup_cb (lo_req op_data) False 0 0 0 0])
      | Some en \<Rightarrow>
          if \<not> success
          then (en_update (lo_ino op_data) (\<lambda>e. e\<lparr>is_updating := False\<rparr>) dtree,
                [Http_connection_release, Lookup_cb (lo_req op_data) False 0 0 0 0])
          else
            let en1 = on_lookup_cb_entry t (dmode dtree) headers en
            in (dtree\<lparr>h_inodes := (h_inodes dtree)(lo_ino op_data \<mapsto> en1)\<rparr>,
                [Http_connection_release,
                 Lookup_cb (lo_req op_data) True (ino en1) (mode en1) (en_size en1) (ctime en1)]))"

definition dir_tree_on_lookup_con_cb :: "bool \<Rightarrow> DirTree \<Rightarrow> LookupOpData \<Rightarrow> DirTree \<times> effect list" where
  "dir_tree_on_lookup_con_cb res dtree op_data =
     (case h_inodes dtree (lo_ino op_data) of
        None \<Rightarrow> (dtree, [Lookup_cb (lo_req op_data) False 0 0 0 0])
      | Some en \<Rightarrow>
          let request = [Http_connection_acquire,
                         Http_connection_make_request (''/'' @ fullpath en) ''HEAD''
                           (Dir_tree_on_lookup_cb op_data)]
          in if \<not> res
             then (en_update (lo_ino op_data) (\<lambda>e. e\<lparr>is_updating := False\<rparr>) dtree,
                   request @ [Http_connection_release, Lookup_cb (lo_req op_data) False 0 0 0 0])
             else (dtree, request))"

definition content_length_size :: "Headers \<Rightarrow> guint64" where
  "content_length_size headers =
     (case hd_content_length headers of
        None \<Rightarrow> 0
      | Some n \<Rightarrow> word_of_int (if n < 0 then 0 else n))"

definition dir_tree_on_lookup_not_found_cb ::
  "time_t \<Rightarrow> DirTree \<Rightarrow> LookupOpData \<Rightarrow> bool \<Rightarrow> Headers \<Rightarrow> DirTree \<times> effect list" where
  "dir_tree_on_lookup_not_found_cb t dtree op_data success headers =
     (case h_inodes dtree (lo_parent_ino op_data) of
        None \<Rightarrow> (dtree, [Http_connection_release, Lookup_cb (lo_req op_data) False 0 0 0 0])
      | Some parent_en \<Rightarrow>
          if \<not> success then
            (case dir_tree_add_entry t dtree (lo_name op_data) (fmode dtree) DET_file
                    (lo_parent_ino op_data) 0 t of
               (dtree1, None) \<Rightarrow>
                 (dtree1, [Http_connection_release, Lookup_cb (lo_req op_data) False 0 0 0 0])
             | (dtree1, Some c) \<Rightarrow>
                 (en_update c (\<lambda>e. e\<lparr>removed := True\<rparr>) dtree1,
                  [Http_connection_release, Lookup_cb (lo_req op_data) False 0 0 0 0]))
          else
            (case dir_tree_update_entry t dtree DET_file (lo_parent_ino op_data) (lo_name op_data)
                    (content_length_size headers)
                    (case hd_last_modified headers of None \<Rightarrow> t | Some tm \<Rightarrow> tm) of
               (dtree1, None) \<Rightarrow>
                 (dtree1, [Http_connection_release, Lookup_cb (lo_req op_data) False 0 0 0 0])
             | (dtree1, Some c) \<Rightarrow>
                 (case h_inodes dtree1 c of
                    None \<Rightarrow>
                      (dtree1, [Http_connection_release, Lookup_cb (lo_req op_data) False 0 0 0 0])
                  | Some en \<Rightarrow>
                      let en1 = dir_tree_entry_update_xattrs t headers en
                      in (dtree1\<lparr>h_inodes := (h_inodes dtree1)(c \<mapsto> en1)\<rparr>,
                          [Http_connection_release,
                           Lookup_cb (lo_req op_data) True (ino en1) (mode en1) (en_size en1)
                             (ctime en1)]))))"

definition dir_tree_on_lookup_not_found_con_cb ::
  "bool \<Rightarrow> DirTree \<Rightarrow> LookupOpData \<Rightarrow> DirTree \<times> effect list" where
  "dir_tree_on_lookup_not_found_con_cb res dtree op_data =
     (case h_inodes dtree (lo_parent_ino op_data) of
        None \<Rightarrow> (dtree, [Lookup_cb (lo_req op_data) False 0 0 0 0])
      | Some parent_en \<Rightarrow>
          let path = (if lo_parent_ino op_data = FUSE_ROOT_ID then lo_name op_data
                      else fullpath parent_en @ ''/'' @ lo_name op_data);
              request = [Http_connection_acquire,
                         Http_connection_make_request (''/'' @ path) ''HEAD''
                           (Dir_tree_on_lookup_not_found_cb op_data)]
          in if \<not> res
             then (dtree, request @ [Http_connection_release, Lookup_cb (lo_req op_data) False 0 0 0 0])
             else (dtree, request))"

definition dir_tree_set_entry_exist :: "DirTree \<Rightarrow> fuse_ino_t \<Rightarrow> DirTree" where
  "dir_tree_set_entry_exist dtree i =
     (case h_inodes dtree i of
        None \<Rightarrow> dtree
      | Some en \<Rightarrow> if en_type en \<noteq> DET_file then dtree
                   else en_update i (\<lambda>e. e\<lparr>removed := False\<rparr>) dtree)"

text \<open>The test of \<^verbatim>\<open>dir_tree_lookup\<close> on a removed entry: either of two comparisons
  of the time, the access time and \<^verbatim>\<open>filesystem.file_cache_max_time\<close>.\<close>

definition tombstone_is_recent :: "time_t \<Rightarrow> DirTree \<Rightarrow> DirEntry \<Rightarrow> bool" where
  "tombstone_is_recent t dtree en =
     (t - uint (file_cache_max_time (app dtree)) < access_time en \<or>
      t - access_time en < uint (file_cache_max_time (app dtree)))"

text \<open>The test of \<^verbatim>\<open>dir_tree_lookup\<close> that forces a HEAD request for a file.\<close>

definition head_is_forced :: "time_t \<Rightarrow> DirTree \<Rightarrow> DirEntry \<Rightarrow> bool" where
  "head_is_forced t dtree en =
     (\<not> is_updating en \<and> en_type en = DET_file \<and> t \<ge> updated_time en \<and>
      t - updated_time en \<ge> uint (dir_cache_max_time (app dtree)) \<and>
      ((check_empty_files (app dtree) \<and> en_size en = 0) \<or>
       force_head_requests_on_lookup (app dtree)))"

text \<open>The HEAD refresh that both branches of \<^verbatim>\<open>dir_tree_lookup\<close> start for an
  existing entry.\<close>

definition lookup_send_head ::
  "bool \<Rightarrow> DirTree \<Rightarrow> fuse_ino_t \<Rightarrow> DirEntry \<Rightarrow> fuse_req_t \<Rightarrow> DirTree \<times> effect list" where
  "lookup_send_head pool_ok dtree c en req =
     (let op_data = \<lparr>lo_req = req, lo_ino = ino en, lo_not_found = False, lo_name = [],
                     lo_parent_ino = 0\<rparr>
      in if \<not> pool_ok
         then (en_update c (\<lambda>e. e\<lparr>is_updating := False\<rparr>)
                 (en_update c (\<lambda>e. e\<lparr>is_updating := True\<rparr>) dtree),
               [Client_pool_get_client (Dir_tree_on_lookup_con_cb op_data),
                Lookup_cb req False 0 0 0 0])
         else (en_update c (\<lambda>e. e\<lparr>is_updating := True\<rparr>) dtree,
               [Client_pool_get_client (Dir_tree_on_lookup_con_cb op_data)]))"

definition dir_tree_lookup ::
  "time_t \<Rightarrow> bool \<Rightarrow> DirTree \<Rightarrow> fuse_ino_t \<Rightarrow> string \<Rightarrow> fuse_req_t \<Rightarrow> DirTree \<times> effect list" where
  "dir_tree_lookup t pool_ok dtree parent name req =
     (case h_inodes dtree parent of
        None \<Rightarrow> (dtree, [Lookup_cb req False 0 0 0 0])
      | Some dir_en \<Rightarrow>
          if en_type dir_en \<noteq> DET_dir then (dtree, [Lookup_cb req False 0 0 0 0])
          else if dir_tree_is_cache_expired t dtree dir_en then
            dir_tree_fill_dir_buf t pool_ok dtree (ino dir_en) (1024 * 1024 * 1) 0
              (Dir_tree_on_lookup_read
                 \<lparr>lo_req = req, lo_ino = 0, lo_not_found = True, lo_name = name,
                  lo_parent_ino = parent\<rparr>)
              req None
          else
            (case child_lookup dtree dir_en name of
               None \<Rightarrow>
                 let op_data = \<lparr>lo_req = req, lo_ino = 0, lo_not_found = True, lo_name = name,
                                lo_parent_ino = parent\<rparr>
                 in (dtree,
                     Client_pool_get_client (Dir_tree_on_lookup_not_found_con_cb op_data) #
                     (if \<not> pool_ok then [Lookup_cb req False 0 0 0 0] else []))
             | Some (c, en) \<Rightarrow>
                 if removed en \<and> tombstone_is_recent t dtree en
                 then (dtree, [Lookup_cb req False 0 0 0 0])
                 else
                   let dtree1 = en_update c (\<lambda>e. e\<lparr>access_time := t\<rparr>) dtree in
                   if is_modified en \<and> \<not> is_updating en \<and> en_type en \<noteq> DET_dir
                   then lookup_send_head pool_ok dtree1 c en req
                   else if head_is_forced t dtree en
                   then lookup_send_head pool_ok dtree1 c en req
                   else (dtree1, [Lookup_cb req True (ino en) (mode en) (en_size en) (ctime en)])))"

definition dir_tree_on_lookup_read ::
  "time_t \<Rightarrow> bool \<Rightarrow> DirTree \<Rightarrow> LookupOpData \<Rightarrow> bool \<Rightarrow> DirTree \<times> effect list" where
  "dir_tree_on_lookup_read t pool_ok dtree op_data success =
     (if \<not> success then (dtree, [Lookup_cb (lo_req op_data) False 0 0 0 0])
      else dir_tree_lookup t pool_ok dtree (lo_parent_ino op_data) (lo_name op_data) (lo_req op_data))"

subsection \<open>Create, unlink, rmdir, mkdir\<close>

definition dir_tree_file_create ::
  "time_t \<Rightarrow> DirTree \<Rightarrow> fuse_ino_t \<Rightarrow> string \<Rightarrow> mode_t \<Rightarrow> fuse_req_t \<Rightarrow> DirTree \<times> effect list" where
  "dir_tree_file_create t dtree parent name m req =
     (case h_inodes dtree parent of
        None \<Rightarrow> (dtree, [File_create_cb req False 0 0 0])
      | Some dir_en \<Rightarrow>
          if en_type dir_en \<noteq> DET_dir then (dtree, [File_create_cb req False 0 0 0])
          else
            (case (case child_lookup dtree dir_en name of
                     None \<Rightarrow> dir_tree_add_entry t dtree name m DET_file parent 0 t
                   | Some (c, en) \<Rightarrow>
                       (dir_tree_entry_modified
                          (en_update c
                             (\<lambda>e. e\<lparr>removed := False, access_time := t, age := age dir_en\<rparr>) dtree)
                          parent,
                        Some c)) of
               (dtree1, None) \<Rightarrow> (dtree1, [File_create_cb req False 0 0 0])
             | (dtree1, Some c) \<Rightarrow>
                 let dtree2 = en_update c (\<lambda>e. e\<lparr>is_modified := True\<rparr>) dtree1
                 in (case h_inodes dtree2 c of
                       None \<Rightarrow> (dtree2, [File_create_cb req False 0 0 0])
                     | Some en \<Rightarrow>
                         (dtree2,
                          [Fileio_create (fullpath en) (ino en) True,
                           File_create_cb req True (ino en) (mode en) (en_size en)]))))"

definition dir_tree_file_remove_on_con_data_cb ::
  "DirTree \<Rightarrow> FileRemoveData \<Rightarrow> bool \<Rightarrow> DirTree \<times> effect list" where
  "dir_tree_file_remove_on_con_data_cb dtree data success =
     (case h_inodes dtree (fr_ino data) of
        None \<Rightarrow> (dtree, [Http_connection_release, File_remove_cb (fr_req data) False])
      | Some en \<Rightarrow>
          (dir_tree_entry_modified
             (en_update (fr_ino data) (\<lambda>e. e\<lparr>removed := True, age := 0\<rparr>) dtree)
             (fr_ino data),
           [Http_connection_release, File_remove_cb (fr_req data) success]))"

definition dir_tree_file_remove_on_con_cb ::
  "bool \<Rightarrow> DirTree \<Rightarrow> FileRemoveData \<Rightarrow> DirTree \<times> effect list" where
  "dir_tree_file_remove_on_con_cb res dtree data =
     (case h_inodes dtree (fr_ino data) of
        None \<Rightarrow> (dtree, [File_remove_cb (fr_req data) False])
      | Some en \<Rightarrow>
          let request = [Http_connection_acquire,
                         Http_connection_make_request (''/'' @ fullpath en) ''DELETE''
                           (Dir_tree_file_remove_on_con_data_cb data)]
          in if \<not> res
             then (dtree, request @ [File_remove_cb (fr_req data) False, Http_connection_release])
             else (dtree, request))"

definition dir_tree_file_remove ::
  "bool \<Rightarrow> DirTree \<Rightarrow> fuse_ino_t \<Rightarrow> fuse_req_t \<Rightarrow> DirTree \<times> effect list" where
  "dir_tree_file_remove pool_ok dtree i req =
     (case h_inodes dtree i of
        None \<Rightarrow> (dtree, [File_remove_cb req False])
      | Some en \<Rightarrow>
          if en_type en \<noteq> DET_file then (dtree, [File_remove_cb req False])
          else (dtree,
                [Cache_mng_remove_file i,
                 Client_pool_get_client
                   (Dir_tree_file_remove_on_con_cb \<lparr>fr_ino = i, fr_req = req\<rparr>)] @
                (if \<not> pool_ok then [File_remove_cb req False] else [])))"

definition dir_tree_file_unlink ::
  "bool \<Rightarrow> DirTree \<Rightarrow> fuse_ino_t \<Rightarrow> string \<Rightarrow> fuse_req_t \<Rightarrow> DirTree \<times> effect list" where
  "dir_tree_file_unlink pool_ok dtree parent name req =
     (case h_inodes dtree parent of
        None \<Rightarrow> (dtree, [File_remove_cb req False])
      | Some parent_en \<Rightarrow>
          (case child_lookup dtree parent_en name of
             None \<Rightarrow> (dtree, [File_remove_cb req False])
           | Some (c, en) \<Rightarrow> dir_tree_file_remove pool_ok dtree (ino en) req))"

text \<open>The loop of \<^verbatim>\<open>dir_tree_dir_remove\<close> over the children of the directory.\<close>

definition entries_removed :: "DirTree \<Rightarrow> (string \<times> fuse_ino_t) list \<Rightarrow> bool" where
  "entries_removed dtree kvs =
     list_all (\<lambda>kv. case h_inodes dtree (snd kv) of None \<Rightarrow> True | Some tmp_en \<Rightarrow> removed tmp_en) kvs"

definition dir_tree_dir_remove :: "DirTree \<Rightarrow> fuse_ino_t \<Rightarrow> string \<Rightarrow> DirTree \<times> bool" where
  "dir_tree_dir_remove dtree parent name =
     (case h_inodes dtree parent of
        None \<Rightarrow> (dtree, False)
      | Some parent_en \<Rightarrow>
          if en_type parent_en \<noteq> DET_dir then (dtree, False)
          else
            (case child_lookup dtree parent_en name of
               None \<Rightarrow> (dtree, False)
             | Some (c, en) \<Rightarrow>
                 (case h_dir_tree en of
                    None \<Rightarrow> (dtree, False)
                  | Some kvs \<Rightarrow>
                      if en_type en \<noteq> DET_dir then (dtree, False)
                      else if \<not> entries_removed dtree kvs then (dtree, False)
                      else (dir_tree_entry_modified
                              (en_update c (\<lambda>e. e\<lparr>removed := True, age := 0\<rparr>) dtree) parent,
                            True))))"

text \<open>The writes of \<^verbatim>\<open>dir_tree_dir_create\<close> to an entry that exists already.\<close>

definition dir_create_convert :: "time_t \<Rightarrow> DirEntry \<Rightarrow> DirEntry" where
  "dir_create_convert t en =
     en\<lparr>en_type := DET_dir,
        h_dir_tree := (case h_dir_tree en of None \<Rightarrow> Some [] | Some kvs \<Rightarrow> Some kvs),
        removed := False, access_time := t, dir_cache := None, dir_cache_size := 0\<rparr>"

definition dir_tree_dir_create ::
  "time_t \<Rightarrow> DirTree \<Rightarrow> fuse_ino_t \<Rightarrow> string \<Rightarrow> mode_t \<Rightarrow> fuse_req_t \<Rightarrow> DirTree \<times> effect list" where
  "dir_tree_dir_create t dtree parent name m req =
     (case h_inodes dtree parent of
        None \<Rightarrow> (dtree, [Mkdir_cb req False 0 0 0 0])
      | Some dir_en \<Rightarrow>
          if en_type dir_en \<noteq> DET_dir then (dtree, [Mkdir_cb req False 0 0 0 0])
          else
            (case (case child_lookup dtree dir_en name of
                     None \<Rightarrow> dir_tree_add_entry t dtree name m DET_dir parent 10 t
                   | Some (c, en) \<Rightarrow> (en_update c (dir_create_convert t) dtree, Some c)) of
               (dtree1, None) \<Rightarrow> (dtree1, [Mkdir_cb req False 0 0 0 0])
             | (dtree1, Some c) \<Rightarrow>
                 let dtree2 = en_update parent (\<lambda>e. e\<lparr>is_modified := True\<rparr>) dtree1;
                     dir_age = (case h_inodes dtree2 parent of None \<Rightarrow> age dir_en | Some p \<Rightarrow> age p);
                     dtree3 = en_update c
                                (\<lambda>e. e\<lparr>is_modified := False, removed := False, mode := dmode dtree,
                                       age := dir_age\<rparr>) dtree2
                 in (case h_inodes dtree3 c of
                       None \<Rightarrow> (dtree3, [Mkdir_cb req False 0 0 0 0])
                     | Some en \<Rightarrow>
                         (dtree3,
                          [Mkdir_cb req True (ino en) (mode en) (en_size en) (ctime en)]))))"

subsection \<open>Rename and symlink\<close>

text \<open>Modelled from the spec: the macro \<^verbatim>\<open>FIVEG\<close> is defined outside the sources; the
  spec gives the limit of a single copy as 5 GiB.\<close>

definition FIVEG :: guint64 where
  "FIVEG = 5 * 2 ^ 30"

definition dir_tree_on_rename_delete_cb ::
  "DirTree \<Rightarrow> RenameData \<Rightarrow> bool \<Rightarrow> DirTree \<times> effect list" where
  "dir_tree_on_rename_delete_cb dtree rdata success =
     (let failed = (dtree, [Http_connection_release, Rename_cb (rn_req rdata) False]) in
      if \<not> success then failed
      else
        (case h_inodes dtree (rn_parent_ino rdata) of
           None \<Rightarrow> failed
         | Some parent_en \<Rightarrow>
             if en_type parent_en \<noteq> DET_dir then failed
             else
               (case child_lookup dtree parent_en (rn_name rdata) of
                  None \<Rightarrow> failed
                | Some (c, en) \<Rightarrow>
                    (case h_inodes dtree (rn_newparent_ino rdata) of
                       None \<Rightarrow> failed
                     | Some newparent_en \<Rightarrow>
                         if en_type newparent_en \<noteq> DET_dir then failed
                         else
                           (dir_tree_entry_modified
                              (dir_tree_entry_modified
                                 (en_update c (\<lambda>e. e\<lparr>removed := True\<rparr>) dtree) c)
                              (rn_newparent_ino rdata),
                            [Http_connection_release, Rename_cb (rn_req rdata) True])))))"

definition dir_tree_on_rename_delete_con_cb ::
  "bool \<Rightarrow> DirTree \<Rightarrow> RenameData \<Rightarrow> DirTree \<times> effect list" where
  "dir_tree_on_rename_delete_con_cb res dtree rdata =
     (case h_inodes dtree (rn_parent_ino rdata) of
        None \<Rightarrow> (dtree, [Rename_cb (rn_req rdata) False])
      | Some parent_en \<Rightarrow>
          if en_type parent_en \<noteq> DET_dir then (dtree, [Rename_cb (rn_req rdata) False])
          else
            (case child_lookup dtree parent_en (rn_name rdata) of
               None \<Rightarrow> (dtree, [Rename_cb (rn_req rdata) False])
             | Some (c, en) \<Rightarrow>
                 let request = [Http_connection_acquire,
                                Http_connection_make_request (''/'' @ fullpath en) ''DELETE''
                                  (Dir_tree_on_rename_delete_cb rdata)]
                 in if \<not> res
                    then (dtree, request @ [Rename_cb (rn_req rdata) False, Http_connection_release])
                    else (dtree, request)))"

definition dir_tree_on_rename_copy_cb ::
  "time_t \<Rightarrow> bool \<Rightarrow> DirTree \<Rightarrow> RenameData \<Rightarrow> bool \<Rightarrow> DirTree \<times> effect list" where
  "dir_tree_on_rename_copy_cb t pool_ok dtree rdata success =
     (let failed = (dtree, [Http_connection_release, Rename_cb (rn_req rdata) False]) in
      if \<not> success then failed
      else
        (case h_inodes dtree (rn_newparent_ino rdata) of
           None \<Rightarrow> failed
         | Some newparent_en \<Rightarrow>
             if en_type newparent_en \<noteq> DET_dir then failed
             else
               (case child_lookup dtree newparent_en (rn_newname rdata) of
                  None \<Rightarrow> failed
                | Some (c, en) \<Rightarrow>
                    (dir_tree_entry_modified
                       (en_update c (\<lambda>e. e\<lparr>removed := False, access_time := t\<rparr>) dtree)
                       (rn_newparent_ino rdata),
                     [Http_connection_release,
                      Client_pool_get_client (Dir_tree_on_rename_delete_con_cb rdata)] @
                     (if \<not> pool_ok then [Rename_cb (rn_req rdata) False] else [])))))"

definition dir_tree_on_rename_copy_con_cb ::
  "bool \<Rightarrow> DirTree \<Rightarrow> RenameData \<Rightarrow> DirTree \<times> effect list" where
  "dir_tree_on_rename_copy_con_cb res dtree rdata =
     (let failed = (dtree, [Rename_cb (rn_req rdata) False]) in
      case h_inodes dtree (rn_parent_ino rdata) of
        None \<Rightarrow> failed
      | Some parent_en \<Rightarrow>
          if en_type parent_en \<noteq> DET_dir then failed
          else
            (case child_lookup dtree parent_en (rn_name rdata) of
               None \<Rightarrow> failed
             | Some (c, en) \<Rightarrow>
                 (case h_inodes dtree (rn_newparent_ino rdata) of
                    None \<Rightarrow> failed
                  | Some newparent_en \<Rightarrow>
                      if en_type newparent_en \<noteq> DET_dir then failed
                      else
                        let src_path =
                              (if key_prefix (app dtree) \<noteq> []
                               then bucket_name (app dtree) @ key_prefix (app dtree) @ fullpath en
                               else bucket_name (app dtree) @ ''/'' @ fullpath en);
                            dst_path =
                              (if rn_newparent_ino rdata = FUSE_ROOT_ID
                               then fullpath newparent_en @ ''/'' @ rn_newname rdata
                               else ''/'' @ fullpath newparent_en @ ''/'' @ rn_newname rdata);
                            request =
                              [Http_connection_acquire,
                               Http_connection_add_output_header ''x-amz-copy-source'' src_path,
                               Http_connection_add_output_header ''x-amz-storage-class''
                                 (storage_type (app dtree)),
                               Http_connection_make_request dst_path ''PUT''
                                 (Dir_tree_on_rename_copy_cb rdata)]
                        in if \<not> res
                           then (dtree, request @ [Rename_cb (rn_req rdata) False,
                                                   Http_connection_release])
                           else (dtree, request))))"

definition dir_tree_rename ::
  "bool \<Rightarrow> DirTree \<Rightarrow> fuse_ino_t \<Rightarrow> string \<Rightarrow> fuse_ino_t \<Rightarrow> string \<Rightarrow> fuse_req_t \<Rightarrow>
   DirTree \<times> effect list" where
  "dir_tree_rename pool_ok dtree parent name newparent newname req =
     (let failed = (dtree, [Rename_cb req False]) in
      case h_inodes dtree parent of
        None \<Rightarrow> failed
      | Some parent_en \<Rightarrow>
          if en_type parent_en \<noteq> DET_dir then failed
          else
            (case h_inodes dtree newparent of
               None \<Rightarrow> failed
             | Some newparent_en \<Rightarrow>
                 if en_type newparent_en \<noteq> DET_dir then failed
                 else
                   (case child_lookup dtree parent_en name of
                      None \<Rightarrow> failed
                    | Some (c, en) \<Rightarrow>
                        if en_type en = DET_dir then failed
                        else if en_size en \<ge> FIVEG then failed
                        else
                          (dtree,
                           Client_pool_get_client
                             (Dir_tree_on_rename_copy_con_cb
                                \<lparr>rn_parent_ino = parent, rn_name = name,
                                 rn_newparent_ino = newparent, rn_newname = newname,
                                 rn_req = req\<rparr>) #
                           (if \<not> pool_ok then [Rename_cb req False] else [])))))"

text \<open>The mode of a symbolic link: \<^verbatim>\<open>S_IFLNK | S_IRWXU | S_IRWXG | S_IRWXO\<close>, the
  permission bits being octal 0777.\<close>

definition symlink_mode :: mode_t where
  "symlink_mode = or S_IFLNK 511"

definition dir_tree_create_symlink ::
  "time_t \<Rightarrow> DirTree \<Rightarrow> fuse_ino_t \<Rightarrow> string \<Rightarrow> string \<Rightarrow> fuse_req_t \<Rightarrow> DirTree \<times> effect list" where
  "dir_tree_create_symlink t dtree parent fname link req =
     (case h_inodes dtree parent of
        None \<Rightarrow> (dtree, [Symlink_cb req False 0 0 0 0])
      | Some dir_en \<Rightarrow>
          if en_type dir_en \<noteq> DET_dir then (dtree, [Symlink_cb req False 0 0 0 0])
          else
            (case (case child_lookup dtree dir_en fname of
                     None \<Rightarrow> dir_tree_add_entry t dtree fname symlink_mode DET_file parent 0 t
                   | Some (c, en) \<Rightarrow>
                       (dir_tree_entry_modified
                          (en_update c
                             (\<lambda>e. e\<lparr>removed := False, access_time := t, age := age dir_en\<rparr>) dtree)
                          parent,
                        Some c)) of
               (dtree1, None) \<Rightarrow> (dtree1, [Symlink_cb req False 0 0 0 0])
             | (dtree1, Some c) \<Rightarrow>
                 let dtree2 = en_update c (\<lambda>e. e\<lparr>is_modified := True, mode := symlink_mode\<rparr>) dtree1
                 in (case h_inodes dtree2 c of
                       None \<Rightarrow> (dtree2, [Symlink_cb req False 0 0 0 0])
                     | Some en \<Rightarrow>
                         (dtree2,
                          [Fileio_simple_upload (fullpath en) link symlink_mode
                             \<lparr>sl_ino = ino en, sl_req = req\<rparr>]))))"

definition dir_tree_on_symlink_cb :: "DirTree \<Rightarrow> SymlinkData \<Rightarrow> bool \<Rightarrow> DirTree \<times> effect list" where
  "dir_tree_on_symlink_cb dtree sdata success =
     (case h_inodes dtree (sl_ino sdata) of
        None \<Rightarrow> (dtree, [Symlink_cb (sl_req sdata) False 0 0 0 0])
      | Some en \<Rightarrow>
          if en_type en \<noteq> DET_file then (dtree, [Symlink_cb (sl_req sdata) False 0 0 0 0])
          else (dtree, [Symlink_cb (sl_req sdata) success (ino en) (mode en) (en_size en) (ctime en)]))"

subsection \<open>The tree driven by its environment\<close>

text \<open>
  The tree runs on one event loop: the adapter calls an operation, the pool hands a
  client to a waiting callback, a response arrives, the listing helper reports an entry,
  sweeps and completes, or a callback stored in a request context is called. Each of
  these is one event; its arguments are the arguments of the C function, the time read
  and the results of the calls to the pool and the connection.
\<close>

datatype event =
    Ev_lookup time_t bool fuse_ino_t string fuse_req_t
  | Ev_readdir time_t bool fuse_ino_t size_t int fuse_req_t "nat option"
  | Ev_opendir fuse_ino_t nat
  | Ev_releasedir fuse_ino_t "nat option"
  | Ev_file_create time_t fuse_ino_t string mode_t fuse_req_t
  | Ev_file_unlink bool fuse_ino_t string fuse_req_t
  | Ev_file_remove bool fuse_ino_t fuse_req_t
  | Ev_dir_remove fuse_ino_t string
  | Ev_dir_create time_t fuse_ino_t string mode_t fuse_req_t
  | Ev_rename bool fuse_ino_t string fuse_ino_t string fuse_req_t
  | Ev_create_symlink time_t fuse_ino_t string string fuse_req_t
  | Ev_set_entry_exist fuse_ino_t
  | Ev_pool_ready bool pool_cb
  | Ev_http_response time_t bool http_cb bool Headers
  | Ev_update_entry time_t DirEntryType fuse_ino_t string guint64 time_t
  | Ev_stop_update time_t fuse_ino_t
  | Ev_listing_done time_t DirTreeFillDirData bool
  | Ev_on_lookup_read time_t bool LookupOpData bool
  | Ev_symlink_done SymlinkData bool

fun run_pool_cb :: "bool \<Rightarrow> DirTree \<Rightarrow> pool_cb \<Rightarrow> DirTree \<times> effect list" where
  "run_pool_cb res dtree (Dir_tree_fill_dir_on_http_ready d) = dir_tree_fill_dir_on_http_ready dtree d"
| "run_pool_cb res dtree (Dir_tree_on_lookup_con_cb op_data) = dir_tree_on_lookup_con_cb res dtree op_data"
| "run_pool_cb res dtree (Dir_tree_on_lookup_not_found_con_cb op_data) =
     dir_tree_on_lookup_not_found_con_cb res dtree op_data"
| "run_pool_cb res dtree (Dir_tree_file_remove_on_con_cb data) =
     dir_tree_file_remove_on_con_cb res dtree data"
| "run_pool_cb res dtree (Dir_tree_on_rename_copy_con_cb rdata) =
     dir_tree_on_rename_copy_con_cb res dtree rdata"
| "run_pool_cb res dtree (Dir_tree_on_rename_delete_con_cb rdata) =
     dir_tree_on_rename_delete_con_cb res dtree rdata"

fun run_http_cb ::
  "time_t \<Rightarrow> bool \<Rightarrow> DirTree \<Rightarrow> http_cb \<Rightarrow> bool \<Rightarrow> Headers \<Rightarrow> DirTree \<times> effect list" where
  "run_http_cb t pool_ok dtree (Dir_tree_on_lookup_cb op_data) success headers =
     dir_tree_on_lookup_cb t dtree op_data success headers"
| "run_http_cb t pool_ok dtree (Dir_tree_on_lookup_not_found_cb op_data) success headers =
     dir_tree_on_lookup_not_found_cb t dtree op_data success headers"
| "run_http_cb t pool_ok dtree (Dir_tree_file_remove_on_con_data_cb data) success headers =
     dir_tree_file_remove_on_con_data_cb dtree data success"
| "run_http_cb t pool_ok dtree (Dir_tree_on_rename_copy_cb rdata) success headers =
     dir_tree_on_rename_copy_cb t pool_ok dtree rdata success"
| "run_http_cb t pool_ok dtree (Dir_tree_on_rename_delete_cb rdata) success headers =
     dir_tree_on_rename_delete_cb dtree rdata success"

fun step :: "event \<Rightarrow> DirTree \<Rightarrow> DirTree \<times> effect list" where
  "step (Ev_lookup t pool_ok parent name req) dtree = dir_tree_lookup t pool_ok dtree parent name req"
| "step (Ev_readdir t pool_ok i sz off req fi) dtree =
     dir_tree_fill_dir_buf t pool_ok dtree i sz off Rfuse_readdir_cb req fi"
| "step (Ev_opendir i fh) dtree = (fst (dir_tree_opendir dtree i fh), [])"
| "step (Ev_releasedir i fi) dtree = (fst (dir_tree_releasedir dtree i fi), [])"
| "step (Ev_file_create t parent name m req) dtree = dir_tree_file_create t dtree parent name m req"
| "step (Ev_file_unlink pool_ok parent name req) dtree = dir_tree_file_unlink pool_ok dtree parent name req"
| "step (Ev_file_remove pool_ok i req) dtree = dir_tree_file_remove pool_ok dtree i req"
| "step (Ev_dir_remove parent name) dtree = (fst (dir_tree_dir_remove dtree parent name), [])"
| "step (Ev_dir_create t parent name m req) dtree = dir_tree_dir_create t dtree parent name m req"
| "step (Ev_rename pool_ok parent name newparent newname req) dtree =
     dir_tree_rename pool_ok dtree parent name newparent newname req"
| "step (Ev_create_symlink t parent fname link req) dtree =
     dir_tree_create_symlink t dtree parent fname link req"
| "step (Ev_set_entry_exist i) dtree = (dir_tree_set_entry_exist dtree i, [])"
| "step (Ev_pool_ready res cb) dtree = run_pool_cb res dtree cb"
| "step (Ev_http_response t pool_ok cb success headers) dtree =
     run_http_cb t pool_ok dtree cb success headers"
| "step (Ev_update_entry t ty parent entry_name sz last_modified) dtree =
     (fst (dir_tree_update_entry t dtree ty parent entry_name sz last_modified), [])"
| "step (Ev_stop_update now parent) dtree = (dir_tree_stop_update now dtree parent, [])"
| "step (Ev_listing_done t d success) dtree = dir_tree_fill_on_dir_buf_cb t dtree d success"
| "step (Ev_on_lookup_read t pool_ok op_data success) dtree =
     dir_tree_on_lookup_read t pool_ok dtree op_data success"
| "step (Ev_symlink_done sdata success) dtree = dir_tree_on_symlink_cb dtree sdata success"

text \<open>A run: the events in order, with the calls they make collected.\<close>

fun run_events :: "event list \<Rightarrow> DirTree \<times> effect list \<Rightarrow> DirTree \<times> effect list" where
  "run_events [] w = w"
| "run_events (ev # evs) w =
     (case step ev (fst w) of (dtree1, effs) \<Rightarrow> run_events evs (dtree1, snd w @ effs))"

text \<open>
  A callback is called only after it was handed over: a pool callback after
  \<^verbatim>\<open>client_pool_get_client\<close>, a response callback after the request was made, the
  completion of a listing after the listing was requested, \<^verbatim>\<open>dir_tree_on_lookup_read\<close>
  where a function of the tree calls it with that result, the symlink callback after the
  upload was started. A new directory handle has an address that is not in use.
\<close>

fun enabled :: "DirTree \<Rightarrow> effect list \<Rightarrow> event \<Rightarrow> bool" where
  "enabled dtree trace (Ev_pool_ready res cb) = (Client_pool_get_client cb \<in> set trace)"
| "enabled dtree trace (Ev_http_response t pool_ok cb success headers) =
     list_ex (\<lambda>e. case e of Http_connection_make_request path method cb' \<Rightarrow> cb' = cb | _ \<Rightarrow> False) trace"
| "enabled dtree trace (Ev_listing_done t d success) =
     list_ex (\<lambda>e. case e of Http_connection_get_directory_listing path i d' \<Rightarrow> d' = d | _ \<Rightarrow> False) trace"
| "enabled dtree trace (Ev_on_lookup_read t pool_ok op_data success) =
     list_ex (\<lambda>e. case e of Readdir_cb cb req ok sz off buf n \<Rightarrow>
                      cb = Dir_tree_on_lookup_read op_data \<and> ok = success
                   | _ \<Rightarrow> False) trace"
| "enabled dtree trace (Ev_symlink_done sdata success) =
     list_ex (\<lambda>e. case e of Fileio_simple_upload path link m sdata' \<Rightarrow> sdata' = sdata | _ \<Rightarrow> False) trace"
| "enabled dtree trace (Ev_opendir i fh) = (dir_ops dtree fh = None)"
| "enabled dtree trace _ = True"

text \<open>The runs in which every event is enabled when it happens.\<close>

fun run_enabled :: "event list \<Rightarrow> DirTree \<times> effect list \<Rightarrow> bool" where
  "run_enabled [] w = True"
| "run_enabled (ev # evs) w =
     (enabled (fst w) (snd w) ev \<and>
      (case step ev (fst w) of (dtree1, effs) \<Rightarrow> run_enabled evs (dtree1, snd w @ effs)))"

subsection \<open>Example trees\<close>

definition example_app :: Application where
  "example_app =
     \<lparr>dir_cache_max_time = 100, file_cache_max_time = 10, check_empty_files = False,
      force_head_requests_on_lookup = False, bucket_name = ''bucket'', key_prefix = [],
      storage_type = ''STANDARD'', file_mode = - 1, dir_mode = - 1\<rparr>"

definition no_headers :: Headers where
  "no_headers =
     \<lparr>hd_content_length = None, hd_content_type = None, hd_etag = None, hd_version_id = None,
      hd_meta_mode = None, hd_meta_date = None, hd_last_modified = None\<rparr>"

text \<open>In the example trees a new name goes to the end of its table.\<close>

definition example_slot :: "string \<Rightarrow> (string \<times> fuse_ino_t) list \<Rightarrow> nat" where
  "example_slot name kvs = length kvs"

definition tree0 :: DirTree where
  "tree0 = dir_tree_create 100 example_app example_slot"

text \<open>The tree after \<^verbatim>\<open>create (root, "f")\<close>: the file has inode 2.\<close>

definition tree_f :: DirTree where
  "tree_f = fst (dir_tree_file_create 100 tree0 1 ''f'' 420 1)"

text \<open>
  Scenario S1 of the spec: a lookup of \<^verbatim>\<open>a.txt\<close> in the empty tree starts a listing
  of the root; the listing reports \<^verbatim>\<open>a.txt\<close> (100 bytes), the sweep runs, the
  listing completes, and the lookup is repeated. The file gets inode 2.
\<close>

definition op_a :: LookupOpData where
  "op_a = \<lparr>lo_req = 1, lo_ino = 0, lo_not_found = True, lo_name = ''a.txt'', lo_parent_ino = 1\<rparr>"

definition fill_a :: DirTreeFillDirData where
  "fill_a = \<lparr>fd_ino = 1, fd_size = 1048576, fd_off = 0, fd_readdir_cb = Dir_tree_on_lookup_read op_a,
     fd_req = 1, fd_dop = None\<rparr>"

definition evs_S1 :: "event list" where
  "evs_S1 = [Ev_lookup 100 True 1 ''a.txt'' 1,
             Ev_pool_ready True (Dir_tree_fill_dir_on_http_ready fill_a),
             Ev_update_entry 100 DET_file 1 ''a.txt'' 100 50,
             Ev_stop_update 100 1,
             Ev_listing_done 100 fill_a True,
             Ev_on_lookup_read 100 True op_a True]"

definition tree_S1 :: DirTree where
  "tree_S1 = fst (run_events evs_S1 (tree0, []))"

text \<open>An unlink of inode 2 whose DELETE request fails.\<close>

definition remove_2 :: FileRemoveData where
  "remove_2 = \<lparr>fr_ino = 2, fr_req = 2\<rparr>"

definition evs_unlink_fails :: "event list" where
  "evs_unlink_fails =
     [Ev_file_unlink True 1 ''a.txt'' 2,
      Ev_pool_ready True (Dir_tree_file_remove_on_con_cb remove_2),
      Ev_http_response 101 True (Dir_tree_file_remove_on_con_data_cb remove_2) False no_headers]"

text \<open>
  Scenario S5 of the spec: directories \<^verbatim>\<open>a\<close> (inode 2) and \<^verbatim>\<open>b\<close> (inode 3), a
  file \<^verbatim>\<open>a/x\<close> of 10 bytes (inode 4), and the rename of \<^verbatim>\<open>a/x\<close> to \<^verbatim>\<open>b/y\<close> up to
  the successful response to the copy.
\<close>

definition rename_xy :: RenameData where
  "rename_xy = \<lparr>rn_parent_ino = 2, rn_name = ''x'', rn_newparent_ino = 3, rn_newname = ''y'',
     rn_req = 5\<rparr>"

definition evs_S5_setup :: "event list" where
  "evs_S5_setup = [Ev_dir_create 100 1 ''a'' 493 1,
                   Ev_dir_create 100 1 ''b'' 493 2,
                   Ev_update_entry 100 DET_file 2 ''x'' 10 50]"

definition evs_S5_rename :: "event list" where
  "evs_S5_rename = [Ev_rename True 2 ''x'' 3 ''y'' 5,
                    Ev_pool_ready True (Dir_tree_on_rename_copy_con_cb rename_xy),
                    Ev_http_response 101 True (Dir_tree_on_rename_copy_cb rename_xy) True no_headers]"

definition tree_S5 :: DirTree where
  "tree_S5 = fst (run_events evs_S5_setup (tree0, []))"

text \<open>The same tree with a removed entry \<^verbatim>\<open>b/y\<close> (inode 5), left by a create and an
  unlink.\<close>

definition remove_5 :: FileRemoveData where
  "remove_5 = \<lparr>fr_ino = 5, fr_req = 4\<rparr>"

definition tree_S5_y :: DirTree where
  "tree_S5_y = fst (run_events
     [Ev_file_create 100 3 ''y'' 420 3,
      Ev_file_unlink True 3 ''y'' 4,
      Ev_pool_ready True (Dir_tree_file_remove_on_con_cb remove_5),
      Ev_http_response 100 True (Dir_tree_file_remove_on_con_data_cb remove_5) True no_headers]
     (tree_S5, []))"

text \<open>Create, unlink and create again of \<^verbatim>\<open>f\<close> under the root.\<close>

definition evs_create_unlink_create :: "event list" where
  "evs_create_unlink_create =
     [Ev_file_create 100 1 ''f'' 420 1,
      Ev_file_unlink True 1 ''f'' 2,
      Ev_pool_ready True (Dir_tree_file_remove_on_con_cb remove_2),
      Ev_http_response 101 True (Dir_tree_file_remove_on_con_data_cb remove_2) True no_headers,
      Ev_file_create 102 1 ''f'' 420 3]"

definition tree_f_unlinked :: DirTree where
  "tree_f_unlinked = fst (dir_tree_file_remove_on_con_data_cb tree_f remove_2 True)"

text \<open>
  Scenario S2 of the spec, after S1: a lookup of \<^verbatim>\<open>missing\<close> sends a HEAD request,
  which fails and leaves a removed entry (inode 3); a second lookup at time 102 rebuilds
  the listing of the root from the tree and is repeated.
\<close>

definition op_missing :: LookupOpData where
  "op_missing = \<lparr>lo_req = 2, lo_ino = 0, lo_not_found = True, lo_name = ''missing'',
     lo_parent_ino = 1\<rparr>"

definition op_missing2 :: LookupOpData where
  "op_missing2 = \<lparr>lo_req = 3, lo_ino = 0, lo_not_found = True, lo_name = ''missing'',
     lo_parent_ino = 1\<rparr>"

definition evs_S2 :: "event list" where
  "evs_S2 = [Ev_lookup 101 True 1 ''missing'' 2,
             Ev_pool_ready True (Dir_tree_on_lookup_not_found_con_cb op_missing),
             Ev_http_response 101 True (Dir_tree_on_lookup_not_found_cb op_missing) False no_headers,
             Ev_lookup 102 True 1 ''missing'' 3,
             Ev_on_lookup_read 102 True op_missing2 True]"

definition tree_S2 :: DirTree where
  "tree_S2 = fst (run_events evs_S2 (tree_S1, []))"

text \<open>
  One full refresh of the listing of directory \<open>i\<close> through a new handle \<open>fh\<close>: open,
  read at offset 0, the pool hands over a client, the listing helper reports the entries,
  sweeps and completes, and the handle is released.
\<close>

definition fill_of :: "fuse_ino_t \<Rightarrow> nat \<Rightarrow> fuse_req_t \<Rightarrow> DirTreeFillDirData" where
  "fill_of i fh req =
     \<lparr>fd_ino = i, fd_size = 4096, fd_off = 0, fd_readdir_cb = Rfuse_readdir_cb, fd_req = req,
      fd_dop = Some fh\<rparr>"

definition refresh_events ::
  "time_t \<Rightarrow> fuse_ino_t \<Rightarrow> nat \<Rightarrow> fuse_req_t \<Rightarrow> (DirEntryType \<times> string \<times> guint64) list \<Rightarrow> event list" where
  "refresh_events t i fh req reported =
     [Ev_opendir i fh,
      Ev_readdir t True i 4096 0 req (Some fh),
      Ev_pool_ready True (Dir_tree_fill_dir_on_http_ready (fill_of i fh req))] @
     map (\<lambda>r. Ev_update_entry t (fst r) i (fst (snd r)) (snd (snd r)) 50) reported @
     [Ev_stop_update t i,
      Ev_listing_done t (fill_of i fh req) True,
      Ev_releasedir i (Some fh)]"

text \<open>
  A directory \<^verbatim>\<open>d\<close> (inode 2) under the root whose listing, with one file \<^verbatim>\<open>c\<close>
  (inode 3), is refreshed three times; then the listing of the root is refreshed once.
\<close>

definition evs_d_refreshed :: "event list" where
  "evs_d_refreshed =
     [Ev_dir_create 100 1 ''d'' 493 1] @
     refresh_events 100 2 10 2 [(DET_file, ''c'', 7)] @
     refresh_events 300 2 11 3 [(DET_file, ''c'', 7)] @
     refresh_events 500 2 12 4 [(DET_file, ''c'', 7)] @
     refresh_events 500 1 13 5 [(DET_dir, ''d'', 0)]"

definition tree_d_refreshed :: DirTree where
  "tree_d_refreshed = fst (run_events evs_d_refreshed (tree0, []))"

text \<open>A fourth refresh of \<^verbatim>\<open>d\<close>, in which the server reports no entry.\<close>

definition evs_d_empty_listing :: "event list" where
  "evs_d_empty_listing = refresh_events 700 2 14 6 []"

text \<open>A listing of the root that fails, after a mkdir under the root.\<close>

definition evs_listing_dispatched :: "event list" where
  "evs_listing_dispatched =
     [Ev_dir_create 100 1 ''d'' 493 1,
      Ev_opendir 1 10,
      Ev_readdir 100 True 1 4096 0 2 (Some 10),
      Ev_pool_ready True (Dir_tree_fill_dir_on_http_ready (fill_of 1 10 2))]"

definition tree_listing_dispatched :: DirTree where
  "tree_listing_dispatched = fst (run_events evs_listing_dispatched (tree0, []))"

text \<open>The context of a HEAD refresh of inode 2.\<close>

definition op_head_2 :: LookupOpData where
  "op_head_2 = \<lparr>lo_req = 9, lo_ino = 2, lo_not_found = False, lo_name = [], lo_parent_ino = 0\<rparr>"





text \<open>
  A configuration without directory caching (\<^verbatim>\<open>filesystem.dir_cache_max_time\<close> is 0),
  and a lookup of \<^verbatim>\<open>a.txt\<close> in its empty tree. The listing that the lookup starts
  completes at time 100 and the lookup is repeated when the clock shows 101; the second
  listing completes at 101 and the lookup is repeated at 102.
\<close>

definition app_no_dir_cache :: Application where
  "app_no_dir_cache = example_app\<lparr>dir_cache_max_time := 0\<rparr>"

definition tree0_no_dir_cache :: DirTree where
  "tree0_no_dir_cache = dir_tree_create 100 app_no_dir_cache example_slot"

definition evs_lookup_retries :: "event list" where
  "evs_lookup_retries =
     [Ev_lookup 100 True 1 ''a.txt'' 1,
      Ev_pool_ready True (Dir_tree_fill_dir_on_http_ready fill_a),
      Ev_update_entry 100 DET_file 1 ''a.txt'' 100 50,
      Ev_stop_update 100 1,
      Ev_listing_done 100 fill_a True,
      Ev_on_lookup_read 101 True op_a True,
      Ev_pool_ready True (Dir_tree_fill_dir_on_http_ready fill_a),
      Ev_update_entry 101 DET_file 1 ''a.txt'' 100 50,
      Ev_stop_update 101 1,
      Ev_listing_done 101 fill_a True,
      Ev_on_lookup_read 102 True op_a True]"

subsection \<open>Auxiliary notions of the proofs\<close>

text \<open>Two records of the same entry that agree on everything but its cache state, its
  flags, its age and its times.\<close>

definition same_ident :: "DirEntry \<Rightarrow> DirEntry \<Rightarrow> bool" where
  "same_ident e e' =
     (ino e' = ino e \<and> parent_ino e' = parent_ino e \<and> basename e' = basename e \<and>
      fullpath e' = fullpath e \<and> en_type e' = en_type e \<and> h_dir_tree e' = h_dir_tree e \<and>
      mode e' = mode e \<and> en_size e' = en_size e \<and> ctime e' = ctime e)"

definition same_idents :: "DirTree \<Rightarrow> DirTree \<Rightarrow> bool" where
  "same_idents d d' = (\<forall>k. rel_option same_ident (h_inodes d k) (h_inodes d' k))"

text \<open>The inode index holds every record under the record's own inode number, as
  \<^verbatim>\<open>dir_tree_add_entry\<close>, the only function that inserts into it, does.\<close>

definition inodes_keyed :: "DirTree \<Rightarrow> bool" where
  "inodes_keyed d = (\<forall>k e. h_inodes d k = Some e \<longrightarrow> ino e = k)"

text \<open>The listing that C6 describes: the two implicit records, then the record of every
  child that passes the test of the code, in the order of the table.\<close>

definition listing_record :: "DirTree \<Rightarrow> DirEntry \<Rightarrow> string \<times> fuse_ino_t \<Rightarrow> dirent option" where
  "listing_record dtree parent_en kv =
     (case h_inodes dtree (snd kv) of
        None \<Rightarrow> None
      | Some e \<Rightarrow> if age e \<ge> age parent_en \<and> \<not> removed e
                  then Some (basename e, ino e, en_size e) else None)"

definition listing_of :: "DirTree \<Rightarrow> fuse_ino_t \<Rightarrow> DirEntry \<Rightarrow> dirbuf" where
  "listing_of dtree i en =
     [(''.'', i, 0), (''..'', i, 0)] @
     List.map_filter (listing_record dtree en) (case h_dir_tree en of None \<Rightarrow> [] | Some kvs \<Rightarrow> kvs)"

section \<open>Properties\<close>

subsection \<open>Writes to the store\<close>

lemma en_update_lookup:
  "h_inodes (en_update c f d) k = (if k = c then map_option f (h_inodes d c) else h_inodes d k)"
  by (simp add: en_update_def split: option.splits)

lemma en_update_frame [simp]:
  "app (en_update c f d) = app d" "max_ino (en_update c f d) = max_ino d"
  "fmode (en_update c f d) = fmode d" "dmode (en_update c f d) = dmode d"
  "dir_ops (en_update c f d) = dir_ops d" "slot (en_update c f d) = slot d"
  by (simp_all add: en_update_def split: option.splits)

lemma child_lookup_SomeD:
  "child_lookup dtree dir_en name = Some (c, en) \<Longrightarrow>
   g_hash_table_lookup (h_dir_tree dir_en) name = Some c \<and> h_inodes dtree c = Some en"
  by (auto simp: child_lookup_def split: option.splits)

lemma update_request_buffer_frame [simp]:
  "h_inodes (update_request_buffer dop n b d) = h_inodes d"
  "app (update_request_buffer dop n b d) = app d"
  "max_ino (update_request_buffer dop n b d) = max_ino d"
  "fmode (update_request_buffer dop n b d) = fmode d"
  "dmode (update_request_buffer dop n b d) = dmode d"
  "slot (update_request_buffer dop n b d) = slot d"
  by (simp_all add: update_request_buffer_def split: option.splits)

lemma map_of_alist_insert:
  "map_of (alist_insert n k v kvs) k' = (if k' = k then Some v else map_of kvs k')"
proof (cases "map_of kvs k")
  case None
  have "map_of (take n kvs @ drop n kvs) k' = map_of kvs k'"
    by simp
  then have split: "(map_of (drop n kvs) ++ map_of (take n kvs)) k' = map_of kvs k'"
    by (simp only: map_of_append)
  from None have "map_of (take n kvs @ drop n kvs) k = None"
    by simp
  then have "(map_of (drop n kvs) ++ map_of (take n kvs)) k = None"
    by (simp only: map_of_append)
  then have tk: "map_of (take n kvs) k = None"
    by (simp add: map_add_def split: option.splits)
  have "map_of (take n kvs @ (k, v) # drop n kvs) k' =
        (map_of ((k, v) # drop n kvs) ++ map_of (take n kvs)) k'"
    by (simp only: map_of_append)
  also have "\<dots> = (if k' = k then Some v else map_of kvs k')"
    using split tk by (auto simp: map_add_def split: option.splits)
  finally show ?thesis
    using None by (simp add: alist_insert_def)
next
  case (Some a)
  have "map_of (map (\<lambda>p. if fst p = k then (k, v) else p) kvs) k' =
        (if k' = k then (if map_of kvs k = None then None else Some v) else map_of kvs k')"
    by (induction kvs) auto
  with Some show ?thesis
    by (simp add: alist_insert_def)
qed

lemma g_hash_table_lookup_insert:
  "g_hash_table_lookup (g_hash_table_insert place tbl k v) k' =
     (if tbl = None then None else if k' = k then Some v else g_hash_table_lookup tbl k')"
  by (cases tbl) (simp_all add: g_hash_table_lookup_def g_hash_table_insert_def map_of_alist_insert)

lemma entry_modified_dir:
  "h_inodes d i = Some e0 \<Longrightarrow> en_type e0 = DET_dir \<Longrightarrow>
   dir_tree_entry_modified d i = en_update i invalidate_dir_cache d"
  by (simp add: dir_tree_entry_modified_def)

lemma entry_modified_lookup:
  "h_inodes (dir_tree_entry_modified d i) k = None \<longleftrightarrow> h_inodes d k = None"
  "h_inodes (dir_tree_entry_modified d i) k = Some e \<Longrightarrow>
   \<exists>e0. h_inodes d k = Some e0 \<and> (e = e0 \<or> e = invalidate_dir_cache e0)"
  by (auto simp: dir_tree_entry_modified_def en_update_lookup split: option.splits if_splits)

lemma same_ident_refl [simp]: "same_ident e e"
  by (simp add: same_ident_def)

lemma same_ident_trans: "same_ident a b \<Longrightarrow> same_ident b c \<Longrightarrow> same_ident a c"
  by (simp add: same_ident_def)

lemma same_idents_refl [simp]: "same_idents d d"
  by (simp add: same_idents_def option.rel_refl)

lemma same_idents_trans: "same_idents a b \<Longrightarrow> same_idents b c \<Longrightarrow> same_idents a c"
  unfolding same_idents_def
proof
  fix k
  assume ab: "\<forall>k. rel_option same_ident (h_inodes a k) (h_inodes b k)"
     and bc: "\<forall>k. rel_option same_ident (h_inodes b k) (h_inodes c k)"
  from ab have 1: "rel_option same_ident (h_inodes a k) (h_inodes b k)" ..
  from bc have 2: "rel_option same_ident (h_inodes b k) (h_inodes c k)" ..
  from 1 2 show "rel_option same_ident (h_inodes a k) (h_inodes c k)"
    by (cases "h_inodes a k"; cases "h_inodes b k"; cases "h_inodes c k")
       (auto intro: same_ident_trans)
qed

lemma same_idents_en_update:
  "(\<And>e. same_ident e (f e)) \<Longrightarrow> same_idents d (en_update c f d)"
  by (simp add: same_idents_def en_update_lookup option.rel_map option.rel_refl)

lemma same_idents_entry_modified: "same_idents d (dir_tree_entry_modified d i)"
proof -
  have "\<And>e. same_ident e (invalidate_dir_cache e)"
    by (simp add: same_ident_def invalidate_dir_cache_def)
  then show ?thesis
    by (auto simp: dir_tree_entry_modified_def same_idents_en_update split: option.splits)
qed

lemma same_idents_lookup:
  "same_idents d d' \<Longrightarrow> h_inodes d' k = Some e' \<Longrightarrow> \<exists>e. h_inodes d k = Some e \<and> same_ident e e'"
  unfolding same_idents_def
  by (metis option.rel_cases option.distinct(1) option.inject)

lemma same_idents_lookup':
  "same_idents d d' \<Longrightarrow> h_inodes d k = Some e \<Longrightarrow> \<exists>e'. h_inodes d' k = Some e' \<and> same_ident e e'"
  unfolding same_idents_def
  by (metis option.rel_cases option.distinct(1) option.inject)

lemma same_idents_child_lookup:
  assumes "same_idents d d'" "h_inodes d p = Some pe" "h_inodes d' p = Some pe'"
      and "child_lookup d pe name = Some (c, e)"
  shows "\<exists>e'. child_lookup d' pe' name = Some (c, e') \<and> same_ident e e'"
proof -
  from assms(1,2,3) have pp: "same_ident pe pe'"
    using same_idents_lookup' by fastforce
  from assms(4) have c: "g_hash_table_lookup (h_dir_tree pe) name = Some c" "h_inodes d c = Some e"
    by (auto simp: child_lookup_def split: option.splits)
  from assms(1) c(2) obtain e' where e': "h_inodes d' c = Some e'" "same_ident e e'"
    using same_idents_lookup' by blast
  from pp c(1) e' show ?thesis
    by (auto simp: child_lookup_def same_ident_def)
qed

lemma entry_modified_frame [simp]:
  "app (dir_tree_entry_modified d i) = app d" "max_ino (dir_tree_entry_modified d i) = max_ino d"
  "fmode (dir_tree_entry_modified d i) = fmode d" "dmode (dir_tree_entry_modified d i) = dmode d"
  "dir_ops (dir_tree_entry_modified d i) = dir_ops d"
  "slot (dir_tree_entry_modified d i) = slot d"
  by (simp_all add: dir_tree_entry_modified_def split: option.splits)
subsection \<open>New entries\<close>

lemma add_entry_result:
  assumes "dir_tree_add_entry t dtree name m ty parent sz ct = (d1, Some c)"
  shows "\<exists>en. h_inodes d1 c = Some en \<and> ino en = max_ino dtree \<and> en_type en = ty"
proof (cases "parent = 0")
  case True
  with assms show ?thesis
    by (auto simp: dir_tree_add_entry_def Let_def new_entry_def split: if_splits)
next
  case False
  show ?thesis
  proof (cases "h_inodes dtree parent")
    case None
    with False assms show ?thesis
      by (simp add: dir_tree_add_entry_def)
  next
    case (Some p)
    let ?d1 = "dir_tree_entry_modified dtree parent"
    let ?i = "max_ino dtree"
    obtain p1 where p1: "h_inodes ?d1 parent = Some p1"
      using entry_modified_lookup(1) [of dtree parent parent] Some
      by (cases "h_inodes ?d1 parent") auto
    let ?en = "new_entry t ?i name (if parent = FUSE_ROOT_ID then name else fullpath p1 @ ''/'' @ name)
                 m ty parent sz ct (age p1)"
    let ?d2 = "?d1\<lparr>max_ino := ?i + 1, h_inodes := (h_inodes ?d1)(?i \<mapsto> ?en)\<rparr>"
    let ?d3 = "en_update parent
                 (\<lambda>p. p\<lparr>h_dir_tree := g_hash_table_insert (slot dtree) (h_dir_tree p) name ?i\<rparr>) ?d2"
    have eq: "dir_tree_add_entry t dtree name m ty parent sz ct =
        (if (case child_lookup dtree p name of None \<Rightarrow> False | Some (c, old) \<Rightarrow> en_type old \<noteq> ty)
         then (dtree, None) else (dir_tree_entry_modified ?d3 parent, Some ?i))"
      using False Some p1 by (simp add: dir_tree_add_entry_def Let_def)
    with assms have d1: "d1 = dir_tree_entry_modified ?d3 parent" and c: "c = ?i"
      by (auto split: if_splits)
    have 2: "h_inodes ?d2 ?i = Some ?en"
      by simp
    then obtain e3 where e3: "h_inodes ?d3 ?i = Some e3" "ino e3 = ?i" "en_type e3 = ty"
      by (cases "parent = ?i") (simp_all add: en_update_lookup new_entry_def)
    obtain e4 where e4: "h_inodes (dir_tree_entry_modified ?d3 parent) ?i = Some e4"
      using entry_modified_lookup(1) [of ?d3 parent ?i] e3
      by (cases "h_inodes (dir_tree_entry_modified ?d3 parent) ?i") auto
    from entry_modified_lookup(2) [OF e4] e3 have "ino e4 = ?i \<and> en_type e4 = ty"
      by (auto simp: invalidate_dir_cache_def)
    with e4 d1 c show ?thesis
      by simp
  qed
qed

lemma keyed_en_update:
  "(\<And>e. ino (f e) = ino e) \<Longrightarrow> inodes_keyed d \<Longrightarrow> inodes_keyed (en_update c f d)"
  by (auto simp: inodes_keyed_def en_update_lookup split: if_splits)

lemma keyed_entry_modified:
  "inodes_keyed d \<Longrightarrow> inodes_keyed (dir_tree_entry_modified d i)"
  by (auto simp: dir_tree_entry_modified_def invalidate_dir_cache_def intro!: keyed_en_update
           split: option.splits)

lemma keyed_new_entry:
  "inodes_keyed d \<Longrightarrow>
   inodes_keyed (d\<lparr>max_ino := n, h_inodes := (h_inodes d)(i \<mapsto> new_entry t i name path m ty parent sz ct a)\<rparr>)"
  by (auto simp: inodes_keyed_def new_entry_def)

lemma add_entry_keyed:
  assumes "inodes_keyed dtree"
  shows "inodes_keyed (fst (dir_tree_add_entry t dtree name m ty parent sz ct))"
  using assms
  by (auto simp: dir_tree_add_entry_def Let_def
           intro!: keyed_en_update keyed_entry_modified keyed_new_entry)

lemma entry_modified_pointwise:
  "h_inodes (dir_tree_entry_modified d j) k = h_inodes d k \<or>
   (\<exists>e. h_inodes d k = Some e \<and> en_type e = DET_dir \<and>
        h_inodes (dir_tree_entry_modified d j) k = Some (invalidate_dir_cache e))"
  by (auto simp: dir_tree_entry_modified_def en_update_lookup split: option.splits)

subsection \<open>Create, unlink, create\<close>


lemma file_create_success:
  assumes "dir_tree_file_create t dtree parent name m req = (s1, e1)"
      and "File_create_cb req' True i md sz \<in> set e1"
  shows "\<exists>dir_en. h_inodes dtree parent = Some dir_en \<and> en_type dir_en = DET_dir"
  using assms by (cases "h_inodes dtree parent") (auto simp: dir_tree_file_create_def split: if_splits)

lemma file_create_existing:
  assumes dir: "h_inodes dtree parent = Some dir_en" "en_type dir_en = DET_dir"
      and ch: "child_lookup dtree dir_en name = Some (c, en)"
  shows "dir_tree_file_create t dtree parent name m req =
           (en_update c (\<lambda>e. e\<lparr>is_modified := True\<rparr>)
              (dir_tree_entry_modified
                 (en_update c (\<lambda>e. e\<lparr>removed := False, access_time := t, age := age dir_en\<rparr>) dtree)
                 parent),
            [Fileio_create (fullpath en) (ino en) True, File_create_cb req True (ino en) (mode en) (en_size en)])"
proof -
  from ch have c: "h_inodes dtree c = Some en"
    by (auto simp: child_lookup_def split: option.splits)
  let ?d1 = "en_update c (\<lambda>e. e\<lparr>removed := False, access_time := t, age := age dir_en\<rparr>) dtree"
  let ?d2 = "dir_tree_entry_modified ?d1 parent"
  let ?d3 = "en_update c (\<lambda>e. e\<lparr>is_modified := True\<rparr>) ?d2"
  have "same_idents dtree ?d1"
    by (rule same_idents_en_update) (simp add: same_ident_def)
  moreover have "same_idents ?d1 ?d2"
    by (rule same_idents_entry_modified)
  moreover have "same_idents ?d2 ?d3"
    by (rule same_idents_en_update) (simp add: same_ident_def)
  ultimately have "same_idents dtree ?d3"
    by (blast intro: same_idents_trans)
  with c obtain e3 where e3: "h_inodes ?d3 c = Some e3" "same_ident en e3"
    using same_idents_lookup' by blast
  show ?thesis
    using dir ch e3 by (auto simp: dir_tree_file_create_def Let_def same_ident_def)
qed

lemma file_create_new_child:
  assumes dir: "h_inodes dtree parent = Some dir_en" "en_type dir_en = DET_dir"
      and none: "child_lookup dtree dir_en name = None"
      and c1: "dir_tree_file_create t dtree parent name m req = (s1, e1)"
      and r1: "File_create_cb req' True i md sz \<in> set e1"
      and p1: "h_inodes s1 parent = Some p1"
      and ch: "child_lookup s1 p1 name = Some (c, en1)"
  shows "ino en1 = i \<and> en_type p1 = DET_dir"
proof (cases "parent = 0")
  case True
  show ?thesis
  proof (cases "max_ino dtree = 0")
    case z: True
    from True z dir none c1 r1 p1 ch show ?thesis
      by (auto simp: dir_tree_file_create_def dir_tree_add_entry_def Let_def en_update_def
            new_entry_def child_lookup_def g_hash_table_lookup_def)
  next
    case nz: False
    from True nz dir none c1 r1 p1 ch show ?thesis
      by (auto simp: dir_tree_file_create_def dir_tree_add_entry_def Let_def en_update_def
            new_entry_def child_lookup_def split: option.splits if_splits)
  qed
next
  case False
  have em: "dir_tree_entry_modified dtree parent = en_update parent invalidate_dir_cache dtree"
    using dir by (rule entry_modified_dir)
  show ?thesis
  proof (cases "max_ino dtree = parent")
    case eq: True
    from False eq dir none c1 r1 p1 ch show ?thesis
      by (auto simp: dir_tree_file_create_def dir_tree_add_entry_def Let_def em en_update_def
            new_entry_def child_lookup_def g_hash_table_lookup_def g_hash_table_insert_def
            dir_tree_entry_modified_def)
  next
    case ne: False
    from False ne dir none c1 r1 p1 ch show ?thesis
      by (auto simp: dir_tree_file_create_def dir_tree_add_entry_def Let_def em en_update_def
            new_entry_def child_lookup_def g_hash_table_lookup_insert invalidate_dir_cache_def
            dir_tree_entry_modified_def split: option.splits if_splits)
  qed
qed


lemma file_create_child:
  assumes c1: "dir_tree_file_create t dtree parent name m req = (s1, e1)"
      and r1: "File_create_cb req' True i md sz \<in> set e1"
      and p1: "h_inodes s1 parent = Some p1"
      and ch: "child_lookup s1 p1 name = Some (c, en1)"
  shows "ino en1 = i \<and> en_type p1 = DET_dir"
proof -
  from c1 r1 obtain dir_en where dir: "h_inodes dtree parent = Some dir_en" "en_type dir_en = DET_dir"
    using file_create_success by blast
  show ?thesis
  proof (cases "child_lookup dtree dir_en name")
    case None
    from dir None c1 r1 p1 ch show ?thesis
      by (rule file_create_new_child)
  next
    case (Some a)
    obtain c' en0 where a: "a = (c', en0)" by (cases a)
    let ?s = "en_update c' (\<lambda>e. e\<lparr>is_modified := True\<rparr>)
              (dir_tree_entry_modified
                 (en_update c' (\<lambda>e. e\<lparr>removed := False, access_time := t, age := age dir_en\<rparr>) dtree)
                 parent)"
    from dir Some a have res: "dir_tree_file_create t dtree parent name m req =
        (?s, [Fileio_create (fullpath en0) (ino en0) True,
              File_create_cb req True (ino en0) (mode en0) (en_size en0)])"
      by (simp add: file_create_existing)
    with c1 r1 have s1: "s1 = ?s" and i: "i = ino en0"
      by auto
    have "same_idents dtree
            (en_update c' (\<lambda>e. e\<lparr>removed := False, access_time := t, age := age dir_en\<rparr>) dtree)"
      by (rule same_idents_en_update) (simp add: same_ident_def)
    moreover have "same_idents
            (en_update c' (\<lambda>e. e\<lparr>removed := False, access_time := t, age := age dir_en\<rparr>) dtree)
            (dir_tree_entry_modified
                 (en_update c' (\<lambda>e. e\<lparr>removed := False, access_time := t, age := age dir_en\<rparr>) dtree)
                 parent)"
      by (rule same_idents_entry_modified)
    moreover have "same_idents (dir_tree_entry_modified
                 (en_update c' (\<lambda>e. e\<lparr>removed := False, access_time := t, age := age dir_en\<rparr>) dtree)
                 parent) ?s"
      by (rule same_idents_en_update) (simp add: same_ident_def)
    ultimately have sh: "same_idents dtree s1"
      unfolding s1 by (blast intro: same_idents_trans)
    from same_idents_child_lookup [OF sh dir(1) p1] Some a
    obtain e' where "child_lookup s1 p1 name = Some (c', e')" "same_ident en0 e'"
      by blast
    with ch have "ino en1 = ino en0"
      by (simp add: same_ident_def)
    moreover from sh dir(1) p1 have "same_ident dir_en p1"
      using same_idents_lookup' by fastforce
    ultimately show ?thesis
      using i dir(2) by (simp add: same_ident_def)
  qed
qed

lemma file_unlink_dispatch:
  assumes "dir_tree_file_unlink pool_ok s1 parent name req = (s2, e2)"
      and "Client_pool_get_client (Dir_tree_file_remove_on_con_cb data) \<in> set e2"
  shows "s2 = s1 \<and> (\<exists>p1 c en1 e'. h_inodes s1 parent = Some p1 \<and>
           child_lookup s1 p1 name = Some (c, en1) \<and> h_inodes s1 (ino en1) = Some e' \<and>
           en_type e' = DET_file \<and> data = \<lparr>fr_ino = ino en1, fr_req = req\<rparr>)"
  using assms
  by (auto simp: dir_tree_file_unlink_def dir_tree_file_remove_def split: option.splits if_splits)

lemma file_remove_on_con_cb_state:
  "fst (dir_tree_file_remove_on_con_cb res dtree data) = dtree"
  by (simp add: dir_tree_file_remove_on_con_cb_def Let_def split: option.splits)

lemma file_create_keyed:
  assumes "inodes_keyed dtree"
  shows "inodes_keyed (fst (dir_tree_file_create t dtree parent name m req))"
proof (cases "h_inodes dtree parent")
  case None
  with assms show ?thesis by (simp add: dir_tree_file_create_def)
next
  case (Some dir_en)
  show ?thesis
  proof (cases "child_lookup dtree dir_en name")
    case None
    obtain d1 r where ae: "dir_tree_add_entry t dtree name m DET_file parent 0 t = (d1, r)"
      by (cases "dir_tree_add_entry t dtree name m DET_file parent 0 t")
    from add_entry_keyed [OF assms, of t name m DET_file parent 0 t] ae have "inodes_keyed d1"
      by simp
    then have "inodes_keyed (en_update c (\<lambda>e. e\<lparr>is_modified := True\<rparr>) d1)" for c
      by (intro keyed_en_update) simp_all
    with Some None ae assms \<open>inodes_keyed d1\<close> show ?thesis
      by (auto simp: dir_tree_file_create_def Let_def split: option.splits)
  next
    case ch: (Some a)
    obtain c en where a: "a = (c, en)" by (cases a)
    have "inodes_keyed (en_update c (\<lambda>e. e\<lparr>is_modified := True\<rparr>)
              (dir_tree_entry_modified
                 (en_update c (\<lambda>e. e\<lparr>removed := False, access_time := t, age := age dir_en\<rparr>) dtree)
                 parent))"
      using assms by (intro keyed_en_update keyed_entry_modified) simp_all
    with Some ch a assms show ?thesis
      by (auto simp: dir_tree_file_create_def Let_def split: option.splits)
  qed
qed

text \<open>
  C5 as the code has it. Let the inode index hold every record under its own inode
  number. Let a create under a parent reply with inode \<open>i\<close>; let the unlink of the same
  name reach the pool, send its DELETE and complete with success. Then the dispatch and
  the request leave the tree as it was, and the completion replies success and only
  marks the record of inode \<open>i\<close>: its removed flag is set and its age is 0, every other
  record is as before or has lost its listing cache, the parent's table still maps the
  name to \<open>i\<close>, and \<open>max_ino\<close> is unchanged. A second create of the name then replies
  success with the same inode \<open>i\<close>, mode and size: it allocates nothing (\<open>max_ino\<close> is
  unchanged and no key is added to the index), clears the removed flag of that record,
  gives it the parent's age, the time of the call as access time and the modified flag,
  drops the parent's listing cache and leaves every other record alone.
\<close>

theorem create_unlink_create_reuses_inode:
  assumes wf: "\<forall>k e. h_inodes dtree k = Some e \<longrightarrow> ino e = k"
      and c1: "dir_tree_file_create t1 dtree parent name m1 req1 = (s1, e1)"
      and r1: "File_create_cb req1 True i md1 sz1 \<in> set e1"
      and u: "dir_tree_file_unlink True s1 parent name req2 = (s2, e2)"
      and pu: "Client_pool_get_client (Dir_tree_file_remove_on_con_cb data) \<in> set e2"
      and rq: "dir_tree_file_remove_on_con_cb True s2 data = (s3, e3)"
      and d: "dir_tree_file_remove_on_con_data_cb s3 data True = (s4, e4)"
      and c2: "dir_tree_file_create t2 s4 parent name m2 req3 = (s5, e5)"
  shows "s2 = s1 \<and> s3 = s1 \<and>
         e4 = [Http_connection_release, File_remove_cb req2 True] \<and>
         (\<exists>p1 en1.
            h_inodes s1 parent = Some p1 \<and> en_type p1 = DET_dir \<and>
            g_hash_table_lookup (h_dir_tree p1) name = Some i \<and>
            h_inodes s1 i = Some en1 \<and> ino en1 = i \<and> en_type en1 = DET_file \<and>
            h_inodes s4 i = Some (en1\<lparr>removed := True, age := 0\<rparr>) \<and>
            (\<forall>k. k \<noteq> i \<longrightarrow>
                 h_inodes s4 k = h_inodes s1 k \<or>
                 h_inodes s4 k = map_option (\<lambda>e. e\<lparr>dir_cache := None, dir_cache_size := 0\<rparr>) (h_inodes s1 k)) \<and>
            map_option h_dir_tree (h_inodes s4 parent) = Some (h_dir_tree p1) \<and>
            max_ino s4 = max_ino s1 \<and>
            e5 = [Fileio_create (fullpath en1) i True,
                  File_create_cb req3 True i (mode en1) (en_size en1)] \<and>
            max_ino s5 = max_ino s1 \<and>
            (\<forall>k. h_inodes s5 k =
                 (if k = i
                  then Some (en1\<lparr>removed := False, age := age p1, access_time := t2,
                                 is_modified := True\<rparr>)
                  else if k = parent
                  then Some (p1\<lparr>dir_cache := None, dir_cache_size := 0\<rparr>)
                  else h_inodes s4 k)))"
proof -
  have k0: "inodes_keyed dtree"
    using wf by (simp add: inodes_keyed_def)
  from c1 have s1eq: "s1 = fst (dir_tree_file_create t1 dtree parent name m1 req1)"
    by simp
  have k1: "inodes_keyed s1"
    unfolding s1eq using k0 by (rule file_create_keyed)
  from u pu obtain p1 c en1 e' where s2: "s2 = s1" and p1: "h_inodes s1 parent = Some p1"
      and ch: "child_lookup s1 p1 name = Some (c, en1)" and e': "h_inodes s1 (ino en1) = Some e'"
      and ty: "en_type e' = DET_file"
      and data: "data = \<lparr>fr_ino = ino en1, fr_req = req2\<rparr>"
    using file_unlink_dispatch by blast
  from c1 r1 p1 ch have i: "ino en1 = i" and pdir: "en_type p1 = DET_dir"
    using file_create_child by blast+
  from ch have tbl: "g_hash_table_lookup (h_dir_tree p1) name = Some c"
      and cen: "h_inodes s1 c = Some en1"
    by (simp_all add: child_lookup_SomeD)
  from k1 cen have "ino en1 = c"
    by (simp add: inodes_keyed_def)
  with i have c: "c = i"
    by simp
  from e' i cen c have en1: "h_inodes s1 i = Some en1" "en_type en1 = DET_file"
    using ty by simp_all
  from pdir en1 p1 have ne: "parent \<noteq> i"
    by auto
  from rq have s3: "s3 = s1"
    using file_remove_on_con_cb_state [of True s2 data] s2 by simp
  from data i have fr: "fr_ino data = i" "fr_req data = req2"
    by simp_all
  let ?tomb = "\<lambda>e. e\<lparr>removed := True, age := 0\<rparr>"
  let ?a = "en_update i ?tomb s1"
  from d en1 have s4: "s4 = dir_tree_entry_modified ?a i"
    and e4: "e4 = [Http_connection_release, File_remove_cb req2 True]"
    by (auto simp: dir_tree_file_remove_on_con_data_cb_def s3 fr)
  have a_i: "h_inodes ?a i = Some (?tomb en1)"
    using en1 by (simp add: en_update_lookup)
  have a_k: "k \<noteq> i \<Longrightarrow> h_inodes ?a k = h_inodes s1 k" for k
    by (simp add: en_update_lookup)
  have s4_i: "h_inodes s4 i = Some (?tomb en1)"
    using entry_modified_pointwise [of ?a i i] a_i en1(2) by (auto simp: s4)
  have s4_k: "h_inodes s4 k = h_inodes s1 k \<or>
      h_inodes s4 k = map_option (\<lambda>e. e\<lparr>dir_cache := None, dir_cache_size := 0\<rparr>) (h_inodes s1 k)" if "k \<noteq> i" for k
    using entry_modified_pointwise [of ?a i k] a_k [OF that]
    by (auto simp: s4 invalidate_dir_cache_def)
  have m4: "max_ino s4 = max_ino s1"
    by (simp add: s4)
  from s4_k [OF ne] p1 obtain p4 where p4: "h_inodes s4 parent = Some p4"
      and p4c: "p4 = p1 \<or> p4 = p1\<lparr>dir_cache := None, dir_cache_size := 0\<rparr>"
    by auto
  from p4c pdir have p4f: "h_dir_tree p4 = h_dir_tree p1" "age p4 = age p1" "en_type p4 = DET_dir"
      "invalidate_dir_cache p4 = p1\<lparr>dir_cache := None, dir_cache_size := 0\<rparr>"
    by (auto simp: invalidate_dir_cache_def)
  have ch4: "child_lookup s4 p4 name = Some (i, ?tomb en1)"
    using tbl c s4_i by (simp add: child_lookup_def p4f)
  let ?b = "en_update i (\<lambda>e. e\<lparr>removed := False, access_time := t2, age := age p4\<rparr>) s4"
  have res: "dir_tree_file_create t2 s4 parent name m2 req3 =
      (en_update i (\<lambda>e. e\<lparr>is_modified := True\<rparr>) (dir_tree_entry_modified ?b parent),
       [Fileio_create (fullpath (?tomb en1)) (ino (?tomb en1)) True,
        File_create_cb req3 True (ino (?tomb en1)) (mode (?tomb en1)) (en_size (?tomb en1))])"
    using p4 p4f(3) ch4 by (rule file_create_existing)
  have bp: "h_inodes ?b parent = Some p4"
    using p4 ne by (simp add: en_update_lookup)
  have em: "dir_tree_entry_modified ?b parent = en_update parent invalidate_dir_cache ?b"
    using bp p4f(3) by (rule entry_modified_dir)
  from c2 res have s5: "s5 = en_update i (\<lambda>e. e\<lparr>is_modified := True\<rparr>)
                               (en_update parent invalidate_dir_cache ?b)"
    and e5: "e5 = [Fileio_create (fullpath en1) i True,
                  File_create_cb req3 True i (mode en1) (en_size en1)]"
    using i by (simp_all add: em)
  have m5: "max_ino s5 = max_ino s1"
    by (simp add: s5 m4)
  have s5_k: "h_inodes s5 k =
                 (if k = i
                  then Some (en1\<lparr>removed := False, age := age p1, access_time := t2,
                                 is_modified := True\<rparr>)
                  else if k = parent
                  then Some (p1\<lparr>dir_cache := None, dir_cache_size := 0\<rparr>)
                  else h_inodes s4 k)" for k
    using ne s4_i p4 p4f by (simp add: s5 en_update_lookup)
  have t4: "map_option h_dir_tree (h_inodes s4 parent) = Some (h_dir_tree p1)"
    using p4 p4f by simp
  from p1 pdir tbl c en1 i s4_i s4_k t4 m4 e5 m5 s5_k
  have "h_inodes s1 parent = Some p1 \<and> en_type p1 = DET_dir \<and>
            g_hash_table_lookup (h_dir_tree p1) name = Some i \<and>
            h_inodes s1 i = Some en1 \<and> ino en1 = i \<and> en_type en1 = DET_file \<and>
            h_inodes s4 i = Some (en1\<lparr>removed := True, age := 0\<rparr>) \<and>
            (\<forall>k. k \<noteq> i \<longrightarrow>
                 h_inodes s4 k = h_inodes s1 k \<or>
                 h_inodes s4 k = map_option (\<lambda>e. e\<lparr>dir_cache := None, dir_cache_size := 0\<rparr>) (h_inodes s1 k)) \<and>
            map_option h_dir_tree (h_inodes s4 parent) = Some (h_dir_tree p1) \<and>
            max_ino s4 = max_ino s1 \<and>
            e5 = [Fileio_create (fullpath en1) i True,
                  File_create_cb req3 True i (mode en1) (en_size en1)] \<and>
            max_ino s5 = max_ino s1 \<and>
            (\<forall>k. h_inodes s5 k =
                 (if k = i
                  then Some (en1\<lparr>removed := False, age := age p1, access_time := t2,
                                 is_modified := True\<rparr>)
                  else if k = parent
                  then Some (p1\<lparr>dir_cache := None, dir_cache_size := 0\<rparr>)
                  else h_inodes s4 k))"
    by simp
  then have "\<exists>p1 en1. h_inodes s1 parent = Some p1 \<and> en_type p1 = DET_dir \<and>
            g_hash_table_lookup (h_dir_tree p1) name = Some i \<and>
            h_inodes s1 i = Some en1 \<and> ino en1 = i \<and> en_type en1 = DET_file \<and>
            h_inodes s4 i = Some (en1\<lparr>removed := True, age := 0\<rparr>) \<and>
            (\<forall>k. k \<noteq> i \<longrightarrow>
                 h_inodes s4 k = h_inodes s1 k \<or>
                 h_inodes s4 k = map_option (\<lambda>e. e\<lparr>dir_cache := None, dir_cache_size := 0\<rparr>) (h_inodes s1 k)) \<and>
            map_option h_dir_tree (h_inodes s4 parent) = Some (h_dir_tree p1) \<and>
            max_ino s4 = max_ino s1 \<and>
            e5 = [Fileio_create (fullpath en1) i True,
                  File_create_cb req3 True i (mode en1) (en_size en1)] \<and>
            max_ino s5 = max_ino s1 \<and>
            (\<forall>k. h_inodes s5 k =
                 (if k = i
                  then Some (en1\<lparr>removed := False, age := age p1, access_time := t2,
                                 is_modified := True\<rparr>)
                  else if k = parent
                  then Some (p1\<lparr>dir_cache := None, dir_cache_size := 0\<rparr>)
                  else h_inodes s4 k))"
    by (intro exI [of _ p1] exI [of _ en1])
  with s2 s3 e4 show ?thesis
    by simp
qed

theorem create_unlink_create_reuses_inode_witness:
  "File_create_cb 1 True 2 420 0 \<in> set (snd (dir_tree_file_create 100 tree0 1 ''f'' 420 1)) \<and>
   Client_pool_get_client (Dir_tree_file_remove_on_con_cb remove_2)
     \<in> set (snd (dir_tree_file_unlink True tree_f 1 ''f'' 2)) \<and>
   snd (dir_tree_file_remove_on_con_data_cb tree_f remove_2 True) =
     [Http_connection_release, File_remove_cb 2 True] \<and>
   map_option removed (h_inodes tree_f_unlinked 2) = Some True \<and>
   max_ino (fst (dir_tree_file_create 102 tree_f_unlinked 1 ''f'' 420 3)) = max_ino tree_f \<and>
   map_option removed (h_inodes (fst (dir_tree_file_create 102 tree_f_unlinked 1 ''f'' 420 3)) 2) =
     Some False \<and>
   (\<exists>path md2 sz2. snd (dir_tree_file_create 102 tree_f_unlinked 1 ''f'' 420 3) =
      [Fileio_create path 2 True, File_create_cb 3 True 2 md2 sz2])"
proof -
  have wf: "\<forall>k e. h_inodes tree0 k = Some e \<longrightarrow> ino e = k"
    by (simp add: tree0_def dir_tree_create_def dir_tree_add_entry_def Let_def new_entry_def)
  have c1: "dir_tree_file_create 100 tree0 1 ''f'' 420 1 =
      (tree_f, snd (dir_tree_file_create 100 tree0 1 ''f'' 420 1))"
    by (simp add: tree_f_def)
  have r1: "File_create_cb 1 True 2 420 0 \<in> set (snd (dir_tree_file_create 100 tree0 1 ''f'' 420 1))"
    by code_simp
  have u: "dir_tree_file_unlink True tree_f 1 ''f'' 2 =
      (fst (dir_tree_file_unlink True tree_f 1 ''f'' 2), snd (dir_tree_file_unlink True tree_f 1 ''f'' 2))"
    by simp
  have pu: "Client_pool_get_client (Dir_tree_file_remove_on_con_cb remove_2)
     \<in> set (snd (dir_tree_file_unlink True tree_f 1 ''f'' 2))"
    by code_simp
  have rq: "dir_tree_file_remove_on_con_cb True (fst (dir_tree_file_unlink True tree_f 1 ''f'' 2)) remove_2 =
      (tree_f, snd (dir_tree_file_remove_on_con_cb True (fst (dir_tree_file_unlink True tree_f 1 ''f'' 2)) remove_2))"
    using file_unlink_dispatch [OF u pu] file_remove_on_con_cb_state [of True tree_f remove_2]
    by (simp add: prod_eq_iff)
  have d: "dir_tree_file_remove_on_con_data_cb tree_f remove_2 True =
      (tree_f_unlinked, snd (dir_tree_file_remove_on_con_data_cb tree_f remove_2 True))"
    by (simp add: tree_f_unlinked_def)
  have c2: "dir_tree_file_create 102 tree_f_unlinked 1 ''f'' 420 3 =
      (fst (dir_tree_file_create 102 tree_f_unlinked 1 ''f'' 420 3),
       snd (dir_tree_file_create 102 tree_f_unlinked 1 ''f'' 420 3))"
    by simp
  from create_unlink_create_reuses_inode [OF wf c1 r1 u pu rq d c2]
  obtain p1 en1 where e4: "snd (dir_tree_file_remove_on_con_data_cb tree_f remove_2 True) =
        [Http_connection_release, File_remove_cb 2 True]"
    and s4: "h_inodes tree_f_unlinked 2 = Some (en1\<lparr>removed := True, age := 0\<rparr>)"
    and e5: "snd (dir_tree_file_create 102 tree_f_unlinked 1 ''f'' 420 3) =
        [Fileio_create (fullpath en1) 2 True, File_create_cb 3 True 2 (mode en1) (en_size en1)]"
    and m5: "max_ino (fst (dir_tree_file_create 102 tree_f_unlinked 1 ''f'' 420 3)) = max_ino tree_f"
    and s5: "\<forall>k. h_inodes (fst (dir_tree_file_create 102 tree_f_unlinked 1 ''f'' 420 3)) k =
                 (if k = 2
                  then Some (en1\<lparr>removed := False, age := age p1, access_time := 102,
                                 is_modified := True\<rparr>)
                  else if k = 1
                  then Some (p1\<lparr>dir_cache := None, dir_cache_size := 0\<rparr>)
                  else h_inodes tree_f_unlinked k)"
    by blast
  from s5 have r5: "map_option removed
      (h_inodes (fst (dir_tree_file_create 102 tree_f_unlinked 1 ''f'' 420 3)) 2) = Some False"
    by simp
  from s4 have r4: "map_option removed (h_inodes tree_f_unlinked 2) = Some True"
    by simp
  from e5 have "\<exists>path md2 sz2. snd (dir_tree_file_create 102 tree_f_unlinked 1 ''f'' 420 3) =
      [Fileio_create path 2 True, File_create_cb 3 True 2 md2 sz2]"
    by blast
  with r1 pu e4 r4 m5 r5 show ?thesis
    by blast
qed

text \<open>
  C5 as stated fails: in the run from the empty tree the first create replies with inode
  2, the unlink completes with success, and the second create replies with inode 2 again.
\<close>

theorem create_unlink_create_fresh_inode_counterexample:
  "run_enabled evs_create_unlink_create (tree0, []) \<and>
   snd (run_events evs_create_unlink_create (tree0, [])) =
     [Fileio_create ''f'' 2 True, File_create_cb 1 True 2 420 0,
      Cache_mng_remove_file 2,
      Client_pool_get_client (Dir_tree_file_remove_on_con_cb remove_2),
      Http_connection_acquire,
      Http_connection_make_request ''/f'' ''DELETE'' (Dir_tree_file_remove_on_con_data_cb remove_2),
      Http_connection_release, File_remove_cb 2 True,
      Fileio_create ''f'' 2 True, File_create_cb 3 True 2 420 0]"
  by code_simp

subsection \<open>mkdir\<close>

lemma dir_create_no_request:
  "list_all (\<lambda>e. \<not> is_server_request e) (snd (dir_tree_dir_create t dtree parent name m req))"
  by (simp add: dir_tree_dir_create_def Let_def split: option.splits prod.splits)

lemma dir_create_new:
  assumes dir: "h_inodes dtree parent = Some dir_en" "en_type dir_en = DET_dir"
      and none: "child_lookup dtree dir_en name = None"
      and p0: "parent \<noteq> 0" and fresh: "h_inodes dtree (max_ino dtree) = None"
  shows "snd (dir_tree_dir_create t dtree parent name m req) =
           [Mkdir_cb req True (max_ino dtree) (dmode dtree) 10 t]"
    and "max_ino (fst (dir_tree_dir_create t dtree parent name m req)) = max_ino dtree + 1"
    and "h_inodes (fst (dir_tree_dir_create t dtree parent name m req)) k =
           (if k = max_ino dtree
            then Some \<lparr>ino = max_ino dtree, parent_ino = parent, basename = name,
                   fullpath = (if parent = FUSE_ROOT_ID then name else fullpath dir_en @ ''/'' @ name),
                   en_type = DET_dir, age = age dir_en, removed = False, is_modified = False,
                   en_size = 10, mode = dmode dtree, ctime = t, dir_cache = None,
                   dir_cache_size = 0, dir_cache_created = 0, dir_cache_updating = False,
                   h_dir_tree = Some [], is_updating = False, updated_time = 0, access_time = t,
                   etag = None, version_id = None, content_type = None, xattr_time = 0\<rparr>
            else if k = parent
            then Some (dir_en\<lparr>is_modified := True, dir_cache := None, dir_cache_size := 0,
                   h_dir_tree := g_hash_table_insert (slot dtree) (h_dir_tree dir_en) name (max_ino dtree)\<rparr>)
            else h_inodes dtree k)"
proof -
  from dir fresh have ne: "max_ino dtree \<noteq> parent"
    by auto
  show "snd (dir_tree_dir_create t dtree parent name m req) =
           [Mkdir_cb req True (max_ino dtree) (dmode dtree) 10 t]"
    using assms ne
    by (simp add: dir_tree_dir_create_def dir_tree_add_entry_def Let_def dir_tree_entry_modified_def
          en_update_lookup new_entry_def invalidate_dir_cache_def)
  show "max_ino (fst (dir_tree_dir_create t dtree parent name m req)) = max_ino dtree + 1"
    using assms ne
    by (simp add: dir_tree_dir_create_def dir_tree_add_entry_def Let_def dir_tree_entry_modified_def
          en_update_lookup new_entry_def invalidate_dir_cache_def)
  show "h_inodes (fst (dir_tree_dir_create t dtree parent name m req)) k =
           (if k = max_ino dtree
            then Some \<lparr>ino = max_ino dtree, parent_ino = parent, basename = name,
                   fullpath = (if parent = FUSE_ROOT_ID then name else fullpath dir_en @ ''/'' @ name),
                   en_type = DET_dir, age = age dir_en, removed = False, is_modified = False,
                   en_size = 10, mode = dmode dtree, ctime = t, dir_cache = None,
                   dir_cache_size = 0, dir_cache_created = 0, dir_cache_updating = False,
                   h_dir_tree = Some [], is_updating = False, updated_time = 0, access_time = t,
                   etag = None, version_id = None, content_type = None, xattr_time = 0\<rparr>
            else if k = parent
            then Some (dir_en\<lparr>is_modified := True, dir_cache := None, dir_cache_size := 0,
                   h_dir_tree := g_hash_table_insert (slot dtree) (h_dir_tree dir_en) name (max_ino dtree)\<rparr>)
            else h_inodes dtree k)"
    using assms ne
    by (simp add: dir_tree_dir_create_def dir_tree_add_entry_def Let_def dir_tree_entry_modified_def
          en_update_lookup new_entry_def invalidate_dir_cache_def)
qed

lemma dir_create_existing:
  assumes "h_inodes dtree parent = Some dir_en" "en_type dir_en = DET_dir"
      and "child_lookup dtree dir_en name = Some (c, en)"
  shows "\<exists>en'. h_inodes (fst (dir_tree_dir_create t dtree parent name m req)) c = Some en' \<and>
           ino en' = ino en \<and> en_type en' = DET_dir \<and>
           h_dir_tree en' = (case h_dir_tree en of None \<Rightarrow> Some [] | Some kvs \<Rightarrow> Some kvs) \<and>
           \<not> removed en' \<and> dir_cache en' = None \<and> dir_cache_size en' = 0 \<and> mode en' = dmode dtree \<and>
           snd (dir_tree_dir_create t dtree parent name m req) =
             [Mkdir_cb req True (ino en) (dmode dtree) (en_size en) (ctime en)]"
proof -
  from assms(3) have c: "h_inodes dtree c = Some en"
    by (simp add: child_lookup_SomeD)
  show ?thesis
    using assms c
    by (auto simp: dir_tree_dir_create_def Let_def en_update_lookup dir_create_convert_def
             split: option.splits)
qed


lemma dir_create_not_dir:
  "\<not> (\<exists>dir_en. h_inodes dtree parent = Some dir_en \<and> en_type dir_en = DET_dir) \<Longrightarrow>
   dir_tree_dir_create t dtree parent name m req = (dtree, [Mkdir_cb req False 0 0 0 0])"
  by (cases "h_inodes dtree parent") (simp_all add: dir_tree_dir_create_def)

lemma dir_create_result:
  assumes dir: "h_inodes dtree parent = Some dir_en" "en_type dir_en = DET_dir"
  shows "\<exists>c en. h_inodes (fst (dir_tree_dir_create t dtree parent name m req)) c = Some en \<and>
           en_type en = DET_dir \<and> mode en = dmode dtree \<and> \<not> removed en \<and>
           snd (dir_tree_dir_create t dtree parent name m req) =
             [Mkdir_cb req True (ino en) (dmode dtree) (en_size en) (ctime en)]"
proof (cases "child_lookup dtree dir_en name")
  case (Some a)
  obtain c en where a: "a = (c, en)" by (cases a)
  from dir_create_existing [OF dir Some [unfolded a], of t m req]
  obtain en' where en': "h_inodes (fst (dir_tree_dir_create t dtree parent name m req)) c = Some en'"
      "ino en' = ino en" "en_type en' = DET_dir" "\<not> removed en'" "mode en' = dmode dtree"
      "snd (dir_tree_dir_create t dtree parent name m req) =
         [Mkdir_cb req True (ino en) (dmode dtree) (en_size en) (ctime en)]"
    by blast
  have sz: "en_size en' = en_size en \<and> ctime en' = ctime en"
    using dir Some a en'(1) child_lookup_SomeD [OF Some [unfolded a]]
    by (auto simp: dir_tree_dir_create_def Let_def en_update_lookup dir_create_convert_def
             split: option.splits if_splits)
  with en' show ?thesis
    by (intro exI [of _ c] exI [of _ en']) simp
next
  case None
  obtain d1 r where ae: "dir_tree_add_entry t dtree name m DET_dir parent 10 t = (d1, r)"
    by (cases "dir_tree_add_entry t dtree name m DET_dir parent 10 t")
  have "r \<noteq> None"
    using ae dir None by (auto simp: dir_tree_add_entry_def Let_def split: if_splits)
  then obtain c where r: "r = Some c"
    by auto
  from add_entry_result [OF ae [unfolded r]]
  obtain e1 where e1: "h_inodes d1 c = Some e1" "en_type e1 = DET_dir"
    by blast
  let ?d2 = "en_update parent (\<lambda>e. e\<lparr>is_modified := True\<rparr>) d1"
  obtain e2 where e2: "h_inodes ?d2 c = Some e2" "en_type e2 = DET_dir"
    using e1 by (cases "c = parent") (simp_all add: en_update_lookup)
  define dir_age where "dir_age = (case h_inodes ?d2 parent of None \<Rightarrow> age dir_en | Some p \<Rightarrow> age p)"
  let ?f = "\<lambda>e. e\<lparr>is_modified := False, removed := False, mode := dmode dtree, age := dir_age\<rparr>"
  let ?d3 = "en_update c ?f ?d2"
  have e3: "h_inodes ?d3 c = Some (?f e2)"
    using e2 by (simp add: en_update_lookup)
  have "dir_tree_dir_create t dtree parent name m req =
      (?d3, [Mkdir_cb req True (ino (?f e2)) (mode (?f e2)) (en_size (?f e2)) (ctime (?f e2))])"
    using dir None ae r e3 by (simp add: dir_tree_dir_create_def Let_def dir_age_def)
  with e3 e2 show ?thesis
    by (intro exI [of _ c] exI [of _ "?f e2"]) simp
qed


text \<open>
  C10. \<^verbatim>\<open>dir_tree_dir_create\<close> makes no server request. Every successful reply
  carries the configured directory mode \<open>dmode\<close>, whatever mode the caller passed, and
  names a stored entry that is a directory, is not removed and has \<open>dmode\<close> as its mode.
  When the parent is a directory that already has a child under the name, of either type,
  that entry is converted in place: it keeps its inode, its type becomes directory, a
  children table is allocated if it had none, the removed flag is cleared, the directory
  cache is dropped, its mode is \<open>dmode\<close>, and the only call made is the successful reply.
  Whenever the parent is a directory the reply is a success. When the parent is a
  directory other than inode 0 that has no child under the name, and the next inode
  number is not in use, a new entry is allocated under that number: the reply carries the
  number, \<open>dmode\<close>, the size 10 and the time of the call; \<open>max_ino\<close> advances by one;
  the store holds the new directory, whose mode is \<open>dmode\<close> and not the caller's mode,
  the parent with its cache dropped, its modified flag set and the name inserted into its
  table, and every other entry as before. When the parent is missing or is not a
  directory the tree is unchanged and the reply is a failure.
\<close>

theorem dir_create_converts_existing_entry:
  "list_all (\<lambda>e. \<not> is_server_request e) (snd (dir_tree_dir_create t dtree parent name m req)) \<and>
   (\<forall>r i md sz ct.
      Mkdir_cb r True i md sz ct \<in> set (snd (dir_tree_dir_create t dtree parent name m req)) \<longrightarrow>
      md = dmode dtree \<and>
      (\<exists>c en. h_inodes (fst (dir_tree_dir_create t dtree parent name m req)) c = Some en \<and>
         ino en = i \<and> en_type en = DET_dir \<and> mode en = dmode dtree \<and> \<not> removed en)) \<and>
   (\<forall>dir_en c en.
      h_inodes dtree parent = Some dir_en \<and> en_type dir_en = DET_dir \<and>
      child_lookup dtree dir_en name = Some (c, en) \<longrightarrow>
      (\<exists>en'. h_inodes (fst (dir_tree_dir_create t dtree parent name m req)) c = Some en' \<and>
           ino en' = ino en \<and> en_type en' = DET_dir \<and>
           h_dir_tree en' = (case h_dir_tree en of None \<Rightarrow> Some [] | Some kvs \<Rightarrow> Some kvs) \<and>
           \<not> removed en' \<and> dir_cache en' = None \<and> dir_cache_size en' = 0 \<and> mode en' = dmode dtree \<and>
           snd (dir_tree_dir_create t dtree parent name m req) =
             [Mkdir_cb req True (ino en) (dmode dtree) (en_size en) (ctime en)])) \<and>
   (\<forall>dir_en.
      h_inodes dtree parent = Some dir_en \<and> en_type dir_en = DET_dir \<longrightarrow>
      (\<exists>i sz ct. snd (dir_tree_dir_create t dtree parent name m req) =
                   [Mkdir_cb req True i (dmode dtree) sz ct])) \<and>
   (\<forall>dir_en.
      h_inodes dtree parent = Some dir_en \<and> en_type dir_en = DET_dir \<and>
      child_lookup dtree dir_en name = None \<and> parent \<noteq> 0 \<and> h_inodes dtree (max_ino dtree) = None \<longrightarrow>
      snd (dir_tree_dir_create t dtree parent name m req) =
        [Mkdir_cb req True (max_ino dtree) (dmode dtree) 10 t] \<and>
      max_ino (fst (dir_tree_dir_create t dtree parent name m req)) = max_ino dtree + 1 \<and>
      (\<forall>k. h_inodes (fst (dir_tree_dir_create t dtree parent name m req)) k =
           (if k = max_ino dtree
            then Some \<lparr>ino = max_ino dtree, parent_ino = parent, basename = name,
                    fullpath = (if parent = FUSE_ROOT_ID then name else fullpath dir_en @ ''/'' @ name),
                    en_type = DET_dir, age = age dir_en, removed = False, is_modified = False,
                    en_size = 10, mode = dmode dtree, ctime = t, dir_cache = None,
                    dir_cache_size = 0, dir_cache_created = 0, dir_cache_updating = False,
                    h_dir_tree = Some [], is_updating = False, updated_time = 0, access_time = t,
                    etag = None, version_id = None, content_type = None, xattr_time = 0\<rparr>
            else if k = parent
            then Some (dir_en\<lparr>is_modified := True, dir_cache := None, dir_cache_size := 0,
                    h_dir_tree := g_hash_table_insert (slot dtree) (h_dir_tree dir_en) name (max_ino dtree)\<rparr>)
            else h_inodes dtree k)) \<and>
      (h_dir_tree dir_en \<noteq> None \<longrightarrow>
       g_hash_table_lookup
         (h_dir_tree (the (h_inodes (fst (dir_tree_dir_create t dtree parent name m req)) parent)))
         name = Some (max_ino dtree))) \<and>
   (\<not> (\<exists>dir_en. h_inodes dtree parent = Some dir_en \<and> en_type dir_en = DET_dir) \<longrightarrow>
      dir_tree_dir_create t dtree parent name m req = (dtree, [Mkdir_cb req False 0 0 0 0]))"
proof (intro conjI allI impI)
  show "list_all (\<lambda>e. \<not> is_server_request e) (snd (dir_tree_dir_create t dtree parent name m req))"
    by (rule dir_create_no_request)
next
  fix r i md sz ct
  assume a: "Mkdir_cb r True i md sz ct \<in> set (snd (dir_tree_dir_create t dtree parent name m req))"
  then obtain dir_en where dir: "h_inodes dtree parent = Some dir_en" "en_type dir_en = DET_dir"
    using dir_create_not_dir [of dtree parent t name m req] by fastforce
  from dir_create_result [OF dir, of t name m req]
  obtain c en where r: "h_inodes (fst (dir_tree_dir_create t dtree parent name m req)) c = Some en"
      "en_type en = DET_dir" "mode en = dmode dtree" "\<not> removed en"
      "snd (dir_tree_dir_create t dtree parent name m req) =
         [Mkdir_cb req True (ino en) (dmode dtree) (en_size en) (ctime en)]"
    by blast
  from a r(5) show "md = dmode dtree"
    by simp
  from a r(5) have "ino en = i"
    by simp
  with r show "\<exists>c en. h_inodes (fst (dir_tree_dir_create t dtree parent name m req)) c = Some en \<and>
         ino en = i \<and> en_type en = DET_dir \<and> mode en = dmode dtree \<and> \<not> removed en"
    by (intro exI [of _ c] exI [of _ en]) simp
next
  fix dir_en c en
  assume "h_inodes dtree parent = Some dir_en \<and> en_type dir_en = DET_dir \<and>
          child_lookup dtree dir_en name = Some (c, en)"
  then have "h_inodes dtree parent = Some dir_en" "en_type dir_en = DET_dir"
    "child_lookup dtree dir_en name = Some (c, en)"
    by simp_all
  then show "\<exists>en'. h_inodes (fst (dir_tree_dir_create t dtree parent name m req)) c = Some en' \<and>
           ino en' = ino en \<and> en_type en' = DET_dir \<and>
           h_dir_tree en' = (case h_dir_tree en of None \<Rightarrow> Some [] | Some kvs \<Rightarrow> Some kvs) \<and>
           \<not> removed en' \<and> dir_cache en' = None \<and> dir_cache_size en' = 0 \<and> mode en' = dmode dtree \<and>
           snd (dir_tree_dir_create t dtree parent name m req) =
             [Mkdir_cb req True (ino en) (dmode dtree) (en_size en) (ctime en)]"
    by (rule dir_create_existing)
next
  fix dir_en
  assume "h_inodes dtree parent = Some dir_en \<and> en_type dir_en = DET_dir"
  then have dir: "h_inodes dtree parent = Some dir_en" "en_type dir_en = DET_dir"
    by simp_all
  from dir_create_result [OF dir, of t name m req]
  show "\<exists>i sz ct. snd (dir_tree_dir_create t dtree parent name m req) =
                   [Mkdir_cb req True i (dmode dtree) sz ct]"
    by blast
next
  fix dir_en
  assume "h_inodes dtree parent = Some dir_en \<and> en_type dir_en = DET_dir \<and>
      child_lookup dtree dir_en name = None \<and> parent \<noteq> 0 \<and> h_inodes dtree (max_ino dtree) = None"
  then have h: "h_inodes dtree parent = Some dir_en" "en_type dir_en = DET_dir"
      "child_lookup dtree dir_en name = None" "parent \<noteq> 0" "h_inodes dtree (max_ino dtree) = None"
    by simp_all
  show "snd (dir_tree_dir_create t dtree parent name m req) =
        [Mkdir_cb req True (max_ino dtree) (dmode dtree) 10 t]"
    using h by (rule dir_create_new(1))
  show "max_ino (fst (dir_tree_dir_create t dtree parent name m req)) = max_ino dtree + 1"
    using h by (rule dir_create_new(2))
  fix k
  show "h_inodes (fst (dir_tree_dir_create t dtree parent name m req)) k =
           (if k = max_ino dtree
            then Some \<lparr>ino = max_ino dtree, parent_ino = parent, basename = name,
                    fullpath = (if parent = FUSE_ROOT_ID then name else fullpath dir_en @ ''/'' @ name),
                    en_type = DET_dir, age = age dir_en, removed = False, is_modified = False,
                    en_size = 10, mode = dmode dtree, ctime = t, dir_cache = None,
                    dir_cache_size = 0, dir_cache_created = 0, dir_cache_updating = False,
                    h_dir_tree = Some [], is_updating = False, updated_time = 0, access_time = t,
                    etag = None, version_id = None, content_type = None, xattr_time = 0\<rparr>
            else if k = parent
            then Some (dir_en\<lparr>is_modified := True, dir_cache := None, dir_cache_size := 0,
                    h_dir_tree := g_hash_table_insert (slot dtree) (h_dir_tree dir_en) name (max_ino dtree)\<rparr>)
            else h_inodes dtree k)"
    using h by (rule dir_create_new(3))
next
  fix dir_en
  assume "h_inodes dtree parent = Some dir_en \<and> en_type dir_en = DET_dir \<and>
      child_lookup dtree dir_en name = None \<and> parent \<noteq> 0 \<and> h_inodes dtree (max_ino dtree) = None"
  then have h: "h_inodes dtree parent = Some dir_en" "en_type dir_en = DET_dir"
      "child_lookup dtree dir_en name = None" "parent \<noteq> 0" "h_inodes dtree (max_ino dtree) = None"
    by simp_all
  assume tbl: "h_dir_tree dir_en \<noteq> None"
  from h have ne: "parent \<noteq> max_ino dtree"
    by auto
  show "g_hash_table_lookup
         (h_dir_tree (the (h_inodes (fst (dir_tree_dir_create t dtree parent name m req)) parent)))
         name = Some (max_ino dtree)"
    using tbl ne by (simp add: dir_create_new(3) [OF h] g_hash_table_lookup_insert)
next
  assume "\<not> (\<exists>dir_en. h_inodes dtree parent = Some dir_en \<and> en_type dir_en = DET_dir)"
  then show "dir_tree_dir_create t dtree parent name m req = (dtree, [Mkdir_cb req False 0 0 0 0])"
    by (rule dir_create_not_dir)
qed


theorem dir_create_converts_existing_entry_witness:
  "map_option en_type (h_inodes tree_f 2) = Some DET_file \<and>
   map_option en_type (h_inodes (fst (dir_tree_dir_create 200 tree_f 1 ''f'' 448 2)) 2) = Some DET_dir \<and>
   map_option h_dir_tree (h_inodes (fst (dir_tree_dir_create 200 tree_f 1 ''f'' 448 2)) 2) = Some (Some []) \<and>
   snd (dir_tree_dir_create 200 tree_f 1 ''f'' 448 2) = [Mkdir_cb 2 True 2 16877 0 100] \<and>
   h_inodes tree0 2 = None \<and>
   snd (dir_tree_dir_create 200 tree0 1 ''d'' 448 5) = [Mkdir_cb 5 True 2 16877 10 200] \<and>
   max_ino (fst (dir_tree_dir_create 200 tree0 1 ''d'' 448 5)) = 3 \<and>
   map_option mode (h_inodes (fst (dir_tree_dir_create 200 tree0 1 ''d'' 448 5)) 2) = Some 16877 \<and>
   map_option en_type (h_inodes (fst (dir_tree_dir_create 200 tree0 1 ''d'' 448 5)) 2) = Some DET_dir \<and>
   g_hash_table_lookup
     (h_dir_tree (the (h_inodes (fst (dir_tree_dir_create 200 tree0 1 ''d'' 448 5)) 1))) ''d'' = Some 2 \<and>
   dir_tree_dir_create 200 tree0 7 ''d'' 448 5 = (tree0, [Mkdir_cb 5 False 0 0 0 0])"
proof -
  have p: "h_inodes tree_f 1 = Some (the (h_inodes tree_f 1))"
    by code_simp
  have ty: "en_type (the (h_inodes tree_f 1)) = DET_dir"
    by code_simp
  have ch: "child_lookup tree_f (the (h_inodes tree_f 1)) ''f'' = Some (2, the (h_inodes tree_f 2))"
    by code_simp
  have old: "map_option en_type (h_inodes tree_f 2) = Some DET_file"
    by code_simp
  have vals: "h_dir_tree (the (h_inodes tree_f 2)) = None" "ino (the (h_inodes tree_f 2)) = 2"
    "dmode tree_f = 16877" "en_size (the (h_inodes tree_f 2)) = 0" "ctime (the (h_inodes tree_f 2)) = 100"
    by code_simp+
  from dir_create_converts_existing_entry [of 200 tree_f 1 "''f''" 448 2] p ty ch
  obtain en' where "h_inodes (fst (dir_tree_dir_create 200 tree_f 1 ''f'' 448 2)) 2 = Some en'"
    "en_type en' = DET_dir"
    "h_dir_tree en' = (case h_dir_tree (the (h_inodes tree_f 2)) of None \<Rightarrow> Some [] | Some kvs \<Rightarrow> Some kvs)"
    "snd (dir_tree_dir_create 200 tree_f 1 ''f'' 448 2) =
       [Mkdir_cb 2 True (ino (the (h_inodes tree_f 2))) (dmode tree_f)
          (en_size (the (h_inodes tree_f 2))) (ctime (the (h_inodes tree_f 2)))]"
    by blast
  with old vals have existing:
    "map_option en_type (h_inodes tree_f 2) = Some DET_file \<and>
     map_option en_type (h_inodes (fst (dir_tree_dir_create 200 tree_f 1 ''f'' 448 2)) 2) = Some DET_dir \<and>
     map_option h_dir_tree (h_inodes (fst (dir_tree_dir_create 200 tree_f 1 ''f'' 448 2)) 2) = Some (Some []) \<and>
     snd (dir_tree_dir_create 200 tree_f 1 ''f'' 448 2) = [Mkdir_cb 2 True 2 16877 0 100]"
    by simp
  have p0: "h_inodes tree0 1 = Some (the (h_inodes tree0 1))"
    by code_simp
  have h0: "en_type (the (h_inodes tree0 1)) = DET_dir"
    "child_lookup tree0 (the (h_inodes tree0 1)) ''d'' = None"
    "(1 :: fuse_ino_t) \<noteq> 0" "h_inodes tree0 (max_ino tree0) = None"
    "h_dir_tree (the (h_inodes tree0 1)) \<noteq> None"
    by code_simp+
  have v0: "max_ino tree0 = 2" "dmode tree0 = 16877"
    by code_simp+
  note inst = dir_create_converts_existing_entry [of 200 tree0 1 "''d''" 448 5,
      THEN conjunct2, THEN conjunct2, THEN conjunct2, THEN conjunct2, THEN conjunct1,
      rule_format, of "the (h_inodes tree0 1)"]
  from p0 h0 have hyp: "h_inodes tree0 1 = Some (the (h_inodes tree0 1)) \<and>
      en_type (the (h_inodes tree0 1)) = DET_dir \<and>
      child_lookup tree0 (the (h_inodes tree0 1)) ''d'' = None \<and> (1 :: fuse_ino_t) \<noteq> 0 \<and>
      h_inodes tree0 (max_ino tree0) = None"
    by simp
  note new = inst [OF hyp]
  from new have n1: "snd (dir_tree_dir_create 200 tree0 1 ''d'' 448 5) = [Mkdir_cb 5 True 2 16877 10 200]"
    by (simp add: v0)
  from new have n2: "max_ino (fst (dir_tree_dir_create 200 tree0 1 ''d'' 448 5)) = 3"
    by (simp add: v0)
  from new have "h_inodes (fst (dir_tree_dir_create 200 tree0 1 ''d'' 448 5)) 2 \<noteq> None \<and>
      mode (the (h_inodes (fst (dir_tree_dir_create 200 tree0 1 ''d'' 448 5)) 2)) = 16877 \<and>
      en_type (the (h_inodes (fst (dir_tree_dir_create 200 tree0 1 ''d'' 448 5)) 2)) = DET_dir"
    by (simp add: v0)
  then have n3: "map_option mode (h_inodes (fst (dir_tree_dir_create 200 tree0 1 ''d'' 448 5)) 2) = Some 16877"
    and n4: "map_option en_type (h_inodes (fst (dir_tree_dir_create 200 tree0 1 ''d'' 448 5)) 2) = Some DET_dir"
    by auto
  from new [THEN conjunct2, THEN conjunct2, THEN conjunct2, rule_format, OF h0(5)]
  have n5: "g_hash_table_lookup
     (h_dir_tree (the (h_inodes (fst (dir_tree_dir_create 200 tree0 1 ''d'' 448 5)) 1))) ''d'' = Some 2"
    by (simp only: v0)
  from h0(4) have n0: "h_inodes tree0 2 = None"
    by (simp add: v0)
  have n7: "h_inodes tree0 7 = None"
    by code_simp
  from dir_create_converts_existing_entry [of 200 tree0 7 "''d''" 448 5,
      THEN conjunct2, THEN conjunct2, THEN conjunct2, THEN conjunct2, THEN conjunct2] n7
  have n6: "dir_tree_dir_create 200 tree0 7 ''d'' 448 5 = (tree0, [Mkdir_cb 5 False 0 0 0 0])"
    by simp
  from existing n0 n1 n2 n3 n4 n5 n6 show ?thesis
    by simp
qed


subsection \<open>Unlink\<close>

text \<open>
  C1, the failure half, evaluated on the code. After scenario S1 the file \<^verbatim>\<open>a.txt\<close>
  has inode 2, is not removed and has age 1. It is unlinked and the DELETE request
  completes with failure: the failure is reported, and the entry is removed and has age
  0 all the same, since \<^verbatim>\<open>dir_tree_file_remove_on_con_data_cb\<close> writes both fields
  before it looks at the result.
\<close>

theorem unlink_failure_tombstones_entry:
  "run_enabled evs_unlink_fails (tree_S1, []) \<and>
   map_option removed (h_inodes tree_S1 2) = Some False \<and>
   map_option age (h_inodes tree_S1 2) = Some 1 \<and>
   snd (run_events evs_unlink_fails (tree_S1, [])) =
     [Cache_mng_remove_file 2,
      Client_pool_get_client (Dir_tree_file_remove_on_con_cb remove_2),
      Http_connection_acquire,
      Http_connection_make_request ''/a.txt'' ''DELETE'' (Dir_tree_file_remove_on_con_data_cb remove_2),
      Http_connection_release, File_remove_cb 2 False] \<and>
   map_option removed (h_inodes (fst (run_events evs_unlink_fails (tree_S1, []))) 2) = Some True \<and>
   map_option age (h_inodes (fst (run_events evs_unlink_fails (tree_S1, []))) 2) = Some 0"
  by code_simp

subsection \<open>Directory handles\<close>

lemma add_entry_dir_ops [simp]:
  "dir_ops (fst (dir_tree_add_entry t d name m ty parent sz ct)) = dir_ops d"
  by (simp add: dir_tree_add_entry_def Let_def)

lemma stop_update_child_dir_ops [simp]:
  "dir_ops (fst (dir_tree_stop_update_on_remove_child_cb now d name c)) = dir_ops d"
  by (simp add: dir_tree_stop_update_on_remove_child_cb_def split: option.splits)

lemma foreach_remove_dir_ops [simp]:
  "dir_ops (fst (foreach_remove_children now d kvs)) = dir_ops d"
proof (induction kvs arbitrary: d)
  case Nil
  show ?case by simp
next
  case (Cons kv kvs)
  obtain d1 rm where 1: "dir_tree_stop_update_on_remove_child_cb now d (fst kv) (snd kv) = (d1, rm)"
    by (cases "dir_tree_stop_update_on_remove_child_cb now d (fst kv) (snd kv)")
  obtain d2 kept where 2: "foreach_remove_children now d1 kvs = (d2, kept)"
    by (cases "foreach_remove_children now d1 kvs")
  from 1 have "dir_ops d1 = dir_ops d"
    using stop_update_child_dir_ops [of now d "fst kv" "snd kv"] by simp
  moreover from 2 have "dir_ops d2 = dir_ops d1"
    using Cons.IH [of d1] by simp
  ultimately show ?case
    using 1 2 by simp
qed

lemma stop_update_dir_ops [simp]:
  "dir_ops (dir_tree_stop_update now d parent) = dir_ops d"
proof -
  have "\<And>kvs. dir_ops (case foreach_remove_children now d kvs of
            (dtree1, kept) \<Rightarrow> en_update parent (\<lambda>p. p\<lparr>h_dir_tree := Some kept\<rparr>) dtree1) = dir_ops d"
    using foreach_remove_dir_ops [of now d] by (simp add: split_beta)
  then show ?thesis
    by (simp add: dir_tree_stop_update_def split: option.splits)
qed

lemma update_entry_dir_ops [simp]:
  "dir_ops (fst (dir_tree_update_entry t d ty parent name sz lm)) = dir_ops d"
  by (simp add: dir_tree_update_entry_def split: option.splits)

lemma update_request_buffer_other:
  "dop \<noteq> Some h \<Longrightarrow> dir_ops (update_request_buffer dop n b d) h = dir_ops d h"
  by (simp add: update_request_buffer_def split: option.splits)

lemma fill_on_dir_buf_cb_other:
  "fd_dop d \<noteq> Some h \<Longrightarrow> dir_ops (fst (dir_tree_fill_on_dir_buf_cb t dtree d success)) h = dir_ops dtree h"
  by (simp add: dir_tree_fill_on_dir_buf_cb_def Let_def update_request_buffer_other split: option.splits)

lemma fill_dir_buf_other:
  "fi \<noteq> Some h \<Longrightarrow>
   dir_ops (fst (dir_tree_fill_dir_buf t ok dtree i sz off cb req fi)) h = dir_ops dtree h"
  by (auto simp: dir_tree_fill_dir_buf_def Let_def fill_on_dir_buf_cb_other split: option.splits)

lemma fill_dir_buf_no_handle [simp]:
  "dir_ops (fst (dir_tree_fill_dir_buf t ok dtree i sz off cb req None)) = dir_ops dtree"
proof
  fix h
  show "dir_ops (fst (dir_tree_fill_dir_buf t ok dtree i sz off cb req None)) h = dir_ops dtree h"
    by (rule fill_dir_buf_other) simp
qed

lemma lookup_dir_ops [simp]:
  "dir_ops (fst (dir_tree_lookup t ok dtree parent name req)) = dir_ops dtree"
  by (simp add: dir_tree_lookup_def lookup_send_head_def Let_def split: option.splits prod.splits)

lemma on_lookup_read_dir_ops [simp]:
  "dir_ops (fst (dir_tree_on_lookup_read t ok dtree op_data success)) = dir_ops dtree"
  by (simp add: dir_tree_on_lookup_read_def)

lemma add_entry_dir_opsD:
  "dir_tree_add_entry t d name m ty parent sz ct = (d', r) \<Longrightarrow> dir_ops d' = dir_ops d"
  using add_entry_dir_ops [of t d name m ty parent sz ct] by simp

lemma file_create_dir_ops [simp]:
  "dir_ops (fst (dir_tree_file_create t dtree parent name m req)) = dir_ops dtree"
  by (auto simp: dir_tree_file_create_def Let_def split: option.splits prod.splits
           dest: add_entry_dir_opsD)

lemma create_symlink_dir_ops [simp]:
  "dir_ops (fst (dir_tree_create_symlink t dtree parent name link req)) = dir_ops dtree"
  by (auto simp: dir_tree_create_symlink_def Let_def split: option.splits prod.splits
           dest: add_entry_dir_opsD)

lemma dir_create_dir_ops [simp]:
  "dir_ops (fst (dir_tree_dir_create t dtree parent name m req)) = dir_ops dtree"
  by (auto simp: dir_tree_dir_create_def Let_def split: option.splits prod.splits
           dest: add_entry_dir_opsD)

lemma file_remove_dir_ops [simp]:
  "dir_ops (fst (dir_tree_file_remove ok dtree i req)) = dir_ops dtree"
  by (simp add: dir_tree_file_remove_def split: option.splits)

lemma file_unlink_dir_ops [simp]:
  "dir_ops (fst (dir_tree_file_unlink ok dtree parent name req)) = dir_ops dtree"
  by (simp add: dir_tree_file_unlink_def split: option.splits)

lemma dir_remove_dir_ops [simp]:
  "dir_ops (fst (dir_tree_dir_remove dtree parent name)) = dir_ops dtree"
  by (simp add: dir_tree_dir_remove_def split: option.splits)

lemma rename_dir_ops [simp]:
  "dir_ops (fst (dir_tree_rename ok dtree parent name newparent newname req)) = dir_ops dtree"
  by (simp add: dir_tree_rename_def Let_def split: option.splits)

lemma set_entry_exist_dir_ops [simp]:
  "dir_ops (dir_tree_set_entry_exist dtree i) = dir_ops dtree"
  by (simp add: dir_tree_set_entry_exist_def split: option.splits)

lemma run_pool_cb_dir_ops [simp]:
  "dir_ops (fst (run_pool_cb res dtree cb)) = dir_ops dtree"
  by (cases cb)
     (simp_all add: dir_tree_fill_dir_on_http_ready_def dir_tree_start_update_def
        dir_tree_on_lookup_con_cb_def dir_tree_on_lookup_not_found_con_cb_def
        dir_tree_file_remove_on_con_cb_def dir_tree_on_rename_copy_con_cb_def
        dir_tree_on_rename_delete_con_cb_def Let_def split: option.splits)

lemma update_entry_dir_opsD:
  "dir_tree_update_entry t d ty parent name sz lm = (d', r) \<Longrightarrow> dir_ops d' = dir_ops d"
  using update_entry_dir_ops [of t d ty parent name sz lm] by simp

lemma on_lookup_not_found_cb_dir_ops [simp]:
  "dir_ops (fst (dir_tree_on_lookup_not_found_cb t dtree op_data success headers)) = dir_ops dtree"
  by (auto simp: dir_tree_on_lookup_not_found_cb_def Let_def split: option.splits prod.splits
           dest: add_entry_dir_opsD update_entry_dir_opsD)

lemma run_http_cb_dir_ops [simp]:
  "dir_ops (fst (run_http_cb t ok dtree cb success headers)) = dir_ops dtree"
  by (cases cb)
     (simp_all add: dir_tree_on_lookup_cb_def dir_tree_file_remove_on_con_data_cb_def
        dir_tree_on_rename_copy_cb_def dir_tree_on_rename_delete_cb_def Let_def
        split: option.splits)

lemma on_symlink_cb_dir_ops [simp]:
  "dir_ops (fst (dir_tree_on_symlink_cb dtree sdata success)) = dir_ops dtree"
  by (simp add: dir_tree_on_symlink_cb_def split: option.splits)





lemma fill_dir_buf_populated:
  assumes "dir_ops dtree h = Some dp" "dop_buf dp = Some b"
      and "h_inodes dtree i = Some en" "en_type en = DET_dir"
  shows "dir_tree_fill_dir_buf t ok dtree i sz off cb req (Some h) =
           (dtree, [Readdir_cb cb req True sz off (Some b) (dop_size dp)])"
  using assms by (simp add: dir_tree_fill_dir_buf_def)








subsection \<open>Rename: the response to the copy\<close>

text \<open>
  C3 as the code has it. After a successful copy, when the new parent is a directory
  that has an entry under the new name, \<^verbatim>\<open>dir_tree_on_rename_copy_cb\<close> clears the
  removed flag of that entry, sets its access time, drops the listing cache of the new
  parent, and asks the pool for a client for the DELETE stage. When the new parent has no
  entry under the new name, nothing is created: the tree is unchanged and the rename
  completes with failure.
\<close>

theorem rename_copy_clears_removed:
  "(\<forall>newparent_en c en.
      h_inodes dtree (rn_newparent_ino rdata) = Some newparent_en \<and> en_type newparent_en = DET_dir \<and>
      child_lookup dtree newparent_en (rn_newname rdata) = Some (c, en) \<longrightarrow>
      (\<exists>en' np'.
         h_inodes (fst (dir_tree_on_rename_copy_cb t pool_ok dtree rdata True)) c = Some en' \<and>
         \<not> removed en' \<and> access_time en' = t \<and> ino en' = ino en \<and>
         h_inodes (fst (dir_tree_on_rename_copy_cb t pool_ok dtree rdata True)) (rn_newparent_ino rdata) = Some np' \<and>
         dir_cache np' = None \<and> dir_cache_size np' = 0 \<and>
         snd (dir_tree_on_rename_copy_cb t pool_ok dtree rdata True) =
           [Http_connection_release, Client_pool_get_client (Dir_tree_on_rename_delete_con_cb rdata)] @
           (if \<not> pool_ok then [Rename_cb (rn_req rdata) False] else []))) \<and>
   (\<forall>newparent_en.
      h_inodes dtree (rn_newparent_ino rdata) = Some newparent_en \<and>
      child_lookup dtree newparent_en (rn_newname rdata) = None \<longrightarrow>
      dir_tree_on_rename_copy_cb t pool_ok dtree rdata True =
        (dtree, [Http_connection_release, Rename_cb (rn_req rdata) False]))"
proof (intro conjI allI impI)
  fix newparent_en c en
  assume a: "h_inodes dtree (rn_newparent_ino rdata) = Some newparent_en \<and> en_type newparent_en = DET_dir \<and>
      child_lookup dtree newparent_en (rn_newname rdata) = Some (c, en)"
  then have c: "h_inodes dtree c = Some en"
    by (simp add: child_lookup_def split: option.splits)
  let ?d1 = "en_update c (\<lambda>e. e\<lparr>removed := False, access_time := t\<rparr>) dtree"
  obtain np1 where np1: "h_inodes ?d1 (rn_newparent_ino rdata) = Some np1" "en_type np1 = DET_dir"
    using a c by (cases "rn_newparent_ino rdata = c") (auto simp: en_update_lookup)
  have en1: "h_inodes ?d1 c = Some (en\<lparr>removed := False, access_time := t\<rparr>)"
    using c by (simp add: en_update_lookup)
  have res: "dir_tree_on_rename_copy_cb t pool_ok dtree rdata True =
      (dir_tree_entry_modified ?d1 (rn_newparent_ino rdata),
       [Http_connection_release, Client_pool_get_client (Dir_tree_on_rename_delete_con_cb rdata)] @
           (if \<not> pool_ok then [Rename_cb (rn_req rdata) False] else []))"
    using a by (simp add: dir_tree_on_rename_copy_cb_def)
  have st: "dir_tree_entry_modified ?d1 (rn_newparent_ino rdata) =
        en_update (rn_newparent_ino rdata) invalidate_dir_cache ?d1"
    using np1 by (rule entry_modified_dir)
  show "\<exists>en' np'.
         h_inodes (fst (dir_tree_on_rename_copy_cb t pool_ok dtree rdata True)) c = Some en' \<and>
         \<not> removed en' \<and> access_time en' = t \<and> ino en' = ino en \<and>
         h_inodes (fst (dir_tree_on_rename_copy_cb t pool_ok dtree rdata True)) (rn_newparent_ino rdata) = Some np' \<and>
         dir_cache np' = None \<and> dir_cache_size np' = 0 \<and>
         snd (dir_tree_on_rename_copy_cb t pool_ok dtree rdata True) =
           [Http_connection_release, Client_pool_get_client (Dir_tree_on_rename_delete_con_cb rdata)] @
           (if \<not> pool_ok then [Rename_cb (rn_req rdata) False] else [])"
    using en1 np1 by (auto simp: res st invalidate_dir_cache_def en_update_lookup)
next
  fix newparent_en
  assume "h_inodes dtree (rn_newparent_ino rdata) = Some newparent_en \<and>
      child_lookup dtree newparent_en (rn_newname rdata) = None"
  then show "dir_tree_on_rename_copy_cb t pool_ok dtree rdata True =
        (dtree, [Http_connection_release, Rename_cb (rn_req rdata) False])"
    by (auto simp: dir_tree_on_rename_copy_cb_def Let_def)
qed

theorem rename_copy_clears_removed_witness:
  "map_option removed (h_inodes tree_S5_y 5) = Some True \<and>
   map_option removed (h_inodes (fst (dir_tree_on_rename_copy_cb 101 True tree_S5_y rename_xy True)) 5)
     = Some False \<and>
   snd (dir_tree_on_rename_copy_cb 101 True tree_S5_y rename_xy True) =
     [Http_connection_release, Client_pool_get_client (Dir_tree_on_rename_delete_con_cb rename_xy)] \<and>
   dir_tree_on_rename_copy_cb 101 True tree_S5 rename_xy True =
     (tree_S5, [Http_connection_release, Rename_cb 5 False])"
proof -
  have p: "h_inodes tree_S5_y 3 = Some (the (h_inodes tree_S5_y 3))"
    "en_type (the (h_inodes tree_S5_y 3)) = DET_dir"
    "child_lookup tree_S5_y (the (h_inodes tree_S5_y 3)) ''y'' = Some (5, the (h_inodes tree_S5_y 5))"
    by code_simp+
  have q: "h_inodes tree_S5 3 = Some (the (h_inodes tree_S5 3))"
    "child_lookup tree_S5 (the (h_inodes tree_S5 3)) ''y'' = None"
    by code_simp+
  have old: "map_option removed (h_inodes tree_S5_y 5) = Some True"
    by code_simp
  have r: "rn_newparent_ino rename_xy = 3" "rn_newname rename_xy = ''y''" "rn_req rename_xy = 5"
    by (simp_all add: rename_xy_def)
  from rename_copy_clears_removed [of tree_S5_y rename_xy 101 True] p r
  obtain en' where "h_inodes (fst (dir_tree_on_rename_copy_cb 101 True tree_S5_y rename_xy True)) 5 = Some en'"
    "\<not> removed en'"
    "snd (dir_tree_on_rename_copy_cb 101 True tree_S5_y rename_xy True) =
       [Http_connection_release, Client_pool_get_client (Dir_tree_on_rename_delete_con_cb rename_xy)]"
    by fastforce
  moreover from rename_copy_clears_removed [of tree_S5 rename_xy 101 True] q r
  have "dir_tree_on_rename_copy_cb 101 True tree_S5 rename_xy True =
     (tree_S5, [Http_connection_release, Rename_cb 5 False])"
    by fastforce
  ultimately show ?thesis
    using old by simp
qed

text \<open>
  C3 as stated fails in scenario S5: the copy to \<^verbatim>\<open>/b/y\<close> is sent with its
  \<^verbatim>\<open>x-amz-copy-source\<close> header and succeeds, but \<^verbatim>\<open>b\<close> has no entry \<^verbatim>\<open>y\<close>, so
  the rename completes with failure and \<^verbatim>\<open>b\<close> still has no children.
\<close>

theorem rename_copy_absent_destination_counterexample:
  "run_enabled evs_S5_rename (tree_S5, []) \<and>
   map_option h_dir_tree (h_inodes tree_S5 3) = Some (Some []) \<and>
   snd (run_events evs_S5_rename (tree_S5, [])) =
     [Client_pool_get_client (Dir_tree_on_rename_copy_con_cb rename_xy),
      Http_connection_acquire,
      Http_connection_add_output_header ''x-amz-copy-source'' ''bucket/a/x'',
      Http_connection_add_output_header ''x-amz-storage-class'' ''STANDARD'',
      Http_connection_make_request ''/b/y'' ''PUT'' (Dir_tree_on_rename_copy_cb rename_xy),
      Http_connection_release, Rename_cb 5 False] \<and>
   map_option h_dir_tree (h_inodes (fst (run_events evs_S5_rename (tree_S5, []))) 3) = Some (Some [])"
  by code_simp

subsection \<open>Lookup of a removed entry\<close>

text \<open>
  C4, evaluated on the code. After scenarios S1 and S2 the root has a fresh listing cache
  and a removed entry \<^verbatim>\<open>missing\<close> (inode 3) with access time 101; the file cache
  time is 10 seconds and neither \<^verbatim>\<open>s3.check_empty_files\<close> nor
  \<^verbatim>\<open>s3.force_head_requests_on_lookup\<close> is set. A lookup at time 105 reports
  not-found without a request, as C4 says. A lookup at time 120, when the entry is no
  longer recent, makes no request either: it reports the removed entry as found, with
  inode 3.
\<close>

theorem stale_tombstone_reported_found:
  "run_enabled evs_S2 (tree_S1, []) \<and>
   snd (run_events evs_S2 (tree_S1, [])) =
     [Client_pool_get_client (Dir_tree_on_lookup_not_found_con_cb op_missing),
      Http_connection_acquire,
      Http_connection_make_request ''/missing'' ''HEAD'' (Dir_tree_on_lookup_not_found_cb op_missing),
      Http_connection_release, Lookup_cb 2 False 0 0 0 0,
      Readdir_cb (Dir_tree_on_lookup_read op_missing2) 3 True 1048576 0
        (Some [(''.'', 1, 0), (''..'', 1, 0), (''a.txt'', 2, 100)]) 3,
      Lookup_cb 3 False 0 0 0 0] \<and>
   map_option removed (h_inodes tree_S2 3) = Some True \<and>
   map_option access_time (h_inodes tree_S2 3) = Some 101 \<and>
   file_cache_max_time (app tree_S2) = 10 \<and>
   map_option (dir_tree_is_cache_expired 105 tree_S2) (h_inodes tree_S2 1) = Some False \<and>
   snd (dir_tree_lookup 105 True tree_S2 1 ''missing'' 4) = [Lookup_cb 4 False 0 0 0 0] \<and>
   map_option (dir_tree_is_cache_expired 120 tree_S2) (h_inodes tree_S2 1) = Some False \<and>
   map_option (tombstone_is_recent 120 tree_S2) (h_inodes tree_S2 3) = Some False \<and>
   snd (dir_tree_lookup 120 True tree_S2 1 ''missing'' 4) = [Lookup_cb 4 True 3 33188 0 101] \<and>
   map_option removed (h_inodes (fst (dir_tree_lookup 120 True tree_S2 1 ''missing'' 4)) 3) = Some True"
  by code_simp

subsection \<open>The directory buffer\<close>

lemma dirbuf_add_child_record:
  "dirbuf_add_child dtree parent_en b kv =
   b @ (case listing_record dtree parent_en kv of None \<Rightarrow> [] | Some r \<Rightarrow> [r])"
  by (simp add: dirbuf_add_child_def listing_record_def rfuse_add_dirbuf_def split: option.splits)

lemma foldl_dirbuf_add_child:
  "foldl (dirbuf_add_child dtree parent_en) b kvs =
   b @ List.map_filter (listing_record dtree parent_en) kvs"
proof (induction kvs arbitrary: b)
  case Nil
  show ?case by (simp add: List.map_filter_simps)
next
  case (Cons kv kvs)
  have "foldl (dirbuf_add_child dtree parent_en) b (kv # kvs) =
        foldl (dirbuf_add_child dtree parent_en) (dirbuf_add_child dtree parent_en b kv) kvs"
    by simp
  also have "\<dots> = dirbuf_add_child dtree parent_en b kv @
        List.map_filter (listing_record dtree parent_en) kvs"
    by (rule Cons.IH)
  also have "\<dots> = b @ List.map_filter (listing_record dtree parent_en) (kv # kvs)"
    by (simp add: dirbuf_add_child_record List.map_filter_simps split: option.splits)
  finally show ?case .
qed

lemma listing_record_flags:
  assumes "h_inodes dtree i = Some en"
  shows "listing_record
           (en_update i (\<lambda>en. en\<lparr>dir_cache_updating := False, is_modified := False\<rparr>) dtree)
           (en\<lparr>dir_cache_updating := False, is_modified := False\<rparr>) kv =
         listing_record dtree en kv"
  using assms by (auto simp: listing_record_def en_update_lookup split: option.splits)

lemma listing_of_nonempty: "dirbuf_size (listing_of dtree i en) \<noteq> 0"
  by (simp add: listing_of_def dirbuf_size_def)

text \<open>
  C6 as the code has it. When a listing of directory \<open>d\<close> completes with success, the
  blob that is sent, and stored as the directory's cache, consists of the records
  \<^verbatim>\<open>.\<close> and \<^verbatim>\<open>..\<close>, both with the inode of \<open>d\<close>, followed, in the order of
  the children table, by the record of each child \<open>c\<close> with
  \<open>age d \<le> age c\<close> that is not removed; so a child appears in the listing if and only
  if its age is at least the age of the directory and it is not removed.
\<close>

theorem dir_buf_lists_children_not_older:
  assumes "h_inodes dtree (fd_ino d) = Some en"
  shows "snd (dir_tree_fill_on_dir_buf_cb t dtree d True) =
           [Readdir_cb (fd_readdir_cb d) (fd_req d) True (fd_size d) (fd_off d)
              (Some (listing_of dtree (fd_ino d) en)) (length (listing_of dtree (fd_ino d) en))] \<and>
         map_option dir_cache (h_inodes (fst (dir_tree_fill_on_dir_buf_cb t dtree d True)) (fd_ino d)) =
           Some (Some (listing_of dtree (fd_ino d) en)) \<and>
         (\<forall>name c e. (name, c) \<in> set (case h_dir_tree en of None \<Rightarrow> [] | Some kvs \<Rightarrow> kvs) \<and>
              h_inodes dtree c = Some e \<longrightarrow>
              (listing_record dtree en (name, c) = Some (basename e, ino e, en_size e)) =
              (age en \<le> age e \<and> \<not> removed e))"
proof -
  let ?f = "\<lambda>en. en\<lparr>dir_cache_updating := False, is_modified := False\<rparr>"
  let ?d1 = "en_update (fd_ino d) ?f dtree"
  have p: "h_inodes ?d1 (fd_ino d) = Some (?f en)"
    using assms by (simp add: en_update_lookup)
  have rec: "listing_record ?d1 (?f en) = listing_record dtree en"
    using assms by (auto simp: listing_record_flags)
  have b: "foldl (dirbuf_add_child ?d1 (?f en))
             (rfuse_add_dirbuf (rfuse_add_dirbuf [] ''.'' (fd_ino d) 0) ''..'' (fd_ino d) 0)
             (case h_dir_tree en of None \<Rightarrow> [] | Some kvs \<Rightarrow> kvs) =
           listing_of dtree (fd_ino d) en"
    by (simp add: foldl_dirbuf_add_child rec listing_of_def rfuse_add_dirbuf_def)
  have n: "g_malloc0_copy (length (listing_of dtree (fd_ino d) en)) (listing_of dtree (fd_ino d) en)
           = Some (listing_of dtree (fd_ino d) en)"
    by (simp add: g_malloc0_copy_def listing_of_def)
  have 1: "snd (dir_tree_fill_on_dir_buf_cb t dtree d True) =
           [Readdir_cb (fd_readdir_cb d) (fd_req d) True (fd_size d) (fd_off d)
              (Some (listing_of dtree (fd_ino d) en)) (length (listing_of dtree (fd_ino d) en))]"
    unfolding dir_tree_fill_on_dir_buf_cb_def
    using assms p by (simp add: Let_def b n dirbuf_size_def del: foldl.simps)
  have 2: "map_option dir_cache (h_inodes (fst (dir_tree_fill_on_dir_buf_cb t dtree d True)) (fd_ino d)) =
           Some (Some (listing_of dtree (fd_ino d) en))"
    unfolding dir_tree_fill_on_dir_buf_cb_def
    using assms p
    by (simp add: Let_def b n en_update_lookup dirbuf_size_def del: foldl.simps split: option.splits)
  have 3: "\<forall>name c e. (name, c) \<in> set (case h_dir_tree en of None \<Rightarrow> [] | Some kvs \<Rightarrow> kvs) \<and>
              h_inodes dtree c = Some e \<longrightarrow>
              (listing_record dtree en (name, c) = Some (basename e, ino e, en_size e)) =
              (age en \<le> age e \<and> \<not> removed e)"
    by (simp add: listing_record_def)
  from 1 2 3 show ?thesis by blast
qed

theorem dir_buf_lists_children_not_older_witness:
  "map_option age (h_inodes tree_d_refreshed 2) = Some 1 \<and>
   map_option age (h_inodes tree_d_refreshed 3) = Some 3 \<and>
   listing_record tree_d_refreshed (the (h_inodes tree_d_refreshed 2)) (''c'', 3) = Some (''c'', 3, 7) \<and>
   snd (dir_tree_fill_on_dir_buf_cb 700 tree_d_refreshed (fill_of 2 14 6) True) =
     [Readdir_cb Rfuse_readdir_cb 6 True 4096 0 (Some [(''.'', 2, 0), (''..'', 2, 0), (''c'', 3, 7)]) 3]"
proof -
  have en: "h_inodes tree_d_refreshed (fd_ino (fill_of 2 14 6)) = Some (the (h_inodes tree_d_refreshed 2))"
    by code_simp
  have l: "listing_of tree_d_refreshed (fd_ino (fill_of 2 14 6)) (the (h_inodes tree_d_refreshed 2)) =
      [(''.'', 2, 0), (''..'', 2, 0), (''c'', 3, 7)]"
    by code_simp
  have f: "fd_readdir_cb (fill_of 2 14 6) = Rfuse_readdir_cb" "fd_req (fill_of 2 14 6) = 6"
    "fd_size (fill_of 2 14 6) = 4096" "fd_off (fill_of 2 14 6) = 0"
    by (simp_all add: fill_of_def)
  have ch: "(''c'', 3) \<in> set (case h_dir_tree (the (h_inodes tree_d_refreshed 2)) of None \<Rightarrow> [] | Some kvs \<Rightarrow> kvs)"
    "h_inodes tree_d_refreshed 3 = Some (the (h_inodes tree_d_refreshed 3))"
    by code_simp+
  have v: "age (the (h_inodes tree_d_refreshed 2)) \<le> age (the (h_inodes tree_d_refreshed 3))"
    "\<not> removed (the (h_inodes tree_d_refreshed 3))"
    "basename (the (h_inodes tree_d_refreshed 3)) = ''c''" "ino (the (h_inodes tree_d_refreshed 3)) = 3"
    "en_size (the (h_inodes tree_d_refreshed 3)) = 7"
    "map_option age (h_inodes tree_d_refreshed 2) = Some 1"
    "map_option age (h_inodes tree_d_refreshed 3) = Some 3"
    by code_simp+
  note inst = dir_buf_lists_children_not_older [OF en, of 700]
  from inst have "snd (dir_tree_fill_on_dir_buf_cb 700 tree_d_refreshed (fill_of 2 14 6) True) =
     [Readdir_cb Rfuse_readdir_cb 6 True 4096 0 (Some [(''.'', 2, 0), (''..'', 2, 0), (''c'', 3, 7)]) 3]"
    by (simp add: l f)
  moreover from inst ch v
  have "listing_record tree_d_refreshed (the (h_inodes tree_d_refreshed 2)) (''c'', 3) = Some (''c'', 3, 7)"
    by fastforce
  ultimately show ?thesis
    using v by simp
qed

text \<open>
  C6 as stated fails. The directory \<^verbatim>\<open>d\<close> is refreshed three times (its file \<^verbatim>\<open>c\<close>
  reaches age 3), a refresh of the root resets the age of \<^verbatim>\<open>d\<close> to 1, and a fourth
  refresh of \<^verbatim>\<open>d\<close>, in which the server reports nothing, raises it to 2: the blob
  still lists \<^verbatim>\<open>c\<close>, whose age 3 is not the age 2 of the directory.
\<close>

theorem dir_buf_lists_newer_child_counterexample:
  "run_enabled evs_d_refreshed (tree0, []) \<and>
   run_enabled evs_d_empty_listing (tree_d_refreshed, []) \<and>
   snd (run_events evs_d_empty_listing (tree_d_refreshed, [])) =
     [Client_pool_get_client (Dir_tree_fill_dir_on_http_ready (fill_of 2 14 6)),
      Http_connection_get_directory_listing ''d'' 2 (fill_of 2 14 6),
      Readdir_cb Rfuse_readdir_cb 6 True 4096 0
        (Some [(''.'', 2, 0), (''..'', 2, 0), (''c'', 3, 7)]) 3] \<and>
   map_option age (h_inodes (fst (run_events evs_d_empty_listing (tree_d_refreshed, []))) 2) = Some 2 \<and>
   map_option age (h_inodes (fst (run_events evs_d_empty_listing (tree_d_refreshed, []))) 3) = Some 3 \<and>
   map_option parent_ino (h_inodes (fst (run_events evs_d_empty_listing (tree_d_refreshed, []))) 3) = Some 2"
  by code_simp
subsection \<open>A refresh that fails\<close>

text \<open>
  C7 as the code has it, for each exit of a refresh that reports failure, relative to the
  tree in which the function is called. A HEAD refresh: the completion
  \<^verbatim>\<open>dir_tree_on_lookup_cb\<close> called with failure, and \<^verbatim>\<open>dir_tree_on_lookup_con_cb\<close> when the
  request cannot be made, change nothing but the flag \<open>is_updating\<close> of the entry, which
  they clear. A listing refresh: the completion \<^verbatim>\<open>dir_tree_fill_on_dir_buf_cb\<close> called with
  failure clears the guard of the listing, \<open>dir_cache_updating\<close>, and leaves every other
  attribute of the directory as it was (size, mode, ctime, removed, age, type, children,
  cache); nothing is said here about \<open>is_modified\<close>. When the pool refuses the dispatch,
  \<^verbatim>\<open>dir_tree_fill_dir_buf\<close> reports the failure in the same call, and the directory is
  left with \<open>dir_cache_updating\<close> clear and its listing cache dropped, nothing else being
  changed. When the entry is no longer in the index, the three callbacks leave the tree
  as it is. Each equation gives the whole tree after the call, so what was written to the
  tree before the call (the age raised and the cache dropped at dispatch, the entries
  that the listing reported) stays.
\<close>

theorem failed_refresh_frame:
  "(\<forall>en. h_inodes dtree (lo_ino op_data) = Some en \<longrightarrow>
      dir_tree_on_lookup_cb t dtree op_data False headers =
        (dtree\<lparr>h_inodes := (h_inodes dtree)(lo_ino op_data \<mapsto> en\<lparr>is_updating := False\<rparr>)\<rparr>,
         [Http_connection_release, Lookup_cb (lo_req op_data) False 0 0 0 0])) \<and>
   (\<forall>en. h_inodes dtree (fd_ino d) = Some en \<longrightarrow>
      (\<exists>en'. dir_tree_fill_on_dir_buf_cb t dtree d False =
          (dtree\<lparr>h_inodes := (h_inodes dtree)(fd_ino d \<mapsto> en')\<rparr>, [readdir_failed d]) \<and>
        en'\<lparr>is_modified := is_modified en\<rparr> = en\<lparr>dir_cache_updating := False\<rparr>)) \<and>
   (\<forall>en. h_inodes dtree (lo_ino op_data) = Some en \<longrightarrow>
      dir_tree_on_lookup_con_cb False dtree op_data =
        (dtree\<lparr>h_inodes := (h_inodes dtree)(lo_ino op_data \<mapsto> en\<lparr>is_updating := False\<rparr>)\<rparr>,
         [Http_connection_acquire,
          Http_connection_make_request (''/'' @ fullpath en) ''HEAD'' (Dir_tree_on_lookup_cb op_data),
          Http_connection_release, Lookup_cb (lo_req op_data) False 0 0 0 0])) \<and>
   (h_inodes dtree (lo_ino op_data) = None \<longrightarrow>
      dir_tree_on_lookup_cb t dtree op_data False headers =
        (dtree, [Http_connection_release, Lookup_cb (lo_req op_data) False 0 0 0 0]) \<and>
      dir_tree_on_lookup_con_cb False dtree op_data =
        (dtree, [Lookup_cb (lo_req op_data) False 0 0 0 0])) \<and>
   (h_inodes dtree (fd_ino d) = None \<longrightarrow>
      dir_tree_fill_on_dir_buf_cb t dtree d False = (dtree, [readdir_failed d])) \<and>
   (\<forall>en.
      h_inodes dtree i = Some en \<and> en_type en = DET_dir \<and>
      (\<forall>h dp. fi = Some h \<and> dir_ops dtree h = Some dp \<longrightarrow> dop_buf dp = None) \<and>
      dir_tree_is_cache_expired t dtree en \<and> off \<le> 0 \<and> \<not> dir_cache_updating en \<and>
      (dir_cache_created en = 0 \<or>
       t - dir_cache_created en > uint (dir_cache_max_time (app dtree))) \<longrightarrow>
      fst (dir_tree_fill_dir_buf t False dtree i sz off cb req fi) =
        dtree\<lparr>h_inodes := (h_inodes dtree)
                 (i \<mapsto> en\<lparr>dir_cache := None, dir_cache_size := 0, dir_cache_updating := False\<rparr>)\<rparr> \<and>
      (\<exists>d'. snd (dir_tree_fill_dir_buf t False dtree i sz off cb req fi) =
         [Client_pool_get_client (Dir_tree_fill_dir_on_http_ready d'),
          Readdir_cb cb req False sz off None 0]))"
proof (intro conjI allI impI)
  fix en
  assume "h_inodes dtree (lo_ino op_data) = Some en"
  then show "dir_tree_on_lookup_cb t dtree op_data False headers =
        (dtree\<lparr>h_inodes := (h_inodes dtree)(lo_ino op_data \<mapsto> en\<lparr>is_updating := False\<rparr>)\<rparr>,
         [Http_connection_release, Lookup_cb (lo_req op_data) False 0 0 0 0])"
    by (simp add: dir_tree_on_lookup_cb_def en_update_def)
next
  fix en
  assume en: "h_inodes dtree (fd_ino d) = Some en"
  let ?en' = "en\<lparr>dir_cache_updating := False, is_modified := False\<rparr>"
  from en have "dir_tree_fill_on_dir_buf_cb t dtree d False =
          (dtree\<lparr>h_inodes := (h_inodes dtree)(fd_ino d \<mapsto> ?en')\<rparr>, [readdir_failed d]) \<and>
        ?en'\<lparr>is_modified := is_modified en\<rparr> = en\<lparr>dir_cache_updating := False\<rparr>"
    by (simp add: dir_tree_fill_on_dir_buf_cb_def en_update_def)
  then show "\<exists>en'. dir_tree_fill_on_dir_buf_cb t dtree d False =
          (dtree\<lparr>h_inodes := (h_inodes dtree)(fd_ino d \<mapsto> en')\<rparr>, [readdir_failed d]) \<and>
        en'\<lparr>is_modified := is_modified en\<rparr> = en\<lparr>dir_cache_updating := False\<rparr>"
    by (rule exI)
next
  fix en
  assume "h_inodes dtree (lo_ino op_data) = Some en"
  then show "dir_tree_on_lookup_con_cb False dtree op_data =
        (dtree\<lparr>h_inodes := (h_inodes dtree)(lo_ino op_data \<mapsto> en\<lparr>is_updating := False\<rparr>)\<rparr>,
         [Http_connection_acquire,
          Http_connection_make_request (''/'' @ fullpath en) ''HEAD'' (Dir_tree_on_lookup_cb op_data),
          Http_connection_release, Lookup_cb (lo_req op_data) False 0 0 0 0])"
    by (simp add: dir_tree_on_lookup_con_cb_def en_update_def)
next
  assume "h_inodes dtree (lo_ino op_data) = None"
  then show "dir_tree_on_lookup_cb t dtree op_data False headers =
        (dtree, [Http_connection_release, Lookup_cb (lo_req op_data) False 0 0 0 0])"
    by (simp add: dir_tree_on_lookup_cb_def)
next
  assume "h_inodes dtree (lo_ino op_data) = None"
  then show "dir_tree_on_lookup_con_cb False dtree op_data =
        (dtree, [Lookup_cb (lo_req op_data) False 0 0 0 0])"
    by (simp add: dir_tree_on_lookup_con_cb_def)
next
  assume "h_inodes dtree (fd_ino d) = None"
  then show "dir_tree_fill_on_dir_buf_cb t dtree d False = (dtree, [readdir_failed d])"
    by (simp add: dir_tree_fill_on_dir_buf_cb_def)
next
  fix en
  assume h: "h_inodes dtree i = Some en \<and> en_type en = DET_dir \<and>
      (\<forall>h dp. fi = Some h \<and> dir_ops dtree h = Some dp \<longrightarrow> dop_buf dp = None) \<and>
      dir_tree_is_cache_expired t dtree en \<and> off \<le> 0 \<and> \<not> dir_cache_updating en \<and>
      (dir_cache_created en = 0 \<or>
       t - dir_cache_created en > uint (dir_cache_max_time (app dtree)))"
  then have nobuf: "\<not> (case (case fi of None \<Rightarrow> None | Some h \<Rightarrow> dir_ops dtree h) of
                        None \<Rightarrow> False | Some dp \<Rightarrow> dop_buf dp \<noteq> None)"
    by (auto split: option.splits)
  from h have off: "\<not> off > 0"
    by simp
  from h nobuf off
  show "fst (dir_tree_fill_dir_buf t False dtree i sz off cb req fi) =
        dtree\<lparr>h_inodes := (h_inodes dtree)
                 (i \<mapsto> en\<lparr>dir_cache := None, dir_cache_size := 0, dir_cache_updating := False\<rparr>)\<rparr>"
    by (simp add: dir_tree_fill_dir_buf_def Let_def en_update_def invalidate_dir_cache_def)
next
  fix en
  assume h: "h_inodes dtree i = Some en \<and> en_type en = DET_dir \<and>
      (\<forall>h dp. fi = Some h \<and> dir_ops dtree h = Some dp \<longrightarrow> dop_buf dp = None) \<and>
      dir_tree_is_cache_expired t dtree en \<and> off \<le> 0 \<and> \<not> dir_cache_updating en \<and>
      (dir_cache_created en = 0 \<or>
       t - dir_cache_created en > uint (dir_cache_max_time (app dtree)))"
  then have nobuf: "\<not> (case (case fi of None \<Rightarrow> None | Some h \<Rightarrow> dir_ops dtree h) of
                        None \<Rightarrow> False | Some dp \<Rightarrow> dop_buf dp \<noteq> None)"
    by (auto split: option.splits)
  from h have off: "\<not> off > 0"
    by simp
  from h nobuf off
  show "(\<exists>d'. snd (dir_tree_fill_dir_buf t False dtree i sz off cb req fi) =
         [Client_pool_get_client (Dir_tree_fill_dir_on_http_ready d'),
          Readdir_cb cb req False sz off None 0])"
    by (simp add: dir_tree_fill_dir_buf_def Let_def)
qed

theorem failed_refresh_frame_witness:
  "dir_tree_on_lookup_cb 100 tree_f op_head_2 False no_headers =
     (tree_f\<lparr>h_inodes := (h_inodes tree_f)(2 \<mapsto> (the (h_inodes tree_f 2))\<lparr>is_updating := False\<rparr>)\<rparr>,
      [Http_connection_release, Lookup_cb 9 False 0 0 0 0]) \<and>
   snd (dir_tree_fill_on_dir_buf_cb 100 tree_listing_dispatched (fill_of 1 10 2) False) =
     [readdir_failed (fill_of 1 10 2)] \<and>
   map_option age (h_inodes (fst (dir_tree_fill_on_dir_buf_cb 100 tree_listing_dispatched (fill_of 1 10 2) False)) 1)
     = Some 1 \<and>
   map_option dir_cache_updating
     (h_inodes (fst (dir_tree_fill_on_dir_buf_cb 100 tree_listing_dispatched (fill_of 1 10 2) False)) 1)
     = Some False \<and>
   dir_tree_on_lookup_con_cb False tree_f op_head_2 =
     (tree_f\<lparr>h_inodes := (h_inodes tree_f)(2 \<mapsto> (the (h_inodes tree_f 2))\<lparr>is_updating := False\<rparr>)\<rparr>,
      [Http_connection_acquire,
       Http_connection_make_request ''/f'' ''HEAD'' (Dir_tree_on_lookup_cb op_head_2),
       Http_connection_release, Lookup_cb 9 False 0 0 0 0]) \<and>
   dir_tree_on_lookup_cb 100 tree0 op_head_2 False no_headers =
     (tree0, [Http_connection_release, Lookup_cb 9 False 0 0 0 0]) \<and>
   dir_tree_on_lookup_con_cb False tree0 op_head_2 = (tree0, [Lookup_cb 9 False 0 0 0 0]) \<and>
   dir_tree_fill_on_dir_buf_cb 100 tree0 (fill_of 7 10 2) False = (tree0, [readdir_failed (fill_of 7 10 2)]) \<and>
   fst (dir_tree_fill_dir_buf 100 False tree0 1 4096 0 Rfuse_readdir_cb 2 None) =
     tree0\<lparr>h_inodes := (h_inodes tree0)
        (1 \<mapsto> (the (h_inodes tree0 1))\<lparr>dir_cache := None, dir_cache_size := 0,
                                         dir_cache_updating := False\<rparr>)\<rparr> \<and>
   (\<exists>d'. snd (dir_tree_fill_dir_buf 100 False tree0 1 4096 0 Rfuse_readdir_cb 2 None) =
      [Client_pool_get_client (Dir_tree_fill_dir_on_http_ready d'),
       Readdir_cb Rfuse_readdir_cb 2 False 4096 0 None 0])"
proof -
  have a: "h_inodes tree_f (lo_ino op_head_2) = Some (the (h_inodes tree_f 2))"
    by code_simp
  have o: "lo_ino op_head_2 = 2" "lo_req op_head_2 = 9"
    by (simp_all add: op_head_2_def)
  have b: "h_inodes tree_listing_dispatched (fd_ino (fill_of 1 10 2)) = Some (the (h_inodes tree_listing_dispatched 1))"
    by code_simp
  have f: "fd_ino (fill_of 1 10 2) = 1"
    by (simp add: fill_of_def)
  have v: "age (the (h_inodes tree_listing_dispatched 1)) = 1"
    by code_simp
  have path: "fullpath (the (h_inodes tree_f 2)) = ''f''"
    by code_simp
  have n0: "h_inodes tree0 (lo_ino op_head_2) = None" "h_inodes tree0 (fd_ino (fill_of 7 10 2)) = None"
    by code_simp+
  have r0: "h_inodes tree0 1 = Some (the (h_inodes tree0 1))"
    by code_simp
  have r1: "en_type (the (h_inodes tree0 1)) = DET_dir"
    "dir_tree_is_cache_expired 100 tree0 (the (h_inodes tree0 1))"
    "\<not> dir_cache_updating (the (h_inodes tree0 1))"
    "dir_cache_created (the (h_inodes tree0 1)) = 0"
    by code_simp+
  note inst = failed_refresh_frame [of tree_f op_head_2 100 no_headers]
  note inst2 = failed_refresh_frame [of tree_listing_dispatched _ 100 _ "fill_of 1 10 2"]
  note inst3 = failed_refresh_frame [of tree0 op_head_2 100 no_headers "fill_of 7 10 2"
      1 None 0 4096 Rfuse_readdir_cb 2]
  from inst a o have 1: "dir_tree_on_lookup_cb 100 tree_f op_head_2 False no_headers =
     (tree_f\<lparr>h_inodes := (h_inodes tree_f)(2 \<mapsto> (the (h_inodes tree_f 2))\<lparr>is_updating := False\<rparr>)\<rparr>,
      [Http_connection_release, Lookup_cb 9 False 0 0 0 0])"
    by simp
  from inst a o path have 3: "dir_tree_on_lookup_con_cb False tree_f op_head_2 =
     (tree_f\<lparr>h_inodes := (h_inodes tree_f)(2 \<mapsto> (the (h_inodes tree_f 2))\<lparr>is_updating := False\<rparr>)\<rparr>,
      [Http_connection_acquire,
       Http_connection_make_request ''/f'' ''HEAD'' (Dir_tree_on_lookup_cb op_head_2),
       Http_connection_release, Lookup_cb 9 False 0 0 0 0])"
    by simp
  from inst2 b obtain en' where en': "dir_tree_fill_on_dir_buf_cb 100 tree_listing_dispatched (fill_of 1 10 2) False =
      (tree_listing_dispatched\<lparr>h_inodes := (h_inodes tree_listing_dispatched)(fd_ino (fill_of 1 10 2) \<mapsto> en')\<rparr>,
       [readdir_failed (fill_of 1 10 2)])"
    "en'\<lparr>is_modified := is_modified (the (h_inodes tree_listing_dispatched 1))\<rparr> =
       (the (h_inodes tree_listing_dispatched 1))\<lparr>dir_cache_updating := False\<rparr>"
    by blast
  from en'(2) have "age (en'\<lparr>is_modified := is_modified (the (h_inodes tree_listing_dispatched 1))\<rparr>) =
       age ((the (h_inodes tree_listing_dispatched 1))\<lparr>dir_cache_updating := False\<rparr>)"
      "dir_cache_updating (en'\<lparr>is_modified := is_modified (the (h_inodes tree_listing_dispatched 1))\<rparr>) =
       dir_cache_updating ((the (h_inodes tree_listing_dispatched 1))\<lparr>dir_cache_updating := False\<rparr>)"
    by simp_all
  then have "age en' = 1" "dir_cache_updating en' = False"
    using v by simp_all
  with en'(1) f have 2:
    "snd (dir_tree_fill_on_dir_buf_cb 100 tree_listing_dispatched (fill_of 1 10 2) False) =
       [readdir_failed (fill_of 1 10 2)] \<and>
     map_option age (h_inodes (fst (dir_tree_fill_on_dir_buf_cb 100 tree_listing_dispatched (fill_of 1 10 2) False)) 1)
       = Some 1 \<and>
     map_option dir_cache_updating
       (h_inodes (fst (dir_tree_fill_on_dir_buf_cb 100 tree_listing_dispatched (fill_of 1 10 2) False)) 1)
       = Some False"
    by simp
  from inst3 n0 o have 4: "dir_tree_on_lookup_cb 100 tree0 op_head_2 False no_headers =
       (tree0, [Http_connection_release, Lookup_cb 9 False 0 0 0 0]) \<and>
     dir_tree_on_lookup_con_cb False tree0 op_head_2 = (tree0, [Lookup_cb 9 False 0 0 0 0]) \<and>
     dir_tree_fill_on_dir_buf_cb 100 tree0 (fill_of 7 10 2) False = (tree0, [readdir_failed (fill_of 7 10 2)])"
    by simp
  have hyp: "h_inodes tree0 1 = Some (the (h_inodes tree0 1)) \<and>
      en_type (the (h_inodes tree0 1)) = DET_dir \<and>
      (\<forall>h dp. (None :: nat option) = Some h \<and> dir_ops tree0 h = Some dp \<longrightarrow> dop_buf dp = None) \<and>
      dir_tree_is_cache_expired 100 tree0 (the (h_inodes tree0 1)) \<and> (0 :: int) \<le> 0 \<and>
      \<not> dir_cache_updating (the (h_inodes tree0 1)) \<and>
      (dir_cache_created (the (h_inodes tree0 1)) = 0 \<or>
       100 - dir_cache_created (the (h_inodes tree0 1)) > uint (dir_cache_max_time (app tree0)))"
    using r0 r1 by simp
  note 5 = inst3 [THEN conjunct2, THEN conjunct2, THEN conjunct2, THEN conjunct2, THEN conjunct2,
      rule_format, OF hyp]
  from 1 2 3 4 5 show ?thesis
    by simp
qed

text \<open>
  C7 as stated fails for a listing refresh: after a mkdir under the root and the dispatch
  of a listing, the root has \<open>is_modified\<close> and \<open>dir_cache_updating\<close> set; the failed
  completion clears both, and \<open>is_updating\<close> was never set.
\<close>

theorem failed_listing_clears_flags_counterexample:
  "run_enabled evs_listing_dispatched (tree0, []) \<and>
   map_option is_modified (h_inodes tree_listing_dispatched 1) = Some True \<and>
   map_option dir_cache_updating (h_inodes tree_listing_dispatched 1) = Some True \<and>
   map_option is_updating (h_inodes tree_listing_dispatched 1) = Some False \<and>
   enabled tree_listing_dispatched (snd (run_events evs_listing_dispatched (tree0, [])))
     (Ev_listing_done 100 (fill_of 1 10 2) False) \<and>
   snd (dir_tree_fill_on_dir_buf_cb 100 tree_listing_dispatched (fill_of 1 10 2) False) =
     [Readdir_cb Rfuse_readdir_cb 2 False 4096 0 None 0] \<and>
   map_option is_modified
     (h_inodes (fst (dir_tree_fill_on_dir_buf_cb 100 tree_listing_dispatched (fill_of 1 10 2) False)) 1)
     = Some False \<and>
   map_option dir_cache_updating
     (h_inodes (fst (dir_tree_fill_on_dir_buf_cb 100 tree_listing_dispatched (fill_of 1 10 2) False)) 1)
     = Some False"
  by code_simp

subsection \<open>The lookup that follows a listing\<close>

text \<open>
  C9, evaluated on the code. With \<^verbatim>\<open>filesystem.dir_cache_max_time\<close> set to 0, a lookup
  of \<^verbatim>\<open>a.txt\<close> in the empty tree finds the cache of the root expired and starts a
  listing whose continuation is \<^verbatim>\<open>dir_tree_on_lookup_read\<close>. The listing completes at
  time 100. When the continuation repeats the lookup in the same second, the entry is
  found and the lookup replies. When the clock shows 101 at the repeated lookup, the cache
  that was filled at 100 is expired again: the lookup starts a second listing with the same
  continuation and makes no reply; after that listing, at 102, it starts a third. Nothing
  in the tree counts the repetitions.
\<close>

theorem lookup_retry_starts_another_listing:
  "dir_cache_max_time (app tree0_no_dir_cache) = 0 \<and>
   run_enabled evs_lookup_retries (tree0_no_dir_cache, []) \<and>
   snd (run_events (take 5 evs_lookup_retries @ [Ev_on_lookup_read 100 True op_a True])
          (tree0_no_dir_cache, [])) =
     [Client_pool_get_client (Dir_tree_fill_dir_on_http_ready fill_a),
      Http_connection_get_directory_listing [] 1 fill_a,
      Readdir_cb (Dir_tree_on_lookup_read op_a) 1 True 1048576 0
        (Some [(''.'', 1, 0), (''..'', 1, 0), (''a.txt'', 2, 100)]) 3,
      Lookup_cb 1 True 2 33188 100 50] \<and>
   map_option (dir_tree_is_cache_expired 101 (fst (run_events (take 5 evs_lookup_retries) (tree0_no_dir_cache, []))))
     (h_inodes (fst (run_events (take 5 evs_lookup_retries) (tree0_no_dir_cache, []))) 1) = Some True \<and>
   snd (run_events evs_lookup_retries (tree0_no_dir_cache, [])) =
     [Client_pool_get_client (Dir_tree_fill_dir_on_http_ready fill_a),
      Http_connection_get_directory_listing [] 1 fill_a,
      Readdir_cb (Dir_tree_on_lookup_read op_a) 1 True 1048576 0
        (Some [(''.'', 1, 0), (''..'', 1, 0), (''a.txt'', 2, 100)]) 3,
      Client_pool_get_client (Dir_tree_fill_dir_on_http_ready fill_a),
      Http_connection_get_directory_listing [] 1 fill_a,
      Readdir_cb (Dir_tree_on_lookup_read op_a) 1 True 1048576 0
        (Some [(''.'', 1, 0), (''..'', 1, 0), (''a.txt'', 2, 100)]) 3,
      Client_pool_get_client (Dir_tree_fill_dir_on_http_ready fill_a)]"
  by code_simp


end
